(* ===== verification/Prelude.thy ===== *)
theory Prelude
  imports Main "HOL-Library.Sublist" "HOL-Library.Word"
begin

text \<open>
  Shared vocabulary of the go-blar development: the fragments of Go's standard
  library the sources call (\<open>strings.Split\<close>, \<open>strings.TrimSpace\<close>,
  \<open>strings.HasPrefix\<close>, \<open>strings.TrimPrefix\<close>, \<open>strings.Contains\<close>,
  \<open>reflect.StructTag.Get\<close>), the ASCII character classes the naming code tests
  with \<open>r >= 'A' && r <= 'Z'\<close>, and the generic lemmas on them that the component
  theories use.  Runes are modelled as \<^typ>\<open>char\<close>: every test of the sources is
  on ASCII ranges, which a byte and a code point answer alike.
\<close>

named_theorems go_string_simps "evaluation rules of the modelled Go string functions"

section \<open>Characters\<close>

definition is_upper :: "char \<Rightarrow> bool" where
  "is_upper c \<longleftrightarrow> (65::nat) \<le> of_char c \<and> (of_char c :: nat) \<le> 90"

definition is_lower :: "char \<Rightarrow> bool" where
  "is_lower c \<longleftrightarrow> (97::nat) \<le> of_char c \<and> (of_char c :: nat) \<le> 122"

text \<open>\<open>unicode.ToLower\<close> restricted to ASCII: the upper-case letters move by 32.\<close>

definition ascii_lower :: "char \<Rightarrow> char" where
  "ascii_lower c = (if is_upper c then char_of (of_char c + (32::nat)) else c)"

definition is_space :: "char \<Rightarrow> bool" where
  "is_space c \<longleftrightarrow> of_char c \<in> {9::nat, 10, 11, 12, 13, 32}"

lemma not_upper_and_lower [simp]: "is_upper c \<Longrightarrow> \<not> is_lower c"
  by (simp add: is_upper_def is_lower_def)

lemma upper_not_underscore [simp]: "is_upper c \<Longrightarrow> c \<noteq> CHR ''_''"
  by (auto simp: is_upper_def)

lemma lower_not_underscore [simp]: "is_lower c \<Longrightarrow> c \<noteq> CHR ''_''"
  by (auto simp: is_lower_def)

lemma of_char_underscore: "(of_char (CHR ''_'') :: nat) = 95"
  by simp

lemma of_char_ascii_lower:
  "of_char (ascii_lower c) = (if is_upper c then of_char c + 32 else (of_char c :: nat))"
  by (auto simp: ascii_lower_def is_upper_def)

lemma ascii_lower_not_upper [simp]: "\<not> is_upper (ascii_lower c)"
  by (auto simp: is_upper_def of_char_ascii_lower)

lemma ascii_lower_idem [simp]: "ascii_lower (ascii_lower c) = ascii_lower c"
  by (simp add: ascii_lower_def [of "ascii_lower c"])

lemma ascii_lower_underscore_iff [simp]:
  "ascii_lower c = CHR ''_'' \<longleftrightarrow> c = CHR ''_''"
proof -
  have eq: "x = CHR ''_'' \<longleftrightarrow> (of_char x :: nat) = 95" for x
    by (metis of_char_eq_iff of_char_underscore)
  show ?thesis
    unfolding eq [of "ascii_lower c"] eq [of c]
    by (simp add: of_char_ascii_lower is_upper_def)
qed

lemma ascii_lower_is_upper_lower [simp]: "is_upper c \<Longrightarrow> is_lower (ascii_lower c)"
  by (auto simp: is_lower_def of_char_ascii_lower is_upper_def)

section \<open>strings.Split with a one-character separator\<close>

fun split_acc :: "char \<Rightarrow> string \<Rightarrow> string \<Rightarrow> string list" where
  "split_acc d cur [] = [rev cur]"
| "split_acc d cur (c # cs) =
     (if c = d then rev cur # split_acc d [] cs else split_acc d (c # cur) cs)"

text \<open>\<open>strings.Split(s, sep)\<close>: one piece more than there are separators, so the
  empty string gives \<open>[""]\<close>.\<close>

definition go_split :: "char \<Rightarrow> string \<Rightarrow> string list" where
  "go_split d s = split_acc d [] s"

text \<open>\<open>strings.Join(ps, sep)\<close>, the inverse the round trip below is stated with.\<close>

fun go_join :: "char \<Rightarrow> string list \<Rightarrow> string" where
  "go_join d [] = []"
| "go_join d [p] = p"
| "go_join d (p # ps) = p @ d # go_join d ps"

lemma split_acc_nonempty [simp]: "split_acc d cur s \<noteq> []"
  by (induction d cur s rule: split_acc.induct) auto

lemma split_acc_join:
  "go_join d (split_acc d cur s) = rev cur @ s"
proof (induction d cur s rule: split_acc.induct)
  case (1 d cur)
  then show ?case by simp
next
  case (2 d cur c cs)
  then show ?case
    by (cases "split_acc d [] cs") auto
qed

lemma split_acc_no_sep: "p \<in> set (split_acc d cur s) \<Longrightarrow> d \<notin> set cur \<Longrightarrow> d \<notin> set p"
  by (induction d cur s rule: split_acc.induct) (auto split: if_splits)

lemma go_split_join: "go_join d (go_split d s) = s"
  by (simp add: go_split_def split_acc_join)

lemma go_split_no_sep: "p \<in> set (go_split d s) \<Longrightarrow> d \<notin> set p"
  unfolding go_split_def by (erule split_acc_no_sep) simp

lemma go_split_nonempty [simp]: "go_split d s \<noteq> []"
  by (simp add: go_split_def)

lemma go_split_Nil [simp, go_string_simps]: "go_split d [] = [[]]"
  by (simp add: go_split_def)

lemma go_split_no_sep_single: "d \<notin> set s \<Longrightarrow> go_split d s = [s]"
proof -
  have "d \<notin> set s \<Longrightarrow> split_acc d cur s = [rev cur @ s]" for cur
    by (induction d cur s rule: split_acc.induct) auto
  then show "d \<notin> set s \<Longrightarrow> go_split d s = [s]" by (simp add: go_split_def)
qed

lemma split_acc_append_sep:
  "split_acc d cur (p @ d # q) = split_acc d cur p @ split_acc d [] q"
  by (induction p arbitrary: cur) auto

lemma go_split_append_sep: "go_split d (p @ d # q) = go_split d p @ go_split d q"
  by (simp add: go_split_def split_acc_append_sep)

section \<open>strings.TrimSpace, HasPrefix, TrimPrefix, Contains\<close>

definition trim_space :: "string \<Rightarrow> string" where
  "trim_space s = rev (dropWhile is_space (rev (dropWhile is_space s)))"

definition has_prefix :: "string \<Rightarrow> string \<Rightarrow> bool" where
  "has_prefix p s \<longleftrightarrow> take (length p) s = p"

definition trim_prefix :: "string \<Rightarrow> string \<Rightarrow> string" where
  "trim_prefix p s = (if has_prefix p s then drop (length p) s else s)"

fun contains :: "string \<Rightarrow> string \<Rightarrow> bool" where
  "contains sub [] \<longleftrightarrow> sub = []"
| "contains sub (c # cs) \<longleftrightarrow> has_prefix sub (c # cs) \<or> contains sub cs"

lemma has_prefix_iff: "has_prefix p s \<longleftrightarrow> prefix p s"
  by (metis append_eq_conv_conj has_prefix_def prefix_def)

lemma has_prefix_append [simp]: "has_prefix p (p @ s)"
  by (simp add: has_prefix_def)

lemma trim_prefix_append [simp]: "trim_prefix p (p @ s) = s"
  by (simp add: trim_prefix_def)

lemma has_prefix_trim_prefix: "has_prefix p s \<Longrightarrow> p @ trim_prefix p s = s"
  by (simp add: has_prefix_def trim_prefix_def) (metis append_take_drop_id)

lemma contains_iff_sublist: "contains sub s \<longleftrightarrow> sublist sub s"
proof (induction s)
  case Nil
  then show ?case by simp
next
  case (Cons c cs)
  then show ?case
    by (auto simp: has_prefix_iff sublist_Cons_right)
qed

lemma contains_append_iff: "contains sub (xs @ sub @ ys)"
  by (simp add: contains_iff_sublist)

section \<open>reflect.StructTag.Get\<close>

text \<open>
  A struct tag such as \<^verbatim>\<open>`gorm:"primaryKey" go-blar:"pk"`\<close> is read as the list of its
  key/value pairs in source order.  \<open>Get(key)\<close> returns the value of the first pair
  with that key and the empty string when there is none.
\<close>

type_synonym struct_tag = "(string \<times> string) list"

definition tag_get :: "struct_tag \<Rightarrow> string \<Rightarrow> string" where
  "tag_get tag key = (case map_of tag key of None \<Rightarrow> [] | Some v \<Rightarrow> v)"

lemma tag_get_Nil [simp, go_string_simps]: "tag_get [] key = []"
  by (simp add: tag_get_def)

lemma tag_get_Cons [simp, go_string_simps]:
  "tag_get ((k, v) # tag) key = (if k = key then v else tag_get tag key)"
  by (simp add: tag_get_def)

end
