(* ===== verification/Naming.thy ===== *)
theory Naming
  imports Prelude
begin

text \<open>
  The naming transform of \<^verbatim>\<open>src/internal/meta/parse.go\<close> (\<open>toSnakeCase\<close>, lines
  153--180): a loop over the runes of an identifier that writes an underscore before
  an upper-case letter at a word boundary and lower-cases the result.  The loop is
  \<open>snake_loop\<close>, index for index as in the source; \<open>snake_walk\<close> is a reference
  definition by structural recursion that carries the previous rune, and
  \<open>snake_loop_walk\<close> shows the two agree.  The properties are proved on the walk.
\<close>

section \<open>The loop of toSnakeCase\<close>

text \<open>One iteration: what the loop body writes for rune \<open>i\<close>.\<close>

definition snake_emit :: "char list \<Rightarrow> nat \<Rightarrow> char list" where
  "snake_emit rs i =
     (let r = rs ! i in
      if i = 0 then [r]
      else if r = CHR ''_'' then [r]
      else if is_upper r then
        (if rs ! (i - 1) \<noteq> CHR ''_'' \<and> is_lower (rs ! (i - 1)) then [CHR ''_'', r]
         else if rs ! (i - 1) \<noteq> CHR ''_'' \<and> i + 1 < length rs \<and> is_lower (rs ! (i + 1))
         then [CHR ''_'', r]
         else [r])
      else [r])"

function snake_loop :: "char list \<Rightarrow> nat \<Rightarrow> char list" where
  "snake_loop rs i = (if i < length rs then snake_emit rs i @ snake_loop rs (Suc i) else [])"
  by pat_completeness auto
termination
  by (relation "measure (\<lambda>(rs, i). length rs - i)") auto

declare snake_loop.simps [simp del]

definition to_snake_case :: "string \<Rightarrow> string" where
  "to_snake_case s = map ascii_lower (snake_loop s 0)"

section \<open>Reference: a walk that carries the previous rune\<close>

definition inserts :: "char option \<Rightarrow> char \<Rightarrow> char list \<Rightarrow> bool" where
  "inserts prev r rest \<longleftrightarrow>
     (case prev of
        None \<Rightarrow> False
      | Some p \<Rightarrow> is_upper r \<and> p \<noteq> CHR ''_'' \<and>
                   (is_lower p \<or> (rest \<noteq> [] \<and> is_lower (hd rest))))"

fun snake_walk :: "char option \<Rightarrow> char list \<Rightarrow> char list" where
  "snake_walk prev [] = []"
| "snake_walk prev (r # rest) =
     (if inserts prev r rest then [CHR ''_'', r] else [r]) @ snake_walk (Some r) rest"

lemma snake_emit_inserts:
  assumes "i < length s"
  shows "snake_emit s i =
           (if inserts (if i = 0 then None else Some (s ! (i - 1))) (s ! i) (drop (Suc i) s)
            then [CHR ''_'', s ! i] else [s ! i])"
  using assms
  by (auto simp: snake_emit_def inserts_def Let_def hd_drop_conv_nth)

lemma snake_loop_walk:
  "i \<le> length s \<Longrightarrow>
     snake_loop s i = snake_walk (if i = 0 then None else Some (s ! (i - 1))) (drop i s)"
proof (induction s i rule: snake_loop.induct)
  case (1 s i)
  show ?case
  proof (cases "i < length s")
    case True
    then have "drop i s = s ! i # drop (Suc i) s"
      by (simp add: Cons_nth_drop_Suc)
    with True "1.IH" show ?thesis
      by (simp add: snake_loop.simps [of s i] snake_emit_inserts)
  next
    case False
    with "1.prems" have "i = length s" by simp
    then show ?thesis
      by (subst snake_loop.simps) simp
  qed
qed

lemma to_snake_case_walk: "to_snake_case s = map ascii_lower (snake_walk None s)"
  by (simp add: to_snake_case_def snake_loop_walk)

text \<open>Two underscores in a row.\<close>

fun dup_underscore :: "string \<Rightarrow> bool" where
  "dup_underscore (a # b # rest) \<longleftrightarrow>
     (a = CHR ''_'' \<and> b = CHR ''_'') \<or> dup_underscore (b # rest)"
| "dup_underscore _ \<longleftrightarrow> False"

section \<open>Facts about the walk\<close>

lemma snake_walk_filter:
  "filter (\<lambda>c. c \<noteq> CHR ''_'') (snake_walk p rs) = filter (\<lambda>c. c \<noteq> CHR ''_'') rs"
  by (induction rs arbitrary: p) auto

lemma snake_walk_length:
  "length rs \<le> length (snake_walk p rs) \<and> length (snake_walk p rs) \<le> 2 * length rs"
proof (induction rs arbitrary: p)
  case Nil
  then show ?case by simp
next
  case (Cons r rest)
  from Cons.IH [of "Some r"] show ?case by auto
qed

lemma snake_walk_None_length:
  "rs \<noteq> [] \<Longrightarrow> length (snake_walk None rs) < 2 * length rs"
proof (cases rs)
  case (Cons r rest)
  then show ?thesis
    using snake_walk_length [of rest "Some r"] by (simp add: inserts_def)
qed simp

lemma snake_walk_no_upper: "\<forall>c \<in> set rs. \<not> is_upper c \<Longrightarrow> snake_walk p rs = rs"
  by (induction rs arbitrary: p) (auto simp: inserts_def split: option.splits)

lemma dup_underscore_map_lower:
  "dup_underscore (map ascii_lower xs) \<longleftrightarrow> dup_underscore xs"
  by (induction xs rule: dup_underscore.induct) auto

lemma snake_walk_Some_no_dup:
  "\<not> dup_underscore (p # rs) \<Longrightarrow> \<not> dup_underscore (p # snake_walk (Some p) rs)"
proof (induction rs arbitrary: p)
  case Nil
  then show ?case by simp
next
  case (Cons r rest)
  have "\<not> dup_underscore (r # snake_walk (Some r) rest)"
    using Cons.prems by (intro Cons.IH) simp
  with Cons.prems show ?case
    by (auto simp: inserts_def)
qed

lemma snake_walk_None_no_dup:
  "\<not> dup_underscore rs \<Longrightarrow> \<not> dup_underscore (snake_walk None rs)"
proof (cases rs)
  case (Cons r rest)
  moreover assume "\<not> dup_underscore rs"
  ultimately show ?thesis
    using snake_walk_Some_no_dup [of r rest] by (simp add: inserts_def)
qed simp

section \<open>Properties of toSnakeCase\<close>

text \<open>The table of \<open>TestToSnakeCase\<close> (parse_test.go): \<open>UserName\<close>, \<open>ID\<close>,
  \<open>Product\<close> and \<open>HTTPServer\<close> become \<open>user_name\<close>, \<open>id\<close>, \<open>product\<close> and
  \<open>http_server\<close>; an acronym stays one word and is split from the word after it.\<close>

theorem to_snake_case_table:
  "to_snake_case ''UserName'' = ''user_name'' \<and> to_snake_case ''ID'' = ''id'' \<and>
   to_snake_case ''Product'' = ''product'' \<and> to_snake_case ''HTTPServer'' = ''http_server''"
  by code_simp

text \<open>C32: the transform only inserts underscores and lower-cases: with every
  underscore removed, its output is the lower-cased input with every underscore removed.\<close>

theorem to_snake_case_only_inserts_underscores:
  "filter (\<lambda>c. c \<noteq> CHR ''_'') (to_snake_case s) =
   filter (\<lambda>c. c \<noteq> CHR ''_'') (map ascii_lower s)"
proof -
  have "filter (\<lambda>c. c \<noteq> CHR ''_'') (map ascii_lower xs) =
          map ascii_lower (filter (\<lambda>c. c \<noteq> CHR ''_'') xs)" for xs
    by (induction xs) auto
  then show ?thesis
    by (simp add: to_snake_case_walk snake_walk_filter)
qed

text \<open>For a non-empty identifier the output is at least as long as the input and
  shorter than twice its length (no underscore is written before the first rune).\<close>

theorem to_snake_case_length_bounds:
  assumes "s \<noteq> []"
  shows "length s \<le> length (to_snake_case s) \<and> length (to_snake_case s) < 2 * length s"
  using snake_walk_length [of s None] snake_walk_None_length [OF assms]
  by (simp add: to_snake_case_walk)

theorem to_snake_case_length_bounds_witness:
  "''HTTPServer'' \<noteq> [] \<and> length ''HTTPServer'' \<le> length (to_snake_case ''HTTPServer'') \<and>
   length (to_snake_case ''HTTPServer'') < 2 * length ''HTTPServer''"
  using to_snake_case_length_bounds [of "''HTTPServer''"] by simp

text \<open>The transform is idempotent: its output has no upper-case letter, so a second
  pass inserts nothing and lower-cases nothing.\<close>

theorem to_snake_case_idempotent: "to_snake_case (to_snake_case s) = to_snake_case s"
proof -
  have "\<forall>c \<in> set (to_snake_case s). \<not> is_upper c"
    by (simp add: to_snake_case_walk)
  then have "snake_walk None (to_snake_case s) = to_snake_case s"
    by (rule snake_walk_no_upper)
  then show ?thesis
    by (simp add: to_snake_case_walk [of "to_snake_case s"]) (simp add: to_snake_case_walk)
qed

text \<open>An inserted underscore never doubles one already present: an identifier
  without two consecutive underscores yields a name without them.\<close>

theorem to_snake_case_no_double_underscore:
  "\<not> dup_underscore s \<Longrightarrow> \<not> dup_underscore (to_snake_case s)"
  by (simp add: to_snake_case_walk dup_underscore_map_lower snake_walk_None_no_dup)

theorem to_snake_case_no_double_underscore_witness:
  "\<not> dup_underscore ''User_IDCard'' \<and> \<not> dup_underscore (to_snake_case ''User_IDCard'')"
proof -
  have h: "\<not> dup_underscore ''User_IDCard''" by simp
  show ?thesis using h to_snake_case_no_double_underscore [OF h] by simp
qed

end
