(* ===== verification/Meta_Model.thy ===== *)
theory Meta_Model
  imports Prelude
begin

text \<open>
  The metadata model of \<^verbatim>\<open>src/unnamed/part_002\<close> (package \<open>meta\<close>: \<open>FieldMeta\<close>,
  \<open>ForeignKey\<close>, \<open>ManyToMany\<close>, \<open>NestedMeta\<close>, \<open>AggregateMeta\<close>, \<open>EntityMeta\<close>
  and the lookups \<open>GetFieldByName\<close>, \<open>GetAggregateByName\<close>), and the part of Go's
  \<open>reflect\<close> package the parser reads: a type is a predeclared type, a pointer, a
  slice or a named struct with its declared fields; \<open>reflect.StructField\<close> is
  \<open>struct_field\<close>, built by \<open>mk_struct_field\<close> as \<open>t.Field(i)\<close> builds it.  Pointers to
  \<open>FieldMeta\<close> are modelled by the values they point to: nothing mutates a
  \<open>FieldMeta\<close> once \<open>Parse\<close> has returned it.
\<close>

section \<open>Go types, as reflect sees them\<close>

datatype gtype =
    TBasic string
  | TPtr gtype
  | TSlice gtype
  | TStruct string string "field_decl list"  \<comment> \<open>package name, type name, fields\<close>
and field_decl =
    FieldDecl string string gtype struct_tag  \<comment> \<open>name, PkgPath, type, tag\<close>

record struct_field =
  sf_name :: string
  sf_pkg_path :: string
  sf_type :: gtype
  sf_tag :: struct_tag
  sf_index :: "nat list"

text \<open>\<open>t.String()\<close>: the package-qualified name of a named struct type.\<close>

fun type_string :: "gtype \<Rightarrow> string" where
  "type_string (TBasic n) = n"
| "type_string (TPtr t) = CHR ''*'' # type_string t"
| "type_string (TSlice t) = ''[]'' @ type_string t"
| "type_string (TStruct pkg n fs) = pkg @ CHR ''.'' # n"

text \<open>\<open>t.Name()\<close>: empty for the unnamed pointer and slice types.\<close>

fun type_name :: "gtype \<Rightarrow> string" where
  "type_name (TBasic n) = n"
| "type_name (TPtr t) = []"
| "type_name (TSlice t) = []"
| "type_name (TStruct pkg n fs) = n"

fun fd_name :: "field_decl \<Rightarrow> string" where
  "fd_name (FieldDecl n p t g) = n"

fun fd_pkg_path :: "field_decl \<Rightarrow> string" where
  "fd_pkg_path (FieldDecl n p t g) = p"

text \<open>\<open>t.Field(i)\<close> for the \<open>i\<close>-th declared field: its \<open>Index\<close> is \<open>[i]\<close>.\<close>

fun mk_struct_field :: "nat \<Rightarrow> field_decl \<Rightarrow> struct_field" where
  "mk_struct_field i (FieldDecl n p t g) =
     \<lparr>sf_name = n, sf_pkg_path = p, sf_type = t, sf_tag = g, sf_index = [i]\<rparr>"

text \<open>\<open>t.FieldByName(name)\<close> on a struct type: the first declared field of that name.\<close>

fun find_field :: "nat \<Rightarrow> field_decl list \<Rightarrow> string \<Rightarrow> struct_field option" where
  "find_field i [] name = None"
| "find_field i (d # ds) name =
     (if fd_name d = name then Some (mk_struct_field i d) else find_field (Suc i) ds name)"

section \<open>The metadata records\<close>

record foreign_key =
  fk_table_name :: string
  fk_field_name :: string

record many_to_many =
  m2m_table_name :: string
  m2m_field_name :: string

record field_meta =
  fm_name :: string
  fm_type :: gtype
  fm_index :: "nat list"
  fm_is_pk :: bool
  fm_fk :: "foreign_key option"
  fm_nested :: bool
  fm_m2m :: "many_to_many option"
  fm_list :: bool
  fm_hidden :: bool
  fm_read_only :: bool

record nested_meta =
  nm_name :: string
  nm_type :: gtype
  nm_index :: "nat list"

record aggregate_meta =
  ag_name :: string
  ag_type :: string
  ag_field :: string

record entity_meta =
  em_type :: gtype
  em_name :: string
  em_table_name :: string
  em_pk_field :: "field_meta option"
  em_fields :: "field_meta list"
  em_nested :: "nested_meta list"
  em_aggregates :: "aggregate_meta list"

section \<open>Lookups\<close>

text \<open>\<open>GetFieldByName\<close> and \<open>GetAggregateByName\<close>: the first match, \<open>nil\<close> as \<^const>\<open>None\<close>.\<close>

definition get_field_by_name :: "entity_meta \<Rightarrow> string \<Rightarrow> field_meta option" where
  "get_field_by_name em name = find (\<lambda>f. fm_name f = name) (em_fields em)"

definition get_aggregate_by_name :: "entity_meta \<Rightarrow> string \<Rightarrow> aggregate_meta option" where
  "get_aggregate_by_name em name = find (\<lambda>a. ag_name a = name) (em_aggregates em)"

section \<open>Facts\<close>

lemma find_field_Some:
  "find_field i ds name = Some sf \<Longrightarrow>
     \<exists>k < length ds. sf = mk_struct_field (i + k) (ds ! k) \<and> fd_name (ds ! k) = name"
proof (induction i ds name rule: find_field.induct)
  case (1 i name)
  then show ?case by simp
next
  case (2 i d ds name)
  show ?case
  proof (cases "fd_name d = name")
    case True
    with "2.prems" show ?thesis by auto
  next
    case False
    with "2.prems" obtain k where "k < length ds" "sf = mk_struct_field (Suc i + k) (ds ! k)"
        "fd_name (ds ! k) = name"
      using "2.IH" by auto
    then show ?thesis by (intro exI [of _ "Suc k"]) auto
  qed
qed

lemma type_string_struct_dot: "CHR ''.'' \<in> set (type_string (TStruct pkg n fs))"
  by simp

lemma sf_name_mk [simp]: "sf_name (mk_struct_field i d) = fd_name d"
  by (cases d) simp

lemma sf_pkg_path_mk [simp]: "sf_pkg_path (mk_struct_field i d) = fd_pkg_path d"
  by (cases d) simp

lemma sf_index_mk [simp]: "sf_index (mk_struct_field i d) = [i]"
  by (cases d) simp

section \<open>Properties of the lookups\<close>

text \<open>\<open>GetFieldByName\<close> returns the first field of that name in declaration
  order, and \<open>nil\<close> when no field has it.\<close>

theorem get_field_by_name_first:
  "get_field_by_name em n =
     (case dropWhile (\<lambda>f. fm_name f \<noteq> n) (em_fields em) of [] \<Rightarrow> None | f # _ \<Rightarrow> Some f)"
proof -
  have "find P xs = (case dropWhile (Not \<circ> P) xs of [] \<Rightarrow> None | x # _ \<Rightarrow> Some x)" for P xs
    by (induction xs) auto
  then show ?thesis by (simp add: get_field_by_name_def comp_def)
qed

end
