(* ===== verification/Tags.thy ===== *)
theory Tags
  imports Meta_Model
begin

text \<open>
  The tag parser of \<^verbatim>\<open>src/internal/meta/parse.go\<close>: \<open>parseField\<close> (lines 68--134)
  reads the \<open>go-blar\<close> tag of a struct field as \<open>;\<close>-separated fragments and the
  \<open>gorm\<close> tag for the \<open>primaryKey\<close> modifier; \<open>parseGormTag\<close> (lines 136--151)
  finds a \<open>table:\<close> fragment.  \<open>apply_fragment\<close> is one arm of the \<open>switch\<close>
  on a trimmed fragment, in the source's order.  The \<open>count:\<close> and \<open>sum:\<close> arms
  build an \<open>AggregateMeta\<close> and discard it (\<open>_ = meta\<close>), so they leave the field
  unchanged.
\<close>

section \<open>parseField\<close>

definition apply_fragment :: "field_meta \<Rightarrow> string \<Rightarrow> field_meta" where
  "apply_fragment fm part =
     (if part = ''pk'' then fm\<lparr>fm_is_pk := True\<rparr>
      else if part = ''nested'' then fm\<lparr>fm_nested := True\<rparr>
      else if part = ''list'' then fm\<lparr>fm_list := True\<rparr>
      else if part = ''hidden'' then fm\<lparr>fm_hidden := True\<rparr>
      else if part = ''readonly'' then fm\<lparr>fm_read_only := True\<rparr>
      else if has_prefix ''fk:'' part then
        fm\<lparr>fm_fk := Some \<lparr>fk_table_name = trim_prefix ''fk:'' part, fk_field_name = []\<rparr>\<rparr>
      else if has_prefix ''m2m:'' part then
        fm\<lparr>fm_m2m := Some \<lparr>m2m_table_name = trim_prefix ''m2m:'' part, m2m_field_name = []\<rparr>\<rparr>
      else if has_prefix ''count:'' part then fm
      else if has_prefix ''sum:'' part then fm
      else fm)"

text \<open>The \<open>FieldMeta\<close> literal of line 77: name, type and index; every flag false.\<close>

definition base_field :: "struct_field \<Rightarrow> field_meta" where
  "base_field sf =
     \<lparr>fm_name = sf_name sf, fm_type = sf_type sf, fm_index = sf_index sf,
      fm_is_pk = False, fm_fk = None, fm_nested = False, fm_m2m = None,
      fm_list = False, fm_hidden = False, fm_read_only = False\<rparr>"

definition blar_fragments :: "string \<Rightarrow> string list" where
  "blar_fragments tag = map trim_space (go_split CHR '';'' tag)"

definition parse_field :: "struct_field \<Rightarrow> field_meta" where
  "parse_field sf =
     (let blar_tag = tag_get (sf_tag sf) ''go-blar'';
          gorm_tag = tag_get (sf_tag sf) ''gorm'';
          fm = base_field sf;
          fm = (if blar_tag \<noteq> [] then fold (\<lambda>part fm. apply_fragment fm part)
                                        (blar_fragments blar_tag) fm
                else fm)
      in if contains ''primaryKey'' gorm_tag then fm\<lparr>fm_is_pk := True\<rparr> else fm)"

section \<open>parseGormTag\<close>

fun find_table :: "string list \<Rightarrow> string" where
  "find_table [] = []"
| "find_table (part # parts) =
     (let part = trim_space part in
      if has_prefix ''table:'' part then trim_prefix ''table:'' part else find_table parts)"

definition parse_gorm_tag :: "string \<Rightarrow> string" where
  "parse_gorm_tag tag = (if tag = [] then [] else find_table (go_split CHR '';'' tag))"

section \<open>What the fragments do\<close>

lemma has_prefix_fk_not_flags:
  "has_prefix ''fk:'' part \<Longrightarrow> part \<notin> {''pk'', ''nested'', ''list'', ''hidden'', ''readonly''}"
  by (auto simp: has_prefix_def)

lemma apply_fragment_frame [simp]:
  "fm_name (apply_fragment fm p) = fm_name fm"
  "fm_type (apply_fragment fm p) = fm_type fm"
  "fm_index (apply_fragment fm p) = fm_index fm"
  by (simp_all add: apply_fragment_def)

lemma apply_fragment_flags:
  "fm_is_pk (apply_fragment fm p) \<longleftrightarrow> fm_is_pk fm \<or> p = ''pk''"
  "fm_nested (apply_fragment fm p) \<longleftrightarrow> fm_nested fm \<or> p = ''nested''"
  "fm_list (apply_fragment fm p) \<longleftrightarrow> fm_list fm \<or> p = ''list''"
  "fm_hidden (apply_fragment fm p) \<longleftrightarrow> fm_hidden fm \<or> p = ''hidden''"
  "fm_read_only (apply_fragment fm p) \<longleftrightarrow> fm_read_only fm \<or> p = ''readonly''"
  by (auto simp: apply_fragment_def)

lemmas fragment_simps = apply_fragment_frame apply_fragment_flags

lemma fold_fragments_frame [simp]:
  "fm_name (fold (\<lambda>p fm. apply_fragment fm p) ps fm) = fm_name fm"
  "fm_type (fold (\<lambda>p fm. apply_fragment fm p) ps fm) = fm_type fm"
  "fm_index (fold (\<lambda>p fm. apply_fragment fm p) ps fm) = fm_index fm"
  by (induction ps arbitrary: fm) simp_all

lemma fold_fragments_flags:
  "fm_is_pk (fold (\<lambda>p fm. apply_fragment fm p) ps fm) \<longleftrightarrow> fm_is_pk fm \<or> ''pk'' \<in> set ps"
  "fm_nested (fold (\<lambda>p fm. apply_fragment fm p) ps fm) \<longleftrightarrow> fm_nested fm \<or> ''nested'' \<in> set ps"
  "fm_list (fold (\<lambda>p fm. apply_fragment fm p) ps fm) \<longleftrightarrow> fm_list fm \<or> ''list'' \<in> set ps"
  "fm_hidden (fold (\<lambda>p fm. apply_fragment fm p) ps fm) \<longleftrightarrow> fm_hidden fm \<or> ''hidden'' \<in> set ps"
  "fm_read_only (fold (\<lambda>p fm. apply_fragment fm p) ps fm) \<longleftrightarrow>
     fm_read_only fm \<or> ''readonly'' \<in> set ps"
  by (induction ps arbitrary: fm) (auto simp: apply_fragment_flags)

lemma blar_fragments_Nil [simp]: "blar_fragments [] = [[]]"
  by (simp add: blar_fragments_def trim_space_def)

text \<open>The guard \<open>blarTag != ""\<close> changes nothing: the empty tag splits into one empty
  fragment, which no arm of the switch matches.\<close>

lemma parse_field_unguarded:
  "parse_field sf =
     (let fm = fold (\<lambda>p fm. apply_fragment fm p)
                 (blar_fragments (tag_get (sf_tag sf) ''go-blar'')) (base_field sf)
      in if contains ''primaryKey'' (tag_get (sf_tag sf) ''gorm'') then fm\<lparr>fm_is_pk := True\<rparr>
         else fm)"
  by (auto simp: parse_field_def Let_def apply_fragment_def has_prefix_def)

lemma parse_field_frame [simp]:
  "fm_name (parse_field sf) = sf_name sf"
  "fm_type (parse_field sf) = sf_type sf"
  "fm_index (parse_field sf) = sf_index sf"
  by (simp_all add: parse_field_unguarded Let_def base_field_def)

lemma parse_field_pk:
  "fm_is_pk (parse_field sf) \<longleftrightarrow>
     ''pk'' \<in> set (blar_fragments (tag_get (sf_tag sf) ''go-blar'')) \<or>
     contains ''primaryKey'' (tag_get (sf_tag sf) ''gorm'')"
  by (simp add: parse_field_unguarded Let_def fold_fragments_flags base_field_def)

lemma has_prefix_long: "has_prefix p part \<Longrightarrow> length p \<le> length part"
  by (auto simp: has_prefix_def dest: arg_cong [where f = length])

section \<open>Properties of parseField\<close>

text \<open>C5: the flags of a parsed field: a flag is set exactly when its fragment occurs
  among the trimmed \<open>;\<close>-separated fragments of the \<open>go-blar\<close> tag; the primary-key
  flag is set as well when the \<open>gorm\<close> tag contains \<open>primaryKey\<close>.\<close>

theorem parse_field_flags:
  "(fm_is_pk (parse_field sf) \<longleftrightarrow>
      ''pk'' \<in> set (blar_fragments (tag_get (sf_tag sf) ''go-blar'')) \<or>
      contains ''primaryKey'' (tag_get (sf_tag sf) ''gorm'')) \<and>
   (fm_nested (parse_field sf) \<longleftrightarrow>
      ''nested'' \<in> set (blar_fragments (tag_get (sf_tag sf) ''go-blar''))) \<and>
   (fm_list (parse_field sf) \<longleftrightarrow>
      ''list'' \<in> set (blar_fragments (tag_get (sf_tag sf) ''go-blar''))) \<and>
   (fm_hidden (parse_field sf) \<longleftrightarrow>
      ''hidden'' \<in> set (blar_fragments (tag_get (sf_tag sf) ''go-blar''))) \<and>
   (fm_read_only (parse_field sf) \<longleftrightarrow>
      ''readonly'' \<in> set (blar_fragments (tag_get (sf_tag sf) ''go-blar'')))"
  by (simp add: parse_field_unguarded Let_def fold_fragments_flags base_field_def)

text \<open>A field whose only annotation is \<open>go-blar:"hidden"\<close>, \<open>"readonly"\<close> or
  \<open>"list"\<close> gets exactly that flag: the parsed field is the bare field with that one
  flag set and nothing else.\<close>

theorem parse_field_single_flag:
  assumes "tag_get (sf_tag sf) ''gorm'' = []"
  shows "(tag_get (sf_tag sf) ''go-blar'' = ''hidden'' \<longrightarrow>
            parse_field sf = (base_field sf)\<lparr>fm_hidden := True\<rparr>) \<and>
         (tag_get (sf_tag sf) ''go-blar'' = ''readonly'' \<longrightarrow>
            parse_field sf = (base_field sf)\<lparr>fm_read_only := True\<rparr>) \<and>
         (tag_get (sf_tag sf) ''go-blar'' = ''list'' \<longrightarrow>
            parse_field sf = (base_field sf)\<lparr>fm_list := True\<rparr>)"
  using assms
  by (simp add: parse_field_def blar_fragments_def go_split_def trim_space_def is_space_def
      apply_fragment_def)

theorem parse_field_single_flag_witness:
  "parse_field \<lparr>sf_name = ''Secret'', sf_pkg_path = [], sf_type = TBasic ''string'',
                sf_tag = [(''go-blar'', ''hidden'')], sf_index = [2]\<rparr> =
     \<lparr>fm_name = ''Secret'', fm_type = TBasic ''string'', fm_index = [2], fm_is_pk = False,
      fm_fk = None, fm_nested = False, fm_m2m = None, fm_list = False, fm_hidden = True,
      fm_read_only = False\<rparr>"
  using parse_field_single_flag [of "\<lparr>sf_name = ''Secret'', sf_pkg_path = [],
      sf_type = TBasic ''string'', sf_tag = [(''go-blar'', ''hidden'')], sf_index = [2]\<rparr>"]
  by (simp add: base_field_def)

text \<open>C31: the relation fragments: \<open>fk:T\<close> and \<open>m2m:T\<close> record the table \<open>T\<close>
  and leave the target field name empty (the source never sets \<open>FieldName\<close>);
  \<open>count:P\<close> and \<open>sum:P\<close> leave the field unchanged, their aggregate being
  discarded.\<close>

theorem apply_fragment_relations:
  "apply_fragment fm (''fk:'' @ t) =
     fm\<lparr>fm_fk := Some \<lparr>fk_table_name = t, fk_field_name = []\<rparr>\<rparr> \<and>
   apply_fragment fm (''m2m:'' @ t) =
     fm\<lparr>fm_m2m := Some \<lparr>m2m_table_name = t, m2m_field_name = []\<rparr>\<rparr> \<and>
   apply_fragment fm (''count:'' @ t) = fm \<and>
   apply_fragment fm (''sum:'' @ t) = fm"
  by (auto simp: apply_fragment_def has_prefix_def trim_prefix_def)

end
