(* ===== verification/Registry.thy ===== *)
theory Registry
  imports Naming Tags
begin

text \<open>
  \<open>Parse\<close> and \<open>ClearRegistry\<close> of \<^verbatim>\<open>src/internal/meta/parse.go\<close> (lines 8--66 and
  182--185).  The package-level \<open>registry\<close> map of \<open>*EntityMeta\<close> pointers is made
  explicit: \<open>meta_state\<close> holds the registry (type string to pointer), the heap of
  allocated \<open>EntityMeta\<close> values and the next free address, so that "the same
  instance" is equality of pointers.  A Go panic inside \<open>Parse\<close> (\<open>t.Kind()\<close> on
  the nil type of a nil interface, \<open>t.FieldByName\<close> on a type that is not a struct)
  is an error value and leaves the state as it was: nothing is written before it.
\<close>

type_synonym ptr = nat

record meta_state =
  registry :: "string \<rightharpoonup> ptr"
  heap :: "ptr \<rightharpoonup> entity_meta"
  next_ptr :: ptr

datatype parse_error =
    PanicNilType            \<comment> \<open>\<open>reflect.TypeOf(nil).Kind()\<close>: nil dereference\<close>
  | PanicNonStruct string   \<comment> \<open>\<open>FieldByName\<close> of a non-struct type\<close>

definition init_meta_state :: meta_state where
  "init_meta_state = \<lparr>registry = Map.empty, heap = Map.empty, next_ptr = 0\<rparr>"

section \<open>Building an EntityMeta\<close>

text \<open>The \<open>EntityMeta\<close> literal of lines 26--33, default table name included.\<close>

definition new_entity_meta :: "gtype \<Rightarrow> entity_meta" where
  "new_entity_meta t =
     \<lparr>em_type = t, em_name = type_name t,
      em_table_name = to_snake_case (type_name t) @ ''s'',
      em_pk_field = None, em_fields = [], em_nested = [], em_aggregates = []\<rparr>"

text \<open>Lines 35--40: a field named \<open>gorm\<close> whose \<open>gorm\<close> tag holds \<open>table:NAME\<close>.\<close>

definition table_override :: "field_decl list \<Rightarrow> entity_meta \<Rightarrow> entity_meta" where
  "table_override fs m =
     (case find_field 0 fs ''gorm'' of
        None \<Rightarrow> m
      | Some sf \<Rightarrow>
          (let table_name = parse_gorm_tag (tag_get (sf_tag sf) ''gorm'')
           in if table_name \<noteq> [] then m\<lparr>em_table_name := table_name\<rparr> else m))"

text \<open>One iteration of the field loop (lines 44--59) for field \<open>i\<close>.\<close>

definition add_field :: "nat \<Rightarrow> field_decl \<Rightarrow> entity_meta \<Rightarrow> entity_meta" where
  "add_field i d m =
     (let sf = mk_struct_field i d in
      if sf_pkg_path sf \<noteq> [] then m
      else let fm = parse_field sf in
        m\<lparr>em_fields := em_fields m @ [fm],
          em_pk_field := (if fm_is_pk fm then Some fm else em_pk_field m)\<rparr>)"

fun add_fields :: "nat \<Rightarrow> field_decl list \<Rightarrow> entity_meta \<Rightarrow> entity_meta" where
  "add_fields i [] m = m"
| "add_fields i (d # ds) m = add_fields (Suc i) ds (add_field i d m)"

definition build_meta :: "gtype \<Rightarrow> field_decl list \<Rightarrow> entity_meta" where
  "build_meta t fs = add_fields 0 fs (table_override fs (new_entity_meta t))"

text \<open>Reference for the loop: the \<open>FieldMeta\<close>s of the exported fields, in order.\<close>

fun exported_fields :: "nat \<Rightarrow> field_decl list \<Rightarrow> field_meta list" where
  "exported_fields i [] = []"
| "exported_fields i (d # ds) =
     (if fd_pkg_path d = [] then [parse_field (mk_struct_field i d)] else []) @
     exported_fields (Suc i) ds"

section \<open>Parse and ClearRegistry\<close>

text \<open>Line 14--17: a pointer type is dereferenced once.\<close>

fun deref :: "gtype \<Rightarrow> gtype" where
  "deref (TPtr t) = t"
| "deref t = t"

definition parse :: "meta_state \<Rightarrow> gtype option \<Rightarrow> (parse_error + ptr) \<times> meta_state" where
  "parse st v =
     (case v of
        None \<Rightarrow> (Inl PanicNilType, st)
      | Some t0 \<Rightarrow>
          (let t = deref t0; key = type_string t in
           case registry st key of
             Some p \<Rightarrow> (Inr p, st)
           | None \<Rightarrow>
               (case t of
                  TStruct pkg n fs \<Rightarrow>
                    (let p = next_ptr st in
                     (Inr p, st\<lparr>registry := (registry st)(key \<mapsto> p),
                               heap := (heap st)(p \<mapsto> build_meta t fs),
                               next_ptr := Suc p\<rparr>))
                | _ \<Rightarrow> (Inl (PanicNonStruct key), st))))"

definition clear_registry :: "meta_state \<Rightarrow> meta_state" where
  "clear_registry st = st\<lparr>registry := Map.empty\<rparr>"

section \<open>Runs of the registry\<close>

datatype meta_op = OpParse "gtype option" | OpClear

fun meta_exec :: "meta_state \<Rightarrow> meta_op \<Rightarrow> meta_state" where
  "meta_exec st (OpParse v) = snd (parse st v)"
| "meta_exec st OpClear = clear_registry st"

inductive meta_reachable :: "meta_state \<Rightarrow> bool" where
  init: "meta_reachable init_meta_state"
| step: "meta_reachable st \<Longrightarrow> meta_reachable (meta_exec st op)"

section \<open>The invariant\<close>

text \<open>The primary key recorded is the last field marked as one.\<close>

definition last_pk :: "field_meta list \<Rightarrow> field_meta option" where
  "last_pk fs = find fm_is_pk (rev fs)"

definition entity_wf :: "entity_meta \<Rightarrow> bool" where
  "entity_wf m \<longleftrightarrow>
     em_pk_field m = last_pk (em_fields m) \<and> em_nested m = [] \<and> em_aggregates m = [] \<and>
     (\<exists>pkg n fs. em_type m = TStruct pkg n fs)"

definition meta_inv :: "meta_state \<Rightarrow> bool" where
  "meta_inv st \<longleftrightarrow>
     (\<forall>p \<in> dom (heap st). p < next_ptr st) \<and>
     ran (registry st) \<subseteq> dom (heap st) \<and>
     inj_on (registry st) (dom (registry st)) \<and>
     (\<forall>k p m. registry st k = Some p \<longrightarrow> heap st p = Some m \<longrightarrow>
               type_string (em_type m) = k) \<and>
     (\<forall>m \<in> ran (heap st). entity_wf m)"

section \<open>Building, parsing and the invariant\<close>

lemma add_field_frame [simp]:
  "em_type (add_field i d m) = em_type m"
  "em_name (add_field i d m) = em_name m"
  "em_table_name (add_field i d m) = em_table_name m"
  "em_nested (add_field i d m) = em_nested m"
  "em_aggregates (add_field i d m) = em_aggregates m"
  by (simp_all add: add_field_def Let_def)

lemma add_fields_frame [simp]:
  "em_type (add_fields i ds m) = em_type m"
  "em_name (add_fields i ds m) = em_name m"
  "em_table_name (add_fields i ds m) = em_table_name m"
  "em_nested (add_fields i ds m) = em_nested m"
  "em_aggregates (add_fields i ds m) = em_aggregates m"
  by (induction i ds m rule: add_fields.induct) simp_all

lemma exported_fields_names:
  "map fm_name (exported_fields i ds) = map fd_name (filter (\<lambda>d. fd_pkg_path d = []) ds)"
  by (induction i ds rule: exported_fields.induct) simp_all

lemma add_fields_fields:
  "em_fields (add_fields i ds m) = em_fields m @ exported_fields i ds"
  by (induction i ds m rule: add_fields.induct)
     (simp_all add: add_field_def Let_def)

lemma last_pk_snoc:
  "last_pk (fs @ [f]) = (if fm_is_pk f then Some f else last_pk fs)"
  by (simp add: last_pk_def)

lemma add_fields_pk:
  "em_pk_field m = last_pk (em_fields m) \<Longrightarrow>
     em_pk_field (add_fields i ds m) = last_pk (em_fields (add_fields i ds m))"
  by (induction i ds m rule: add_fields.induct)
     (auto simp: add_field_def Let_def last_pk_snoc)

lemma table_override_frame [simp]:
  "em_type (table_override fs m) = em_type m"
  "em_name (table_override fs m) = em_name m"
  "em_pk_field (table_override fs m) = em_pk_field m"
  "em_fields (table_override fs m) = em_fields m"
  "em_nested (table_override fs m) = em_nested m"
  "em_aggregates (table_override fs m) = em_aggregates m"
  by (simp_all add: table_override_def Let_def split: option.splits)

lemma build_meta_fields: "em_fields (build_meta t fs) = exported_fields 0 fs"
  by (simp add: build_meta_def add_fields_fields new_entity_meta_def)

lemma build_meta_pk: "em_pk_field (build_meta t fs) = last_pk (exported_fields 0 fs)"
proof -
  have "em_pk_field (table_override fs (new_entity_meta t)) =
          last_pk (em_fields (table_override fs (new_entity_meta t)))"
    by (simp add: new_entity_meta_def last_pk_def)
  then show ?thesis
    unfolding build_meta_def by (simp add: add_fields_pk add_fields_fields new_entity_meta_def)
qed

lemma build_meta_frame [simp]:
  "em_type (build_meta t fs) = t"
  "em_name (build_meta t fs) = type_name t"
  "em_nested (build_meta t fs) = []"
  "em_aggregates (build_meta t fs) = []"
  by (simp_all add: build_meta_def new_entity_meta_def)

lemma build_meta_wf: "entity_wf (build_meta (TStruct pkg n fs) fs)"
  by (simp add: entity_wf_def build_meta_pk build_meta_fields)

lemma parse_None [simp]: "parse st None = (Inl PanicNilType, st)"
  by (simp add: parse_def)

lemma parse_hit:
  "registry st (type_string (deref t)) = Some p \<Longrightarrow> parse st (Some t) = (Inr p, st)"
  by (simp add: parse_def)

lemma parse_miss:
  "registry st (type_string (deref t)) = None \<Longrightarrow> deref t = TStruct pkg n fs \<Longrightarrow>
     parse st (Some t) =
       (Inr (next_ptr st),
        st\<lparr>registry := (registry st)(type_string (deref t) \<mapsto> next_ptr st),
           heap := (heap st)(next_ptr st \<mapsto> build_meta (deref t) fs),
           next_ptr := Suc (next_ptr st)\<rparr>)"
  by (simp add: parse_def Let_def)

lemma parse_miss_nonstruct:
  "registry st (type_string (deref t)) = None \<Longrightarrow> \<forall>pkg n fs. deref t \<noteq> TStruct pkg n fs \<Longrightarrow>
     parse st (Some t) = (Inl (PanicNonStruct (type_string (deref t))), st)"
  by (cases "deref t") (simp_all add: parse_def Let_def)

lemma parse_cases:
  obtains (nil) "v = None" "parse st v = (Inl PanicNilType, st)"
  | (hit) t p where "v = Some t" "registry st (type_string (deref t)) = Some p"
      "parse st v = (Inr p, st)"
  | (miss) t pkg n fs where "v = Some t" "registry st (type_string (deref t)) = None"
      "deref t = TStruct pkg n fs"
      "parse st v = (Inr (next_ptr st),
        st\<lparr>registry := (registry st)(type_string (deref t) \<mapsto> next_ptr st),
           heap := (heap st)(next_ptr st \<mapsto> build_meta (deref t) fs),
           next_ptr := Suc (next_ptr st)\<rparr>)"
  | (panic) t where "v = Some t" "registry st (type_string (deref t)) = None"
      "parse st v = (Inl (PanicNonStruct (type_string (deref t))), st)"
proof (cases v)
  case None
  then show ?thesis using nil by simp
next
  case (Some t)
  show ?thesis
  proof (cases "registry st (type_string (deref t))")
    case (Some p)
    then show ?thesis using hit \<open>v = Some t\<close> parse_hit by blast
  next
    case None
    show ?thesis
    proof (cases "\<exists>pkg n fs. deref t = TStruct pkg n fs")
      case True
      then obtain pkg n fs where "deref t = TStruct pkg n fs" by blast
      then show ?thesis using miss \<open>v = Some t\<close> None parse_miss by blast
    next
      case False
      then show ?thesis using panic \<open>v = Some t\<close> None parse_miss_nonstruct by blast
    qed
  qed
qed

lemma meta_inv_init: "meta_inv init_meta_state"
  by (simp add: meta_inv_def init_meta_state_def)

lemma meta_inv_clear: "meta_inv st \<Longrightarrow> meta_inv (clear_registry st)"
  by (simp add: meta_inv_def clear_registry_def)

lemma fresh_not_in_heap: "meta_inv st \<Longrightarrow> heap st (next_ptr st) = None"
  by (auto simp: meta_inv_def)

lemma fresh_not_in_registry: "meta_inv st \<Longrightarrow> next_ptr st \<notin> ran (registry st)"
  by (auto simp: meta_inv_def)

lemma meta_inv_alloc:
  assumes inv: "meta_inv st" and none: "registry st k = None"
    and wf: "entity_wf m" and key: "type_string (em_type m) = k"
  shows "meta_inv (st\<lparr>registry := (registry st)(k \<mapsto> next_ptr st),
                       heap := (heap st)(next_ptr st \<mapsto> m), next_ptr := Suc (next_ptr st)\<rparr>)"
proof -
  let ?p = "next_ptr st"
  have fresh: "?p \<notin> ran (registry st)" "heap st ?p = None"
    using inv by (simp_all add: fresh_not_in_registry fresh_not_in_heap)
  have bound: "\<forall>q \<in> dom ((heap st)(?p \<mapsto> m)). q < Suc ?p"
    using inv unfolding meta_inv_def by (auto simp: less_Suc_eq dom_def)
  have ran_reg: "ran ((registry st)(k \<mapsto> ?p)) \<subseteq> dom ((heap st)(?p \<mapsto> m))"
    using inv none by (auto simp: meta_inv_def ran_map_upd)
  have inj: "inj_on ((registry st)(k \<mapsto> ?p)) (dom ((registry st)(k \<mapsto> ?p)))"
  proof (rule inj_onI)
    fix x y
    assume "x \<in> dom ((registry st)(k \<mapsto> ?p))" "y \<in> dom ((registry st)(k \<mapsto> ?p))"
      and eq: "((registry st)(k \<mapsto> ?p)) x = ((registry st)(k \<mapsto> ?p)) y"
    then show "x = y"
      using inv fresh(1) by (auto simp: meta_inv_def ran_def inj_on_def split: if_splits)
  qed
  have keys: "\<forall>k' q m'. ((registry st)(k \<mapsto> ?p)) k' = Some q \<longrightarrow>
               ((heap st)(?p \<mapsto> m)) q = Some m' \<longrightarrow> type_string (em_type m') = k'"
  proof (intro allI impI)
    fix k' q m'
    assume r: "((registry st)(k \<mapsto> ?p)) k' = Some q" and h: "((heap st)(?p \<mapsto> m)) q = Some m'"
    show "type_string (em_type m') = k'"
    proof (cases "k' = k")
      case True
      with r h key show ?thesis by simp
    next
      case False
      with r have r': "registry st k' = Some q" by simp
      then have "q \<noteq> ?p" using fresh(1) by (auto simp: ran_def)
      with h have "heap st q = Some m'" by simp
      with r' inv show ?thesis by (auto simp: meta_inv_def)
    qed
  qed
  have wfs: "\<forall>m' \<in> ran ((heap st)(?p \<mapsto> m)). entity_wf m'"
    using inv wf fresh(2) by (auto simp: meta_inv_def ran_map_upd)
  show ?thesis
    using bound ran_reg inj keys wfs by (simp add: meta_inv_def)
qed

lemma meta_inv_parse: "meta_inv st \<Longrightarrow> meta_inv (snd (parse st v))"
proof (cases rule: parse_cases [of v st])
  case (miss t pkg n fs)
  assume inv: "meta_inv st"
  have "entity_wf (build_meta (deref t) fs)"
    using miss(3) build_meta_wf by simp
  moreover have "type_string (em_type (build_meta (deref t) fs)) = type_string (deref t)"
    by simp
  ultimately show ?thesis
    using meta_inv_alloc [OF inv miss(2)] miss(4) by simp
qed auto

lemma meta_reachable_inv: "meta_reachable st \<Longrightarrow> meta_inv st"
proof (induction rule: meta_reachable.induct)
  case init
  then show ?case by (rule meta_inv_init)
next
  case (step st op)
  then show ?case by (cases op) (simp_all add: meta_inv_parse meta_inv_clear)
qed

lemma meta_inv_key_struct:
  "meta_inv st \<Longrightarrow> registry st k = Some p \<Longrightarrow>
     \<exists>m. heap st p = Some m \<and> type_string (em_type m) = k \<and> entity_wf m"
proof -
  assume inv: "meta_inv st" and r: "registry st k = Some p"
  from r have "p \<in> ran (registry st)" by (auto simp: ran_def)
  with inv obtain m where h: "heap st p = Some m" by (auto simp: meta_inv_def)
  then have "m \<in> ran (heap st)" by (auto simp: ran_def)
  with inv r h show ?thesis by (auto simp: meta_inv_def)
qed

lemma meta_inv_key_dot:
  "meta_inv st \<Longrightarrow> registry st k = Some p \<Longrightarrow> CHR ''.'' \<in> set k"
  by (drule (1) meta_inv_key_struct) (auto simp: entity_wf_def)

lemma parse_Inr_registry:
  "parse st (Some t) = (Inr p, st') \<Longrightarrow> registry st' (type_string (deref t)) = Some p"
  by (cases rule: parse_cases [of "Some t" st]) auto

lemma parse_heap_frame:
  "meta_inv st \<Longrightarrow> parse st v = (r, st') \<Longrightarrow> q \<in> dom (heap st) \<Longrightarrow> heap st' q = heap st q"
  by (cases rule: parse_cases [of v st]) (auto simp: fresh_not_in_heap)

lemma parse_new_pointer:
  "meta_inv st \<Longrightarrow> registry st (type_string (deref t)) = None \<Longrightarrow>
     parse st (Some t) = (Inr p, st') \<Longrightarrow> p \<notin> dom (heap st) \<and> p \<in> dom (heap st')"
  by (cases rule: parse_cases [of "Some t" st]) (auto simp: fresh_not_in_heap)

lemma reachable_parse:
  "meta_reachable st \<Longrightarrow> meta_reachable (snd (parse st v))"
  using meta_reachable.step [of st "OpParse v"] by simp

section \<open>Properties of Parse\<close>

text \<open>C1: the cache makes \<open>Parse\<close> return the same instance: once a call has returned
  pointer \<open>p\<close>, parsing the same value again returns \<open>p\<close> and changes nothing.\<close>

theorem parse_same_instance:
  "parse st v = (Inr p, st') \<Longrightarrow> parse st' v = (Inr p, st')"
proof (cases v)
  case (Some t)
  assume "parse st v = (Inr p, st')"
  with Some have "registry st' (type_string (deref t)) = Some p"
    by (simp add: parse_Inr_registry)
  with Some show ?thesis by (simp add: parse_hit)
qed simp

theorem parse_same_instance_witness:
  "parse (snd (parse init_meta_state (Some (TPtr (TStruct ''meta'' ''User''
            [FieldDecl ''ID'' [] (TBasic ''uint'') [(''go-blar'', ''pk'')]])))))
         (Some (TPtr (TStruct ''meta'' ''User''
            [FieldDecl ''ID'' [] (TBasic ''uint'') [(''go-blar'', ''pk'')]]))) =
   (Inr 0, snd (parse init_meta_state (Some (TPtr (TStruct ''meta'' ''User''
            [FieldDecl ''ID'' [] (TBasic ''uint'') [(''go-blar'', ''pk'')]])))))"
proof -
  let ?v = "Some (TPtr (TStruct ''meta'' ''User''
              [FieldDecl ''ID'' [] (TBasic ''uint'') [(''go-blar'', ''pk'')]]))"
  have h: "parse init_meta_state ?v = (Inr 0, snd (parse init_meta_state ?v))"
    by (simp add: parse_def init_meta_state_def Let_def)
  show ?thesis by (rule parse_same_instance [OF h])
qed

text \<open>C2: in every state a run of \<open>Parse\<close> and \<open>ClearRegistry\<close> calls reaches, each
  registry entry points to an allocated descriptor of the type whose string is its key,
  with its primary key the last key field and no nested or aggregate entries, and no
  other key shares that descriptor.\<close>

theorem registry_consistent:
  assumes "meta_reachable st" and "registry st k = Some p"
  shows "(\<exists>m. heap st p = Some m \<and> type_string (em_type m) = k \<and> entity_wf m) \<and>
         (\<forall>k'. registry st k' = Some p \<longrightarrow> k' = k)"
proof -
  have inv: "meta_inv st" using assms(1) by (rule meta_reachable_inv)
  then have "inj_on (registry st) (dom (registry st))" by (simp add: meta_inv_def)
  with assms(2) have "\<forall>k'. registry st k' = Some p \<longrightarrow> k' = k"
    by (auto simp: inj_on_def dom_def)
  with meta_inv_key_struct [OF inv assms(2)] show ?thesis by blast
qed

theorem registry_consistent_witness:
  "meta_reachable (snd (parse init_meta_state (Some (TStruct ''meta'' ''User'' [])))) \<and>
   registry (snd (parse init_meta_state (Some (TStruct ''meta'' ''User'' [])))) ''meta.User'' = Some 0 \<and>
   (\<exists>m. heap (snd (parse init_meta_state (Some (TStruct ''meta'' ''User'' [])))) 0 = Some m \<and>
        type_string (em_type m) = ''meta.User'' \<and> entity_wf m)"
proof -
  let ?st = "snd (parse init_meta_state (Some (TStruct ''meta'' ''User'' [])))"
  have r: "meta_reachable ?st" by (rule reachable_parse [OF meta_reachable.init])
  have k: "registry ?st ''meta.User'' = Some 0"
    by (simp add: parse_def init_meta_state_def Let_def)
  show ?thesis using r k registry_consistent [OF r k] by blast
qed

text \<open>C3: \<open>ClearRegistry\<close> forgets the cache but not the descriptors handed out: after
  it, parsing the same value yields a new instance, and the one returned before is
  unchanged.\<close>

theorem clear_then_parse_new_instance:
  assumes "meta_reachable st" and "parse st (Some t) = (Inr p, st1)"
    and "parse (clear_registry st1) (Some t) = (Inr q, st2)"
  shows "q \<noteq> p \<and> heap st2 p = heap st1 p"
proof -
  have inv1: "meta_inv st1"
    using reachable_parse [OF assms(1), of "Some t"] assms(2) meta_reachable_inv by simp
  have p: "p \<in> dom (heap st1)"
    using meta_inv_key_struct [OF inv1 parse_Inr_registry [OF assms(2)]] by auto
  have invc: "meta_inv (clear_registry st1)" using inv1 by (rule meta_inv_clear)
  have "q \<notin> dom (heap (clear_registry st1))"
    using parse_new_pointer [OF invc _ assms(3)] by (simp add: clear_registry_def)
  moreover have "heap st2 p = heap (clear_registry st1) p"
    using parse_heap_frame [OF invc assms(3)] p by (simp add: clear_registry_def)
  ultimately show ?thesis using p by (auto simp: clear_registry_def)
qed

theorem clear_then_parse_new_instance_witness:
  "(1::nat) \<noteq> 0 \<and>
   heap (snd (parse (clear_registry (snd (parse init_meta_state (Some (TStruct ''meta'' ''User'' [])))))
                    (Some (TStruct ''meta'' ''User'' [])))) 0 =
   heap (snd (parse init_meta_state (Some (TStruct ''meta'' ''User'' [])))) 0"
proof -
  let ?v = "Some (TStruct ''meta'' ''User'' [])"
  let ?st1 = "snd (parse init_meta_state ?v)"
  let ?st2 = "snd (parse (clear_registry ?st1) ?v)"
  have h1: "parse init_meta_state ?v = (Inr 0, ?st1)"
    by (simp add: parse_def init_meta_state_def Let_def)
  have h2: "parse (clear_registry ?st1) ?v = (Inr 1, ?st2)"
    by (simp add: parse_def init_meta_state_def clear_registry_def Let_def)
  show ?thesis using clear_then_parse_new_instance [OF meta_reachable.init h1 h2] by simp
qed

text \<open>C15: \<open>Parse\<close> of a nil interface or of a predeclared type (or a pointer to one)
  panics, where the specification asks for a \<open>ParseError\<close>; the registry is left
  unchanged.\<close>

theorem parse_panics:
  assumes "meta_reachable st" and "CHR ''.'' \<notin> set n"
  shows "parse st None = (Inl PanicNilType, st) \<and>
         parse st (Some (TBasic n)) = (Inl (PanicNonStruct n), st) \<and>
         parse st (Some (TPtr (TBasic n))) = (Inl (PanicNonStruct n), st)"
proof -
  have "registry st n = None"
    using meta_inv_key_dot [OF meta_reachable_inv [OF assms(1)]] assms(2)
    by (cases "registry st n") auto
  then show ?thesis by (simp add: parse_def)
qed

theorem parse_panics_witness:
  "parse init_meta_state (Some (TBasic ''int'')) = (Inl (PanicNonStruct ''int''), init_meta_state)"
  using parse_panics [OF meta_reachable.init, of "''int''"] by simp

text \<open>C16: the cache is keyed by \<open>t.String()\<close>, not by type identity: a second struct
  type with the same package and type name gets the descriptor of the first.\<close>

theorem parse_key_collision:
  assumes "parse st (Some t1) = (Inr p, st1)"
    and "type_string (deref t2) = type_string (deref t1)"
  shows "parse st1 (Some t2) = (Inr p, st1)"
  using parse_Inr_registry [OF assms(1)] assms(2) by (simp add: parse_hit)

theorem parse_key_collision_witness:
  "TStruct ''meta'' ''Product'' [FieldDecl ''ID'' [] (TBasic ''uint'') []] \<noteq>
     TStruct ''meta'' ''Product'' [FieldDecl ''Title'' [] (TBasic ''string'') []] \<and>
   parse (snd (parse init_meta_state
            (Some (TStruct ''meta'' ''Product'' [FieldDecl ''ID'' [] (TBasic ''uint'') []]))))
         (Some (TStruct ''meta'' ''Product'' [FieldDecl ''Title'' [] (TBasic ''string'') []])) =
   (Inr 0, snd (parse init_meta_state
            (Some (TStruct ''meta'' ''Product'' [FieldDecl ''ID'' [] (TBasic ''uint'') []]))))"
proof -
  let ?t1 = "TStruct ''meta'' ''Product'' [FieldDecl ''ID'' [] (TBasic ''uint'') []]"
  let ?t2 = "TStruct ''meta'' ''Product'' [FieldDecl ''Title'' [] (TBasic ''string'') []]"
  have h: "parse init_meta_state (Some ?t1) = (Inr 0, snd (parse init_meta_state (Some ?t1)))"
    by (simp add: parse_def init_meta_state_def Let_def)
  have k: "type_string (deref ?t2) = type_string (deref ?t1)" by simp
  show ?thesis using parse_key_collision [OF h k] by simp
qed

section \<open>Properties of the descriptor built on a cache miss\<close>

text \<open>C28: the descriptor lists the exported fields only, in declaration order.\<close>

theorem build_meta_fields_in_order:
  "map fm_name (em_fields (build_meta t fs)) = map fd_name (filter (\<lambda>d. fd_pkg_path d = []) fs)"
  by (simp add: build_meta_fields exported_fields_names)

text \<open>C4: the primary-key reference is the last exported field marked as primary key
  (the source overwrites \<open>PKField\<close> at each match; the specification says the first
  wins), and it is \<open>nil\<close> when no field is marked.\<close>

theorem build_meta_pk_last:
  "em_pk_field (build_meta t fs) = find fm_is_pk (rev (em_fields (build_meta t fs))) \<and>
   (em_pk_field (build_meta t fs) = None \<longleftrightarrow> filter fm_is_pk (em_fields (build_meta t fs)) = [])"
  by (auto simp: build_meta_pk build_meta_fields last_pk_def find_None_iff filter_empty_conv)

text \<open>\<open>parseGormTag\<close> in closed form: the first trimmed \<open>;\<close>-fragment that
  starts with \<open>table:\<close>, with that prefix removed.\<close>

lemma find_table_first:
  "find_table parts =
     (case find (prefix ''table:'') (map trim_space parts) of None \<Rightarrow> [] | Some part \<Rightarrow> drop 6 part)"
  by (induction parts) (simp_all add: Let_def has_prefix_iff trim_prefix_def eval_nat_numeral)

lemma parse_gorm_tag_first:
  "parse_gorm_tag tag =
     (case find (prefix ''table:'') (map trim_space (go_split CHR '';'' tag)) of
        None \<Rightarrow> [] | Some part \<Rightarrow> drop 6 part)"
  by (simp add: parse_gorm_tag_def find_table_first trim_space_def)

text \<open>C29: the table name is the rest of the first trimmed \<open>;\<close>-fragment starting
  with \<open>table:\<close> of the \<open>gorm\<close> tag of a field named \<open>gorm\<close>, when that rest is
  non-empty, and otherwise the snake-cased type name with \<open>s\<close> appended.\<close>

theorem build_meta_table_name:
  "em_table_name (build_meta t fs) =
     (case find_field 0 fs ''gorm'' of
        None \<Rightarrow> to_snake_case (type_name t) @ ''s''
      | Some sf \<Rightarrow>
          (case find (prefix ''table:'') (map trim_space (go_split CHR '';'' (tag_get (sf_tag sf) ''gorm''))) of
             Some part \<Rightarrow> if drop 6 part \<noteq> [] then drop 6 part else to_snake_case (type_name t) @ ''s''
           | None \<Rightarrow> to_snake_case (type_name t) @ ''s''))"
  by (simp add: build_meta_def table_override_def new_entity_meta_def parse_gorm_tag_first Let_def
      split: option.splits)

text \<open>C30: no descriptor the registry ever holds has an aggregate, whatever \<open>count:\<close>
  and \<open>sum:\<close> tags its fields carry, so \<open>GetAggregateByName\<close> finds nothing.\<close>

theorem reachable_no_aggregates:
  assumes "meta_reachable st" and "heap st p = Some m"
  shows "em_aggregates m = [] \<and> get_aggregate_by_name m a = None"
proof -
  have "m \<in> ran (heap st)" using assms(2) by (auto simp: ran_def)
  with meta_reachable_inv [OF assms(1)] have "entity_wf m" by (simp add: meta_inv_def)
  then show ?thesis by (simp add: entity_wf_def get_aggregate_by_name_def)
qed

theorem reachable_no_aggregates_witness:
  "get_aggregate_by_name (the (heap (snd (parse init_meta_state (Some (TStruct ''main'' ''Order''
       [FieldDecl ''Total'' [] (TBasic ''int'') [(''go-blar'', ''sum:Items.Price'')]])))) 0))
     ''Total'' = None"
proof -
  let ?v = "Some (TStruct ''main'' ''Order''
       [FieldDecl ''Total'' [] (TBasic ''int'') [(''go-blar'', ''sum:Items.Price'')]])"
  let ?st = "snd (parse init_meta_state ?v)"
  have r: "meta_reachable ?st" by (rule reachable_parse [OF meta_reachable.init])
  have h: "heap ?st 0 = Some (the (heap ?st 0))"
    by (simp add: parse_def init_meta_state_def Let_def)
  show ?thesis using reachable_no_aggregates [OF r h] by simp
qed

text \<open>C12: progress of the cache: from every reachable state, \<open>Parse\<close> of a struct
  type (or a pointer to one) returns a descriptor and leads to a reachable state in
  which that descriptor is allocated and cached, so every later parse of the type hits.\<close>

theorem parse_struct_progress:
  assumes "meta_reachable st" and "deref t = TStruct pkg n fs"
  shows "\<exists>p st'. parse st (Some t) = (Inr p, st') \<and> meta_reachable st' \<and> heap st' p \<noteq> None \<and>
           parse st' (Some t) = (Inr p, st')"
proof -
  have inv: "meta_inv st" using assms(1) by (rule meta_reachable_inv)
  obtain r st' where eq: "parse st (Some t) = (r, st')" by (cases "parse st (Some t)")
  have reach: "meta_reachable st'" using reachable_parse [OF assms(1), of "Some t"] eq by simp
  show ?thesis
  proof (cases "registry st (type_string (deref t))")
    case (Some p)
    then obtain m where "heap st p = Some m" using meta_inv_key_struct [OF inv] by blast
    moreover have "parse st (Some t) = (Inr p, st)" using Some by (rule parse_hit)
    ultimately show ?thesis using reach eq Some by auto
  next
    case None
    let ?p = "next_ptr st"
    have miss: "parse st (Some t) = (Inr ?p,
        st\<lparr>registry := (registry st)(type_string (deref t) \<mapsto> ?p),
           heap := (heap st)(?p \<mapsto> build_meta (deref t) fs), next_ptr := Suc ?p\<rparr>)"
      using None assms(2) by (rule parse_miss)
    then have "parse st' (Some t) = (Inr ?p, st')"
      using eq parse_Inr_registry [of st t ?p st'] by (auto intro: parse_hit)
    with miss eq reach show ?thesis by auto
  qed
qed

theorem parse_struct_progress_witness:
  "\<exists>p st'. parse init_meta_state (Some (TPtr (TStruct ''main'' ''Tag'' []))) = (Inr p, st') \<and>
     meta_reachable st' \<and> heap st' p \<noteq> None \<and>
     parse st' (Some (TPtr (TStruct ''main'' ''Tag'' []))) = (Inr p, st')"
  by (rule parse_struct_progress [OF meta_reachable.init, of _ "''main''" "''Tag''" "[]"]) simp

end
