(* ===== verification/Repository.thy ===== *)
theory Repository
  imports Meta_Model "HOL-Library.AList"
begin

text \<open>
  The storage layer.  go-blar delegates every storage operation to GORM through a
  \<open>*gorm.DB\<close> handle; GORM is not part of the repository, so it is an interface
  here: a \<open>driver\<close> record with one function per GORM call the sources make, over an
  abstract database state \<open>'db\<close>.  A \<open>nil\<close> handle is \<^const>\<open>None\<close>.  Then the
  generic repository of \<^verbatim>\<open>src/unnamed/part_003\<close> (package \<open>repo\<close>, lines 10--91):
  each operation checks for the \<open>nil\<close> handle (\<open>gorm.ErrInvalidDB\<close>) and passes
  the call through.  \<open>Create\<close> and \<open>Update\<close> take \<open>*T\<close>: GORM writes the generated
  primary key into the entity, so \<open>Create\<close> returns the entity as well.
\<close>

datatype db_error = ErrInvalidDB | ErrRecordNotFound | DriverError string

text \<open>The \<open>Error()\<close> strings of the GORM errors.\<close>

fun error_message :: "db_error \<Rightarrow> string" where
  "error_message ErrInvalidDB = ''invalid db''"
| "error_message ErrRecordNotFound = ''record not found''"
| "error_message (DriverError s) = s"

record ('e, 'db) driver =
  drv_create :: "'db \<Rightarrow> 'e \<Rightarrow> db_error option \<times> 'e \<times> 'db"   \<comment> \<open>\<open>Create(entity)\<close>\<close>
  drv_first :: "'db \<Rightarrow> int \<Rightarrow> db_error + 'e"                 \<comment> \<open>\<open>First(&entity, id)\<close>\<close>
  drv_find :: "'db \<Rightarrow> db_error + 'e list"                     \<comment> \<open>\<open>Find(&entities)\<close>\<close>
  drv_save :: "'db \<Rightarrow> 'e \<Rightarrow> db_error option \<times> 'db"          \<comment> \<open>\<open>Save(entity)\<close>\<close>
  drv_updates :: "'db \<Rightarrow> int \<Rightarrow> 'e \<Rightarrow> db_error option \<times> 'db"
      \<comment> \<open>\<open>Model(entity).Where("id = ?", id).Updates(entity)\<close>\<close>
  drv_delete :: "'db \<Rightarrow> int \<Rightarrow> db_error option \<times> 'db"       \<comment> \<open>\<open>Delete(&entity, id)\<close>\<close>
  drv_count :: "'db \<Rightarrow> int \<times> db_error option"                \<comment> \<open>\<open>Model(new(T)).Count(&count)\<close>\<close>
  drv_auto_migrate :: "'db \<Rightarrow> gtype option \<Rightarrow> db_error option \<times> 'db"  \<comment> \<open>\<open>AutoMigrate(model)\<close>\<close>

section \<open>The repository\<close>

record ('e, 'db) repository =
  repo_db :: "('e, 'db) driver option"
  repo_meta :: entity_meta

definition new_repository :: "('e, 'db) driver option \<Rightarrow> entity_meta \<Rightarrow> ('e, 'db) repository" where
  "new_repository db m = \<lparr>repo_db = db, repo_meta = m\<rparr>"

definition repo_create ::
  "('e, 'db) repository \<Rightarrow> 'db \<Rightarrow> 'e \<Rightarrow> db_error option \<times> 'e \<times> 'db" where
  "repo_create r st e =
     (case repo_db r of None \<Rightarrow> (Some ErrInvalidDB, e, st) | Some d \<Rightarrow> drv_create d st e)"

definition repo_get_by_id :: "('e, 'db) repository \<Rightarrow> 'db \<Rightarrow> int \<Rightarrow> db_error + 'e" where
  "repo_get_by_id r st i =
     (case repo_db r of
        None \<Rightarrow> Inl ErrInvalidDB
      | Some d \<Rightarrow> (case drv_first d st i of Inl err \<Rightarrow> Inl err | Inr e \<Rightarrow> Inr e))"

definition repo_get_all :: "('e, 'db) repository \<Rightarrow> 'db \<Rightarrow> db_error + 'e list" where
  "repo_get_all r st =
     (case repo_db r of
        None \<Rightarrow> Inl ErrInvalidDB
      | Some d \<Rightarrow> (case drv_find d st of Inl err \<Rightarrow> Inl err | Inr es \<Rightarrow> Inr es))"

definition repo_update :: "('e, 'db) repository \<Rightarrow> 'db \<Rightarrow> 'e \<Rightarrow> db_error option \<times> 'db" where
  "repo_update r st e =
     (case repo_db r of None \<Rightarrow> (Some ErrInvalidDB, st) | Some d \<Rightarrow> drv_save d st e)"

definition repo_delete :: "('e, 'db) repository \<Rightarrow> 'db \<Rightarrow> int \<Rightarrow> db_error option \<times> 'db" where
  "repo_delete r st i =
     (case repo_db r of None \<Rightarrow> (Some ErrInvalidDB, st) | Some d \<Rightarrow> drv_delete d st i)"

definition repo_count :: "('e, 'db) repository \<Rightarrow> 'db \<Rightarrow> int \<times> db_error option" where
  "repo_count r st =
     (case repo_db r of None \<Rightarrow> (0, Some ErrInvalidDB) | Some d \<Rightarrow> drv_count d st)"

text \<open>\<open>ComputeAggregates\<close> of package \<open>aggregate\<close> (part_003, lines 101--105) is a
  stub: it computes nothing and reports no error, whatever the aggregates.\<close>

definition compute_aggregates :: "('e, 'db) driver option \<Rightarrow> 'e \<Rightarrow> aggregate_meta list \<Rightarrow> db_error option" where
  "compute_aggregates db e ags = None"

section \<open>A reference driver: the storage contract\<close>

text \<open>
  The specification (sections 4.3 and 6) asks of the driver: \<open>Create\<close> assigns a
  generated primary key, \<open>First\<close> reports a distinguishable not-found, \<open>Save\<close>
  persists the whole entity, \<open>Delete\<close> of an absent key is no error, \<open>Count\<close>
  counts the rows.  \<open>mem_driver\<close> is an in-memory table with these properties, as
  the SQLite database of the tests provides them; \<open>Updates\<close> writes the non-zero
  fields of its argument (GORM's rule for a struct argument), given by \<open>merge\<close>.
  Rows are kept in insertion order, keyed by primary key.
\<close>

record 'e entity_ops =
  get_id :: "'e \<Rightarrow> int"
  set_id :: "int \<Rightarrow> 'e \<Rightarrow> 'e"
  merge_nonzero :: "'e \<Rightarrow> 'e \<Rightarrow> 'e"   \<comment> \<open>old row, argument: the row after \<open>Updates\<close>\<close>

record 'e mem_db =
  rows :: "(int \<times> 'e) list"
  next_id :: int

definition mem_insert :: "'e entity_ops \<Rightarrow> 'e mem_db \<Rightarrow> 'e \<Rightarrow> db_error option \<times> 'e \<times> 'e mem_db" where
  "mem_insert ops st e =
     (let i = (if get_id ops e = 0 then next_id st else get_id ops e) in
      if map_of (rows st) i \<noteq> None then (Some (DriverError ''UNIQUE constraint failed''), e, st)
      else let e' = set_id ops i e in
        (None, e', st\<lparr>rows := rows st @ [(i, e')], next_id := max (next_id st) (i + 1)\<rparr>))"

definition mem_first :: "'e mem_db \<Rightarrow> int \<Rightarrow> db_error + 'e" where
  "mem_first st i = (case map_of (rows st) i of None \<Rightarrow> Inl ErrRecordNotFound | Some e \<Rightarrow> Inr e)"

definition mem_save :: "'e entity_ops \<Rightarrow> 'e mem_db \<Rightarrow> 'e \<Rightarrow> db_error option \<times> 'e mem_db" where
  "mem_save ops st e =
     (if get_id ops e \<noteq> 0 \<and> map_of (rows st) (get_id ops e) \<noteq> None
      then (None, st\<lparr>rows := AList.update (get_id ops e) e (rows st)\<rparr>)
      else (fst (mem_insert ops st e), snd (snd (mem_insert ops st e))))"

definition mem_updates :: "'e entity_ops \<Rightarrow> 'e mem_db \<Rightarrow> int \<Rightarrow> 'e \<Rightarrow> db_error option \<times> 'e mem_db" where
  "mem_updates ops st i e =
     (case map_of (rows st) i of
        None \<Rightarrow> (None, st)
      | Some old \<Rightarrow> (None, st\<lparr>rows := AList.update i (merge_nonzero ops old e) (rows st)\<rparr>))"

definition mem_delete :: "'e mem_db \<Rightarrow> int \<Rightarrow> db_error option \<times> 'e mem_db" where
  "mem_delete st i = (None, st\<lparr>rows := filter (\<lambda>(k, _). k \<noteq> i) (rows st)\<rparr>)"

definition mem_driver :: "'e entity_ops \<Rightarrow> ('e, 'e mem_db) driver" where
  "mem_driver ops =
     \<lparr>drv_create = mem_insert ops, drv_first = mem_first,
      drv_find = (\<lambda>st. Inr (map snd (rows st))), drv_save = mem_save ops,
      drv_updates = mem_updates ops, drv_delete = mem_delete,
      drv_count = (\<lambda>st. (int (length (rows st)), None)),
      drv_auto_migrate = (\<lambda>st t. (None, st))\<rparr>"

definition empty_mem_db :: "'e mem_db" where
  "empty_mem_db = \<lparr>rows = [], next_id = 1\<rparr>"

text \<open>The test entity of repository_test.go: \<open>TestUser{ID, Name}\<close>, as a pair;
  \<open>Updates\<close> keeps the old name when the new one is empty.\<close>

definition test_user_ops :: "(int \<times> string) entity_ops" where
  "test_user_ops =
     \<lparr>get_id = fst, set_id = (\<lambda>i u. (i, snd u)),
      merge_nonzero = (\<lambda>old u. (fst old, if snd u = [] then snd old else snd u))\<rparr>"

text \<open>The descriptor \<open>meta.Parse(&TestUser{})\<close> gives in repository_test.go: no
  field is tagged, so there is no primary-key reference.\<close>

definition test_user_meta :: entity_meta where
  "test_user_meta =
     \<lparr>em_type = TStruct ''repo'' ''TestUser''
                   [FieldDecl ''ID'' [] (TBasic ''uint'') [], FieldDecl ''Name'' [] (TBasic ''string'') []],
      em_name = ''TestUser'', em_table_name = ''test_users'', em_pk_field = None,
      em_fields =
        [\<lparr>fm_name = ''ID'', fm_type = TBasic ''uint'', fm_index = [0], fm_is_pk = False, fm_fk = None,
          fm_nested = False, fm_m2m = None, fm_list = False, fm_hidden = False, fm_read_only = False\<rparr>,
         \<lparr>fm_name = ''Name'', fm_type = TBasic ''string'', fm_index = [1], fm_is_pk = False, fm_fk = None,
          fm_nested = False, fm_m2m = None, fm_list = False, fm_hidden = False, fm_read_only = False\<rparr>],
      em_nested = [], em_aggregates = []\<rparr>"

text \<open>The laws an entity's primary-key accessors obey, and the table's invariant: keys
  are distinct and positive, below the next generated key, and each row's entity
  carries its key.\<close>

definition ops_ok :: "'e entity_ops \<Rightarrow> bool" where
  "ops_ok ops \<longleftrightarrow>
     (\<forall>i e. get_id ops (set_id ops i e) = i) \<and> (\<forall>old e. get_id ops (merge_nonzero ops old e) = get_id ops old)"

definition mem_inv :: "'e entity_ops \<Rightarrow> 'e mem_db \<Rightarrow> bool" where
  "mem_inv ops st \<longleftrightarrow>
     distinct (map fst (rows st)) \<and> 0 < next_id st \<and>
     (\<forall>(k, e) \<in> set (rows st). k < next_id st \<and> get_id ops e = k)"

section \<open>Facts about the reference driver\<close>

lemma set_alist_update: "x \<in> set (AList.update k v al) \<Longrightarrow> x = (k, v) \<or> x \<in> set al"
  by (induction al) (auto split: if_splits)

lemma map_of_key_bound:
  "mem_inv ops st \<Longrightarrow> map_of (rows st) k = Some e \<Longrightarrow> k < next_id st \<and> get_id ops e = k"
  by (auto simp: mem_inv_def dest!: map_of_SomeD)

lemma mem_insert_Some_state:
  "mem_insert ops st e = (Some err, e', st') \<Longrightarrow> st' = st"
  by (auto simp: mem_insert_def Let_def split: if_splits)

lemma mem_inv_insert:
  assumes "ops_ok ops" "mem_inv ops st" "mem_insert ops st e = (None, e', st')"
  shows "mem_inv ops st'"
proof -
  let ?i = "if get_id ops e = 0 then next_id st else get_id ops e"
  have free: "map_of (rows st) ?i = None" and e': "e' = set_id ops ?i e"
    and st': "st' = st\<lparr>rows := rows st @ [(?i, e')], next_id := max (next_id st) (?i + 1)\<rparr>"
    using assms(3) by (auto simp: mem_insert_def Let_def split: if_splits)
  have "?i \<notin> set (map fst (rows st))"
    using free by (simp add: map_of_eq_None_iff)
  with assms(1,2) e' st' show ?thesis
    by (auto simp: mem_inv_def ops_ok_def)
qed

lemma mem_inv_save:
  assumes "ops_ok ops" "mem_inv ops st"
  shows "mem_inv ops (snd (mem_save ops st e))"
proof (cases "get_id ops e \<noteq> 0 \<and> map_of (rows st) (get_id ops e) \<noteq> None")
  case True
  then obtain old where old: "map_of (rows st) (get_id ops e) = Some old" by auto
  have "get_id ops e < next_id st" using map_of_key_bound [OF assms(2) old] by simp
  with True assms(2) show ?thesis
    by (auto simp: mem_save_def mem_inv_def distinct_update dest!: set_alist_update)
next
  case False
  obtain err e' st' where eq: "mem_insert ops st e = (err, e', st')"
    by (cases "mem_insert ops st e") auto
  have "mem_inv ops st'"
  proof (cases err)
    case None
    with eq show ?thesis by (intro mem_inv_insert [OF assms]) simp
  next
    case (Some x)
    with eq have "st' = st" by (intro mem_insert_Some_state) simp
    with assms(2) show ?thesis by simp
  qed
  moreover have "snd (mem_save ops st e) = snd (snd (mem_insert ops st e))"
    unfolding mem_save_def by (simp only: if_not_P [OF False] snd_conv)
  then have "snd (mem_save ops st e) = st'"
    using eq by simp
  ultimately show ?thesis by simp
qed

lemma mem_inv_delete: "mem_inv ops st \<Longrightarrow> mem_inv ops (snd (mem_delete st i))"
  by (auto simp: mem_inv_def mem_delete_def distinct_map_filter)

lemma mem_insert_fresh:
  assumes "mem_inv ops st" and "get_id ops e = 0"
  shows "mem_insert ops st e =
           (None, set_id ops (next_id st) e,
            st\<lparr>rows := rows st @ [(next_id st, set_id ops (next_id st) e)], next_id := next_id st + 1\<rparr>)"
proof -
  have "map_of (rows st) (next_id st) = None"
  proof (rule ccontr)
    assume "map_of (rows st) (next_id st) \<noteq> None"
    then obtain x where "map_of (rows st) (next_id st) = Some x" by auto
    with map_of_key_bound [OF assms(1)] show False by auto
  qed
  with assms(2) show ?thesis by (simp add: mem_insert_def Let_def)
qed

section \<open>Properties of the repository\<close>

text \<open>C23: a repository built without a database handle fails every operation with
  \<open>ErrInvalidDB\<close>, without touching the store and without panicking.\<close>

theorem repo_without_db:
  assumes "repo_db r = None"
  shows "repo_create r st e = (Some ErrInvalidDB, e, st) \<and> repo_get_by_id r st i = Inl ErrInvalidDB \<and>
         repo_get_all r st = Inl ErrInvalidDB \<and> repo_update r st e = (Some ErrInvalidDB, st) \<and>
         repo_delete r st i = (Some ErrInvalidDB, st) \<and> repo_count r st = (0, Some ErrInvalidDB)"
  using assms
  by (simp add: repo_create_def repo_get_by_id_def repo_get_all_def repo_update_def
      repo_delete_def repo_count_def)

theorem repo_without_db_witness:
  "repo_create (new_repository None test_user_meta) empty_mem_db (0::int, ''Jane'') =
     (Some ErrInvalidDB, (0, ''Jane''), empty_mem_db)"
  using conjunct1 [OF repo_without_db [of "new_repository None test_user_meta" empty_mem_db "(0::int, ''Jane'')" 0]]
  by (simp add: new_repository_def)

text \<open>C24: over a store that keeps the driver contract, \<open>Create\<close> of an entity with a
  zero key succeeds, assigns it a positive key, \<open>GetByID\<close> on that key returns the
  created entity, the count grows by one and the store's invariant is kept.\<close>

theorem repo_create_then_get:
  assumes "ops_ok ops" and "mem_inv ops st" and "repo_db r = Some (mem_driver ops)"
    and "get_id ops e = 0"
  shows "\<exists>e' st'. repo_create r st e = (None, e', st') \<and> 0 < get_id ops e' \<and>
           repo_get_by_id r st' (get_id ops e') = Inr e' \<and>
           fst (repo_count r st') = fst (repo_count r st) + 1 \<and> mem_inv ops st'"
proof -
  let ?e' = "set_id ops (next_id st) e"
  let ?st' = "st\<lparr>rows := rows st @ [(next_id st, ?e')], next_id := next_id st + 1\<rparr>"
  have ins: "mem_insert ops st e = (None, ?e', ?st')"
    by (rule mem_insert_fresh [OF assms(2,4)])
  have id: "get_id ops ?e' = next_id st" using assms(1) by (simp add: ops_ok_def)
  have pos: "0 < next_id st" using assms(2) by (simp add: mem_inv_def)
  have free: "map_of (rows st) (next_id st) = None"
    using ins by (auto simp: mem_insert_def Let_def assms(4) split: if_splits)
  have "repo_get_by_id r ?st' (get_id ops ?e') = Inr ?e'"
    using assms(3) id free
    by (simp add: repo_get_by_id_def mem_driver_def mem_first_def map_add_def)
  moreover have "mem_inv ops ?st'" using mem_inv_insert [OF assms(1,2) ins] .
  moreover have "repo_create r st e = (None, ?e', ?st')"
    using assms(3) ins by (simp add: repo_create_def mem_driver_def)
  ultimately show ?thesis
    using id pos assms(3) by (auto simp: repo_count_def mem_driver_def)
qed

theorem repo_create_then_get_witness:
  "\<exists>e' st'. repo_create (new_repository (Some (mem_driver test_user_ops)) test_user_meta) empty_mem_db (0, ''Jane'') =
      (None, e', st') \<and> 0 < fst e' \<and>
      repo_get_by_id (new_repository (Some (mem_driver test_user_ops)) test_user_meta) st' (fst e') = Inr e'"
proof -
  have ok: "ops_ok test_user_ops" by (simp add: ops_ok_def test_user_ops_def)
  have inv: "mem_inv test_user_ops empty_mem_db" by (simp add: mem_inv_def empty_mem_db_def)
  show ?thesis
    using repo_create_then_get [OF ok inv, of "new_repository (Some (mem_driver test_user_ops)) test_user_meta" "(0, ''Jane'')"]
    by (auto simp: new_repository_def test_user_ops_def)
qed

text \<open>C25: \<open>Update\<close> of a stored entity persists its whole state: the next
  \<open>GetByID\<close> on its key returns it.\<close>

theorem repo_update_visible:
  assumes "mem_inv ops st" and "repo_db r = Some (mem_driver ops)"
    and "get_id ops e \<noteq> 0" and "repo_get_by_id r st (get_id ops e) = Inr old"
  shows "\<exists>st'. repo_update r st e = (None, st') \<and> repo_get_by_id r st' (get_id ops e) = Inr e"
proof -
  have "map_of (rows st) (get_id ops e) = Some old"
    using assms(2,4) by (auto simp: repo_get_by_id_def mem_driver_def mem_first_def split: option.splits)
  then show ?thesis
    using assms(2,3)
    by (simp add: repo_update_def repo_get_by_id_def mem_driver_def mem_save_def mem_first_def
        update_conv')
qed

theorem repo_update_visible_witness:
  "\<exists>st'. repo_update (new_repository (Some (mem_driver test_user_ops)) test_user_meta)
            \<lparr>rows = [(1, (1, ''Jane''))], next_id = 2\<rparr> (1, ''Updated'') = (None, st') \<and>
         repo_get_by_id (new_repository (Some (mem_driver test_user_ops)) test_user_meta) st' 1 = Inr (1, ''Updated'')"
  using repo_update_visible [of test_user_ops "\<lparr>rows = [(1, (1, ''Jane''))], next_id = 2\<rparr>"
      "new_repository (Some (mem_driver test_user_ops)) test_user_meta" "(1, ''Updated'')" "(1, ''Jane'')"]
  by (simp add: new_repository_def test_user_ops_def mem_inv_def repo_get_by_id_def mem_driver_def
      mem_first_def)

text \<open>C26: \<open>Delete\<close> never fails on a key, present or not (idempotent deletion,
  the open question of the specification settled by the contract), and afterwards
  \<open>GetByID\<close> on that key reports \<open>ErrRecordNotFound\<close>.\<close>

theorem repo_delete_then_not_found:
  assumes "repo_db r = Some (mem_driver ops)"
  shows "\<exists>st'. repo_delete r st i = (None, st') \<and> repo_get_by_id r st' i = Inl ErrRecordNotFound"
proof -
  have "map_of (filter (\<lambda>(k, _). k \<noteq> i) xs) i = None" for xs :: "(int \<times> 'a) list"
    by (induction xs) auto
  then show ?thesis
    using assms
    by (simp add: repo_delete_def repo_get_by_id_def mem_driver_def mem_delete_def mem_first_def)
qed

theorem repo_delete_then_not_found_witness:
  "\<exists>st'. repo_delete (new_repository (Some (mem_driver test_user_ops)) test_user_meta) empty_mem_db 7 = (None, st') \<and>
         repo_get_by_id (new_repository (Some (mem_driver test_user_ops)) test_user_meta) st' 7 = Inl ErrRecordNotFound"
  using repo_delete_then_not_found [of "new_repository (Some (mem_driver test_user_ops)) test_user_meta" test_user_ops]
  by (simp add: new_repository_def)

end
