(* ===== verification/Hooks.thy ===== *)
theory Hooks
  imports Prelude
begin

text \<open>
  The lifecycle hooks.  \<^verbatim>\<open>src/goblar/hooks.go\<close> declares six one-method interfaces,
  one per lifecycle point: \<open>hook_kind\<close>.  \<^verbatim>\<open>src/internal/hooks/hooks.go\<close> (lines
  10--56) has one dispatcher per point: a type assertion \<open>entity.(goblar.X)\<close>
  and, when it succeeds, a call of the method, whose error is returned as it is.
  An entity's method set is given by a \<open>method_table\<close>: for an entity value and a
  lifecycle point, the method its dynamic type has, if any.  Methods have pointer
  receivers and may change the entity, so a method returns the error (\<^const>\<open>None\<close>
  for \<open>nil\<close>) and the entity after the call.  The context and the transaction handle
  are passed through unchanged.
\<close>

datatype hook_kind =
    BeforeCreate | AfterCreate | BeforeUpdate | AfterUpdate | BeforeDelete | AfterDelete

type_synonym ('ctx, 'tx, 'e) hook_method = "'ctx \<Rightarrow> 'tx \<Rightarrow> 'e \<Rightarrow> string option \<times> 'e"

type_synonym ('ctx, 'tx, 'e) method_table = "'e \<Rightarrow> hook_kind \<Rightarrow> ('ctx, 'tx, 'e) hook_method option"

text \<open>The shape of every dispatcher of internal/hooks/hooks.go.\<close>

definition call_hook ::
  "('ctx, 'tx, 'e) method_table \<Rightarrow> hook_kind \<Rightarrow> 'ctx \<Rightarrow> 'e \<Rightarrow> 'tx \<Rightarrow> string option \<times> 'e" where
  "call_hook ms k ctx e tx = (case ms e k of Some h \<Rightarrow> h ctx tx e | None \<Rightarrow> (None, e))"

definition call_before_create where "call_before_create ms = call_hook ms BeforeCreate"
definition call_after_create where "call_after_create ms = call_hook ms AfterCreate"
definition call_before_update where "call_before_update ms = call_hook ms BeforeUpdate"
definition call_after_update where "call_after_update ms = call_hook ms AfterUpdate"
definition call_before_delete where "call_before_delete ms = call_hook ms BeforeDelete"
definition call_after_delete where "call_after_delete ms = call_hook ms AfterDelete"

lemmas call_hook_defs = call_before_create_def call_after_create_def call_before_update_def
  call_after_update_def call_before_delete_def call_after_delete_def

section \<open>The test entity of hooks_test.go\<close>

text \<open>
  \<open>MockEntityWithHooks\<close> (src/unnamed/part_004, lines 11--70) implements all six
  hooks: each sets its flag and fails when \<open>ShouldFail\<close> is set.  \<open>SimpleEntity\<close>
  implements none.
\<close>

record mock_entity =
  me_id :: nat
  me_name :: string
  before_create_called :: bool
  after_create_called :: bool
  before_update_called :: bool
  after_update_called :: bool
  before_delete_called :: bool
  after_delete_called :: bool
  should_fail :: bool

fun mock_mark :: "hook_kind \<Rightarrow> mock_entity \<Rightarrow> mock_entity" where
  "mock_mark BeforeCreate m = m\<lparr>before_create_called := True\<rparr>"
| "mock_mark AfterCreate m = m\<lparr>after_create_called := True\<rparr>"
| "mock_mark BeforeUpdate m = m\<lparr>before_update_called := True\<rparr>"
| "mock_mark AfterUpdate m = m\<lparr>after_update_called := True\<rparr>"
| "mock_mark BeforeDelete m = m\<lparr>before_delete_called := True\<rparr>"
| "mock_mark AfterDelete m = m\<lparr>after_delete_called := True\<rparr>"

fun mock_message :: "hook_kind \<Rightarrow> string" where
  "mock_message BeforeCreate = ''before create failed''"
| "mock_message AfterCreate = ''after create failed''"
| "mock_message BeforeUpdate = ''before update failed''"
| "mock_message AfterUpdate = ''after update failed''"
| "mock_message BeforeDelete = ''before delete failed''"
| "mock_message AfterDelete = ''after delete failed''"

definition mock_methods :: "('ctx, 'tx, mock_entity) method_table" where
  "mock_methods m k =
     Some (\<lambda>ctx tx m. let m' = mock_mark k m in
                      (if should_fail m' then Some (mock_message k) else None, m'))"

definition simple_methods :: "('ctx, 'tx, 'e) method_table" where
  "simple_methods e k = None"

fun mock_called :: "hook_kind \<Rightarrow> mock_entity \<Rightarrow> bool" where
  "mock_called BeforeCreate m = before_create_called m"
| "mock_called AfterCreate m = after_create_called m"
| "mock_called BeforeUpdate m = before_update_called m"
| "mock_called AfterUpdate m = after_update_called m"
| "mock_called BeforeDelete m = before_delete_called m"
| "mock_called AfterDelete m = after_delete_called m"

text \<open>A sequence of dispatch calls on one entity, stopping at the first error as the
  \<open>t.Fatal\<close> of \<open>TestMultipleHooks\<close> does.\<close>

fun run_hooks ::
  "('ctx, 'tx, 'e) method_table \<Rightarrow> 'ctx \<Rightarrow> 'tx \<Rightarrow> hook_kind list \<Rightarrow> 'e \<Rightarrow> string option \<times> 'e" where
  "run_hooks ms ctx tx [] e = (None, e)"
| "run_hooks ms ctx tx (k # ks) e =
     (case call_hook ms k ctx e tx of
        (Some err, e') \<Rightarrow> (Some err, e')
      | (None, e') \<Rightarrow> run_hooks ms ctx tx ks e')"

section \<open>The tests of hooks_test.go\<close>

text \<open>The tests of src/unnamed/part_004 (lines 78--221) as values: \<^const>\<open>None\<close>
  when the test passes, the message of its \<open>t.Fatal\<close> otherwise.  The context is
  \<open>context.Background()\<close> and the transaction \<open>nil\<close>, both \<open>()\<close> here.\<close>

definition mock_zero :: mock_entity where
  "mock_zero =
     \<lparr>me_id = 0, me_name = [], before_create_called = False, after_create_called = False,
      before_update_called = False, after_update_called = False, before_delete_called = False,
      after_delete_called = False, should_fail = False\<rparr>"

fun hook_name :: "hook_kind \<Rightarrow> string" where
  "hook_name BeforeCreate = ''BeforeCreate''"
| "hook_name AfterCreate = ''AfterCreate''"
| "hook_name BeforeUpdate = ''BeforeUpdate''"
| "hook_name AfterUpdate = ''AfterUpdate''"
| "hook_name BeforeDelete = ''BeforeDelete''"
| "hook_name AfterDelete = ''AfterDelete''"

text \<open>\<open>TestCallBeforeCreate\<close> and the five tests of the same shape
  (\<open>TestCallAfterCreate\<close> \<dots> \<open>TestCallAfterDelete\<close>): dispatch on a fresh mock,
  expect no error and the flag of that hook set.\<close>

definition test_call_hook ::
  "(unit \<Rightarrow> mock_entity \<Rightarrow> unit \<Rightarrow> string option \<times> mock_entity) \<Rightarrow> hook_kind \<Rightarrow> string option" where
  "test_call_hook dispatch k =
     (case dispatch () mock_zero () of
        (Some err, _) \<Rightarrow> Some (''expected no error, got '' @ err)
      | (None, entity) \<Rightarrow>
          if \<not> mock_called k entity then Some (''expected '' @ hook_name k @ '' to be called'') else None)"

definition test_call_before_create :: "string option" where
  "test_call_before_create = test_call_hook (call_before_create mock_methods) BeforeCreate"

definition test_call_after_create :: "string option" where
  "test_call_after_create = test_call_hook (call_after_create mock_methods) AfterCreate"

definition test_call_before_update :: "string option" where
  "test_call_before_update = test_call_hook (call_before_update mock_methods) BeforeUpdate"

definition test_call_after_update :: "string option" where
  "test_call_after_update = test_call_hook (call_after_update mock_methods) AfterUpdate"

definition test_call_before_delete :: "string option" where
  "test_call_before_delete = test_call_hook (call_before_delete mock_methods) BeforeDelete"

definition test_call_after_delete :: "string option" where
  "test_call_after_delete = test_call_hook (call_after_delete mock_methods) AfterDelete"

text \<open>\<open>TestCallBeforeCreateWithError\<close>, lines 94--103.\<close>

definition test_call_before_create_with_error :: "string option" where
  "test_call_before_create_with_error =
     (case call_before_create mock_methods () (mock_zero\<lparr>should_fail := True\<rparr>) () of
        (None, _) \<Rightarrow> Some ''expected error from BeforeCreate''
      | (Some _, _) \<Rightarrow> None)"

text \<open>\<open>TestCallBeforeCreateNoImplementation\<close>, lines 105--114: \<open>SimpleEntity{}\<close>
  as the pair of its \<open>ID\<close> and \<open>Name\<close>.\<close>

definition test_call_before_create_no_implementation :: "string option" where
  "test_call_before_create_no_implementation =
     (case call_before_create simple_methods () (0::nat, [] :: string) () of
        (Some err, _) \<Rightarrow> Some (''expected no error for entity without hook, got '' @ err)
      | (None, _) \<Rightarrow> None)"

text \<open>\<open>TestMultipleHooks\<close>, lines 191--221.\<close>

definition test_multiple_hooks :: "string option" where
  "test_multiple_hooks =
     (case run_hooks mock_methods () ()
             [BeforeCreate, AfterCreate, BeforeUpdate, AfterUpdate, BeforeDelete, AfterDelete] mock_zero of
        (Some err, _) \<Rightarrow> Some err
      | (None, entity) \<Rightarrow>
          if \<not> before_create_called entity \<or> \<not> after_create_called entity \<or>
             \<not> before_update_called entity \<or> \<not> after_update_called entity \<or>
             \<not> before_delete_called entity \<or> \<not> after_delete_called entity
          then Some ''expected all hooks to be called'' else None)"

section \<open>Facts\<close>

lemma mock_called_mark: "mock_called k (mock_mark k' m) \<longleftrightarrow> k = k' \<or> mock_called k m"
  by (cases k; cases k') simp_all

lemma should_fail_mark [simp]: "should_fail (mock_mark k m) = should_fail m"
  by (cases k) simp_all

lemma call_hook_mock:
  "call_hook mock_methods k ctx m tx =
     (if should_fail m then Some (mock_message k) else None, mock_mark k m)"
  by (simp add: call_hook_def mock_methods_def Let_def)

lemma run_hooks_mock_ok:
  "\<not> should_fail m \<Longrightarrow>
     run_hooks mock_methods ctx tx ks m = (None, fold mock_mark ks m)"
  by (induction ks arbitrary: m) (simp_all add: call_hook_mock)

lemma mock_called_fold: "mock_called k (fold mock_mark ks m) \<longleftrightarrow> k \<in> set ks \<or> mock_called k m"
  by (induction ks arbitrary: m) (auto simp: mock_called_mark)

section \<open>Properties of the dispatchers\<close>

text \<open>Hooks are opt-in: for an entity whose type implements none of the six
  interfaces, every dispatcher returns success and leaves the entity as it was.\<close>

theorem dispatch_without_hooks:
  assumes "\<forall>k. ms e k = None"
  shows "call_before_create ms ctx e tx = (None, e) \<and> call_after_create ms ctx e tx = (None, e) \<and>
         call_before_update ms ctx e tx = (None, e) \<and> call_after_update ms ctx e tx = (None, e) \<and>
         call_before_delete ms ctx e tx = (None, e) \<and> call_after_delete ms ctx e tx = (None, e)"
  using assms by (simp add: call_hook_defs call_hook_def)

theorem dispatch_without_hooks_witness:
  "call_before_create simple_methods () (''SimpleEntity'', 1::nat) () = (None, (''SimpleEntity'', 1)) \<and>
   call_after_delete simple_methods () (''SimpleEntity'', 1::nat) () = (None, (''SimpleEntity'', 1))"
  using dispatch_without_hooks [of simple_methods "(''SimpleEntity'', 1::nat)" "()" "()"]
  by (simp add: simple_methods_def)

text \<open>Each dispatcher calls the hook of its own lifecycle point and no other, and
  returns that hook's error unchanged: on the test entity, the call for \<open>k\<close> sets the
  flag of \<open>k\<close> only and fails exactly when \<open>ShouldFail\<close> is set.\<close>

theorem dispatch_calls_own_hook:
  "fst (call_hook mock_methods k ctx m tx) = (if should_fail m then Some (mock_message k) else None) \<and>
   (mock_called k' (snd (call_hook mock_methods k ctx m tx)) \<longleftrightarrow> k' = k \<or> mock_called k' m) \<and>
   should_fail (snd (call_hook mock_methods k ctx m tx)) = should_fail m"
  by (simp add: call_hook_mock mock_called_mark)

text \<open>\<open>TestMultipleHooks\<close>: the six dispatchers called in sequence on one entity
  whose hooks succeed all succeed, and afterwards all six flags are set.\<close>

theorem six_hooks_in_sequence:
  assumes "\<not> should_fail m"
  shows "fst (run_hooks mock_methods ctx tx
                [BeforeCreate, AfterCreate, BeforeUpdate, AfterUpdate, BeforeDelete, AfterDelete] m) = None \<and>
         (\<forall>k. mock_called k (snd (run_hooks mock_methods ctx tx
                [BeforeCreate, AfterCreate, BeforeUpdate, AfterUpdate, BeforeDelete, AfterDelete] m)))"
proof -
  let ?ks = "[BeforeCreate, AfterCreate, BeforeUpdate, AfterUpdate, BeforeDelete, AfterDelete]"
  have r: "run_hooks mock_methods ctx tx ?ks m = (None, fold mock_mark ?ks m)"
    by (rule run_hooks_mock_ok [OF assms])
  have "k \<in> set ?ks" for k
    by (cases k) simp_all
  then show ?thesis
    by (simp only: r fst_conv snd_conv mock_called_fold) blast
qed

theorem six_hooks_in_sequence_witness:
  "fst (run_hooks mock_methods () ()
      [BeforeCreate, AfterCreate, BeforeUpdate, AfterUpdate, BeforeDelete, AfterDelete]
      \<lparr>me_id = 0, me_name = [], before_create_called = False, after_create_called = False,
       before_update_called = False, after_update_called = False, before_delete_called = False,
       after_delete_called = False, should_fail = False\<rparr>) = None"
  using six_hooks_in_sequence [of "\<lparr>me_id = 0, me_name = [], before_create_called = False,
      after_create_called = False, before_update_called = False, after_update_called = False,
      before_delete_called = False, after_delete_called = False, should_fail = False\<rparr>" "()" "()"]
  by simp

text \<open>The nine tests of hooks_test.go pass.\<close>

lemma hooks_tests_pass:
  "test_call_before_create = None \<and> test_call_after_create = None \<and> test_call_before_update = None \<and>
   test_call_after_update = None \<and> test_call_before_delete = None \<and> test_call_after_delete = None \<and>
   test_call_before_create_with_error = None \<and> test_call_before_create_no_implementation = None \<and>
   test_multiple_hooks = None"
  by (simp add: test_call_before_create_def test_call_after_create_def test_call_before_update_def
      test_call_after_update_def test_call_before_delete_def test_call_after_delete_def
      test_call_hook_def test_call_before_create_with_error_def test_call_before_create_no_implementation_def
      test_multiple_hooks_def call_hook_defs mock_zero_def simple_methods_def call_hook_def mock_methods_def
      Let_def)

end
