(* ===== verification/Strconv.thy ===== *)
theory Strconv
  imports Prelude
begin

text \<open>
  \<open>strconv.ParseInt(s, 10, 64)\<close>, the parser the HTTP handlers apply to the \<open>{id}\<close>
  path parameter (src/internal/http/handlers.go, lines 88, 117 and 160): an optional
  sign, then at least one decimal digit (no underscores in base 10), then a range check
  against the 64-bit bounds: \<open>ErrRange\<close> above \<open>2^63 - 1\<close> or below \<open>-2^63\<close>,
  \<open>ErrSyntax\<close> for anything else that is not a number.  Digits are read into an
  unbounded \<^typ>\<open>nat\<close> and then checked, which gives the same verdicts as Go's
  overflow-checked accumulation.  \<open>format_int\<close> is \<open>strconv.FormatInt(n, 10)\<close>,
  the inverse the round trip is stated with.
\<close>

datatype num_error = ErrSyntax | ErrRange

definition is_digit :: "char \<Rightarrow> bool" where
  "is_digit c \<longleftrightarrow> (48::nat) \<le> of_char c \<and> (of_char c :: nat) \<le> 57"

definition digit_value :: "char \<Rightarrow> nat" where
  "digit_value c = of_char c - 48"

definition digits_value :: "string \<Rightarrow> nat" where
  "digits_value ds = foldl (\<lambda>n c. 10 * n + digit_value c) 0 ds"

definition int64_cutoff :: nat where
  "int64_cutoff = 9223372036854775808"

definition parse_int :: "string \<Rightarrow> num_error + int" where
  "parse_int s =
     (if s = [] then Inl ErrSyntax
      else
        let (neg, ds) = (if hd s = CHR ''+'' then (False, tl s)
                         else if hd s = CHR ''-'' then (True, tl s) else (False, s))
        in if ds = [] \<or> \<not> list_all is_digit ds then Inl ErrSyntax
           else let un = digits_value ds in
             if \<not> neg \<and> int64_cutoff \<le> un then Inl ErrRange
             else if neg \<and> int64_cutoff < un then Inl ErrRange
             else Inr (if neg then - int un else int un))"

definition digit_char :: "nat \<Rightarrow> char" where
  "digit_char d = char_of (48 + d)"

fun format_nat :: "nat \<Rightarrow> string" where
  "format_nat n = (if n < 10 then [digit_char n] else format_nat (n div 10) @ [digit_char (n mod 10)])"

declare format_nat.simps [simp del]

definition format_int :: "int \<Rightarrow> string" where
  "format_int i = (if i < 0 then CHR ''-'' # format_nat (nat (- i)) else format_nat (nat i))"

section \<open>Facts\<close>

lemma int64_cutoff_pow: "int64_cutoff = 2 ^ 63"
  by (simp add: int64_cutoff_def)

lemma is_digit_not_sign: "is_digit c \<Longrightarrow> c \<noteq> CHR ''+'' \<and> c \<noteq> CHR ''-''"
  by (auto simp: is_digit_def)

lemma digits_value_snoc: "digits_value (ds @ [c]) = 10 * digits_value ds + digit_value c"
  by (simp add: digits_value_def)

lemma digit_char_props:
  assumes "d < 10"
  shows "is_digit (digit_char d)" and "digit_value (digit_char d) = d"
  using assms by (simp_all add: is_digit_def digit_value_def digit_char_def)

lemma format_nat_props:
  "format_nat n \<noteq> [] \<and> list_all is_digit (format_nat n) \<and> digits_value (format_nat n) = n \<and>
   hd (format_nat n) \<noteq> CHR ''+'' \<and> hd (format_nat n) \<noteq> CHR ''-''"
proof (induction n rule: format_nat.induct)
  case (1 n)
  show ?case
  proof (cases "n < 10")
    case True
    then have "format_nat n = [digit_char n]" by (simp add: format_nat.simps)
    with True show ?thesis
      using is_digit_not_sign [OF digit_char_props(1) [OF True]]
      by (simp add: digit_char_props digits_value_def)
  next
    case False
    then have eq: "format_nat n = format_nat (n div 10) @ [digit_char (n mod 10)]"
      by (simp add: format_nat.simps)
    from False "1.IH" have ih: "format_nat (n div 10) \<noteq> []"
      "list_all is_digit (format_nat (n div 10))" "digits_value (format_nat (n div 10)) = n div 10"
      "hd (format_nat (n div 10)) \<noteq> CHR ''+''" "hd (format_nat (n div 10)) \<noteq> CHR ''-''"
      by simp_all
    have "digits_value (format_nat n) = 10 * (n div 10) + n mod 10"
      using eq ih(3) by (simp add: digits_value_snoc digit_char_props)
    also have "\<dots> = n" by simp
    finally show ?thesis
      using eq ih by (simp add: digit_char_props)
  qed
qed

lemma parse_int_Inr:
  assumes "parse_int s = Inr n"
  shows "\<exists>un neg. n = (if neg then - int un else int un) \<and>
           (\<not> neg \<longrightarrow> un < int64_cutoff) \<and> (neg \<longrightarrow> un \<le> int64_cutoff)"
proof -
  obtain neg ds where sp: "(if hd s = CHR ''+'' then (False, tl s)
        else if hd s = CHR ''-'' then (True, tl s) else (False, s)) = (neg, ds)"
    by (metis prod.exhaust)
  from assms sp have "n = (if neg then - int (digits_value ds) else int (digits_value ds)) \<and>
      (\<not> neg \<longrightarrow> digits_value ds < int64_cutoff) \<and> (neg \<longrightarrow> digits_value ds \<le> int64_cutoff)"
    by (auto simp: parse_int_def Let_def split: if_splits)
  then show ?thesis by blast
qed

lemma parse_format_neg:
  assumes "n < 0"
  shows "parse_int (format_int n) = (if - (2 ^ 63) \<le> n then Inr n else Inl ErrRange)"
proof -
  let ?m = "nat (- n)"
  have m: "?m \<le> int64_cutoff \<longleftrightarrow> - (2 ^ 63) \<le> n"
    using assms by (simp add: int64_cutoff_def nat_le_iff) arith
  have f: "format_nat ?m \<noteq> []" "list_all is_digit (format_nat ?m)" "digits_value (format_nat ?m) = ?m"
    using format_nat_props [of ?m] by simp_all
  show ?thesis
    using assms m f by (auto simp: format_int_def parse_int_def Let_def)
qed

lemma parse_format_nonneg:
  assumes "0 \<le> n"
  shows "parse_int (format_int n) = (if n < 2 ^ 63 then Inr n else Inl ErrRange)"
proof -
  let ?m = "nat n"
  have m: "?m < int64_cutoff \<longleftrightarrow> n < 2 ^ 63"
    using assms by (simp add: int64_cutoff_def nat_less_iff)
  have f: "format_nat ?m \<noteq> []" "list_all is_digit (format_nat ?m)" "digits_value (format_nat ?m) = ?m"
    "hd (format_nat ?m) \<noteq> CHR ''+''" "hd (format_nat ?m) \<noteq> CHR ''-''"
    using format_nat_props [of ?m] by simp_all
  show ?thesis
    using assms m f by (auto simp: format_int_def parse_int_def Let_def not_le)
qed


end
