(* ===== verification/Handlers.thy ===== *)
theory Handlers
  imports Repository Hooks Strconv
begin

text \<open>
  The CRUD handlers of \<^verbatim>\<open>src/internal/http/handlers.go\<close>.  \<open>Handlers\<close> holds the
  database handle (a \<open>driver option\<close>, \<open>nil\<close> as \<^const>\<open>None\<close>).  A request is the
  decoded JSON body (\<^const>\<open>None\<close> when \<open>json.Decode\<close> fails) and the \<open>{id}\<close> path
  parameter; the body is decoded into a fresh instance of the entity type, so the
  decoded value is the entity the handler works on.  A handler returns the response,
  the database state after it, and the trace of the hook dispatches and storage
  calls it made, in order.  \<open>http.Error\<close> writes the status and the message; a
  method call on a \<open>nil\<close> \<open>*gorm.DB\<close> panics, which is \<open>Panic\<close>.  The hooks receive
  the handle as their transaction argument.
\<close>

record ('e, 'db) handlers =
  h_db :: "('e, 'db) driver option"

definition new_handlers :: "('e, 'db) driver option \<Rightarrow> ('e, 'db) handlers" where
  "new_handlers db = \<lparr>h_db = db\<rparr>"

datatype 'e body = NoBody | JsonOne 'e | JsonList "'e list" | ErrorText string

datatype 'e response = Respond nat "'e body" | Panic

datatype event = EvHook hook_kind | EvCreate | EvFind | EvFirst int | EvUpdates int | EvDelete int

type_synonym ('ctx, 'e, 'db) hooks = "('ctx, ('e, 'db) driver option, 'e) method_table"

type_synonym ('e, 'db) outcome = "'e response \<times> 'db \<times> event list"

definition http_error :: "nat \<Rightarrow> string \<Rightarrow> 'e response" where
  "http_error status msg = Respond status (ErrorText msg)"

text \<open>\<open>CreateHandler\<close>, lines 27--60.\<close>

definition create_handler ::
  "('ctx, 'e, 'db) hooks \<Rightarrow> ('e, 'db) handlers \<Rightarrow> 'ctx \<Rightarrow> 'e option \<Rightarrow> 'db \<Rightarrow> ('e, 'db) outcome" where
  "create_handler ms h ctx body st =
     (case body of
        None \<Rightarrow> (http_error 400 ''Invalid request body'', st, [])
      | Some e \<Rightarrow>
          (case call_before_create ms ctx e (h_db h) of
             (Some err, _) \<Rightarrow> (http_error 500 err, st, [EvHook BeforeCreate])
           | (None, e1) \<Rightarrow>
               (case h_db h of
                  None \<Rightarrow> (Panic, st, [EvHook BeforeCreate])
                | Some d \<Rightarrow>
                    (case drv_create d st e1 of
                       (Some err, _, st2) \<Rightarrow>
                         (http_error 500 (error_message err), st2, [EvHook BeforeCreate, EvCreate])
                     | (None, e2, st2) \<Rightarrow>
                         (case call_after_create ms ctx e2 (h_db h) of
                            (Some err, _) \<Rightarrow>
                              (http_error 500 err, st2, [EvHook BeforeCreate, EvCreate, EvHook AfterCreate])
                          | (None, e3) \<Rightarrow>
                              (Respond 201 (JsonOne e3), st2,
                               [EvHook BeforeCreate, EvCreate, EvHook AfterCreate]))))))"

text \<open>\<open>ListHandler\<close>, lines 63--79: no hooks; the status of a successful list is the
  default 200.\<close>

definition list_handler :: "('e, 'db) handlers \<Rightarrow> 'db \<Rightarrow> ('e, 'db) outcome" where
  "list_handler h st =
     (case h_db h of
        None \<Rightarrow> (Panic, st, [])
      | Some d \<Rightarrow>
          (case drv_find d st of
             Inl err \<Rightarrow> (http_error 500 (error_message err), st, [EvFind])
           | Inr es \<Rightarrow> (Respond 200 (JsonList es), st, [EvFind])))"

text \<open>The lookup shared by \<open>GetHandler\<close> (lines 95--103) and \<open>DeleteHandler\<close>
  (lines 167--175): \<open>ErrRecordNotFound\<close> is 404, any other error 500.\<close>

definition first_or_error :: "('e, 'db) driver \<Rightarrow> 'db \<Rightarrow> int \<Rightarrow> 'e response + 'e" where
  "first_or_error d st i =
     (case drv_first d st i of
        Inl ErrRecordNotFound \<Rightarrow> Inl (http_error 404 ''Not found'')
      | Inl err \<Rightarrow> Inl (http_error 500 (error_message err))
      | Inr e \<Rightarrow> Inr e)"

text \<open>\<open>GetHandler\<close>, lines 82--108.\<close>

definition get_handler :: "('e, 'db) handlers \<Rightarrow> string \<Rightarrow> 'db \<Rightarrow> ('e, 'db) outcome" where
  "get_handler h id_str st =
     (case parse_int id_str of
        Inl _ \<Rightarrow> (http_error 400 ''Invalid ID'', st, [])
      | Inr i \<Rightarrow>
          (case h_db h of
             None \<Rightarrow> (Panic, st, [])
           | Some d \<Rightarrow>
               (case first_or_error d st i of
                  Inl resp \<Rightarrow> (resp, st, [EvFirst i])
                | Inr e \<Rightarrow> (Respond 200 (JsonOne e), st, [EvFirst i]))))"

text \<open>\<open>UpdateHandler\<close>, lines 111--151: the id is parsed before the body is decoded.\<close>

definition update_handler ::
  "('ctx, 'e, 'db) hooks \<Rightarrow> ('e, 'db) handlers \<Rightarrow> 'ctx \<Rightarrow> string \<Rightarrow> 'e option \<Rightarrow> 'db \<Rightarrow> ('e, 'db) outcome" where
  "update_handler ms h ctx id_str body st =
     (case parse_int id_str of
        Inl _ \<Rightarrow> (http_error 400 ''Invalid ID'', st, [])
      | Inr i \<Rightarrow>
          (case body of
             None \<Rightarrow> (http_error 400 ''Invalid request body'', st, [])
           | Some e \<Rightarrow>
               (case call_before_update ms ctx e (h_db h) of
                  (Some err, _) \<Rightarrow> (http_error 500 err, st, [EvHook BeforeUpdate])
                | (None, e1) \<Rightarrow>
                    (case h_db h of
                       None \<Rightarrow> (Panic, st, [EvHook BeforeUpdate])
                     | Some d \<Rightarrow>
                         (case drv_updates d st i e1 of
                            (Some err, st2) \<Rightarrow>
                              (http_error 500 (error_message err), st2, [EvHook BeforeUpdate, EvUpdates i])
                          | (None, st2) \<Rightarrow>
                              (case call_after_update ms ctx e1 (h_db h) of
                                 (Some err, _) \<Rightarrow>
                                   (http_error 500 err, st2,
                                    [EvHook BeforeUpdate, EvUpdates i, EvHook AfterUpdate])
                               | (None, e3) \<Rightarrow>
                                   (Respond 200 (JsonOne e3), st2,
                                    [EvHook BeforeUpdate, EvUpdates i, EvHook AfterUpdate])))))))"

text \<open>\<open>DeleteHandler\<close>, lines 154--197: the row is fetched first, so that the hooks
  see the stored entity.\<close>

definition delete_handler ::
  "('ctx, 'e, 'db) hooks \<Rightarrow> ('e, 'db) handlers \<Rightarrow> 'ctx \<Rightarrow> string \<Rightarrow> 'db \<Rightarrow> ('e, 'db) outcome" where
  "delete_handler ms h ctx id_str st =
     (case parse_int id_str of
        Inl _ \<Rightarrow> (http_error 400 ''Invalid ID'', st, [])
      | Inr i \<Rightarrow>
          (case h_db h of
             None \<Rightarrow> (Panic, st, [])
           | Some d \<Rightarrow>
               (case first_or_error d st i of
                  Inl resp \<Rightarrow> (resp, st, [EvFirst i])
                | Inr e \<Rightarrow>
                    (case call_before_delete ms ctx e (h_db h) of
                       (Some err, _) \<Rightarrow> (http_error 500 err, st, [EvFirst i, EvHook BeforeDelete])
                     | (None, e1) \<Rightarrow>
                         (case drv_delete d st i of
                            (Some err, st2) \<Rightarrow>
                              (http_error 500 (error_message err), st2,
                               [EvFirst i, EvHook BeforeDelete, EvDelete i])
                          | (None, st2) \<Rightarrow>
                              (case call_after_delete ms ctx e1 (h_db h) of
                                 (Some err, _) \<Rightarrow>
                                   (http_error 500 err, st2,
                                    [EvFirst i, EvHook BeforeDelete, EvDelete i, EvHook AfterDelete])
                               | (None, _) \<Rightarrow>
                                   (Respond 204 NoBody, st2,
                                    [EvFirst i, EvHook BeforeDelete, EvDelete i, EvHook AfterDelete])))))))"

text \<open>The status a response writes; a panic writes none.\<close>

fun resp_status :: "'e response \<Rightarrow> nat option" where
  "resp_status (Respond s b) = Some s"
| "resp_status Panic = None"

text \<open>The specification's mapping of a storage error to a status (section 7):
  \<open>NotFound\<close> is 404, every other error 500.\<close>

definition error_status :: "db_error \<Rightarrow> nat" where
  "error_status err = (if err = ErrRecordNotFound then 404 else 500)"

section \<open>Facts\<close>

lemma call_hook_no_method [simp]: "ms e k = None \<Longrightarrow> call_hook ms k ctx e tx = (None, e)"
  by (simp add: call_hook_def)

lemma call_hooks_no_method:
  assumes "ms e = (\<lambda>k. None)"
  shows "call_before_create ms ctx e tx = (None, e)" "call_after_create ms ctx e tx = (None, e)"
    "call_before_update ms ctx e tx = (None, e)" "call_after_update ms ctx e tx = (None, e)"
    "call_before_delete ms ctx e tx = (None, e)" "call_after_delete ms ctx e tx = (None, e)"
  using assms by (simp_all add: call_hook_defs fun_eq_iff)

lemma mem_driver_sel [simp]:
  "drv_create (mem_driver ops) = mem_insert ops" "drv_first (mem_driver ops) = mem_first"
  "drv_updates (mem_driver ops) = mem_updates ops" "drv_delete (mem_driver ops) = mem_delete"
  by (simp_all add: mem_driver_def)

lemma first_or_error_mem:
  "first_or_error (mem_driver ops) st i =
     (case map_of (rows st) i of None \<Rightarrow> Inl (http_error 404 ''Not found'') | Some e \<Rightarrow> Inr e)"
  by (simp add: first_or_error_def mem_driver_def mem_first_def split: option.splits)

lemma first_or_error_Inl_status:
  "drv_first d st i = Inl err \<Longrightarrow>
     \<exists>resp. first_or_error d st i = Inl resp \<and> resp_status resp = Some (error_status err)"
  by (cases err) (simp_all add: first_or_error_def http_error_def error_status_def)

lemma first_or_error_Inr: "drv_first d st i = Inr e \<Longrightarrow> first_or_error d st i = Inr e"
  by (simp add: first_or_error_def)

section \<open>Properties of the handlers\<close>

text \<open>C6: a failing \<open>BeforeCreate\<close> hook aborts the request: the handler answers
  500 with the hook's message, and the storage is neither called nor changed.\<close>

theorem create_before_hook_aborts:
  assumes "call_before_create ms ctx e (h_db h) = (Some err, e')"
  shows "create_handler ms h ctx (Some e) st = (http_error 500 err, st, [EvHook BeforeCreate])"
  using assms by (simp add: create_handler_def)

theorem create_before_hook_aborts_witness:
  "create_handler mock_methods (new_handlers None) ()
     (Some \<lparr>me_id = 0, me_name = ''x'', before_create_called = False, after_create_called = False,
            before_update_called = False, after_update_called = False, before_delete_called = False,
            after_delete_called = False, should_fail = True\<rparr>) (0::nat) =
   (http_error 500 ''before create failed'', 0, [EvHook BeforeCreate])"
  by (rule create_before_hook_aborts) (simp add: call_hook_defs call_hook_mock new_handlers_def)

text \<open>An \<open>{id}\<close> that \<open>strconv.ParseInt\<close> rejects gives 400 \<open>Invalid ID\<close> on
  get, update and delete, before any hook or storage call and without a change of
  state.\<close>

theorem handlers_invalid_id:
  assumes "parse_int s = Inl x"
  shows "get_handler h s st = (http_error 400 ''Invalid ID'', st, []) \<and>
         update_handler ms h ctx s body st = (http_error 400 ''Invalid ID'', st, []) \<and>
         delete_handler ms h ctx s st = (http_error 400 ''Invalid ID'', st, [])"
  using assms by (simp add: get_handler_def update_handler_def delete_handler_def)

theorem handlers_invalid_id_witness:
  "get_handler (new_handlers None) ''abc'' (0::nat) = (http_error 400 ''Invalid ID'', 0, [])"
proof -
  have "parse_int ''abc'' = Inl ErrSyntax" by (simp add: parse_int_def is_digit_def)
  from conjunct1 [OF handlers_invalid_id [OF this, of "new_handlers None" "0::nat"]] show ?thesis .
qed

text \<open>C7: over a store that keeps the driver contract and an entity type without
  hooks, \<open>POST\<close> of an entity with a zero key answers 201 with the entity under a
  fresh key, after the dispatches and the store call in the order
  \<open>BeforeCreate\<close>, \<open>Create\<close>, \<open>AfterCreate\<close>; a \<open>GET\<close> of the key, as
  \<open>strconv.FormatInt\<close> writes it, then answers 200 with the same entity.  The keys
  must stay below \<open>2^63\<close>: a larger one could not be requested.\<close>

theorem create_then_get_handler:
  assumes "ops_ok ops" and "mem_inv ops st" and "h_db h = Some (mem_driver ops)"
    and "get_id ops e = 0" and "\<forall>x. ms x = (\<lambda>k. None)" and "next_id st < 2 ^ 63"
  shows "\<exists>e' st'. create_handler ms h ctx (Some e) st =
             (Respond 201 (JsonOne e'), st', [EvHook BeforeCreate, EvCreate, EvHook AfterCreate]) \<and>
           get_handler h (format_int (get_id ops e')) st' =
             (Respond 200 (JsonOne e'), st', [EvFirst (get_id ops e')])"
proof -
  let ?n = "next_id st"
  let ?e' = "set_id ops ?n e"
  let ?st' = "st\<lparr>rows := rows st @ [(?n, ?e')], next_id := ?n + 1\<rparr>"
  have ins: "mem_insert ops st e = (None, ?e', ?st')"
    by (rule mem_insert_fresh [OF assms(2,4)])
  have id: "get_id ops ?e' = ?n" using assms(1) by (simp add: ops_ok_def)
  have pos: "0 < ?n" using assms(2) by (simp add: mem_inv_def)
  have free: "map_of (rows st) ?n = None"
    using ins by (auto simp: mem_insert_def Let_def assms(4) split: if_splits)
  have p: "parse_int (format_int ?n) = Inr ?n"
    using pos assms(6) parse_format_nonneg [of ?n] by simp
  have "create_handler ms h ctx (Some e) st =
          (Respond 201 (JsonOne ?e'), ?st', [EvHook BeforeCreate, EvCreate, EvHook AfterCreate])"
    using ins assms(3,5) by (simp add: create_handler_def call_hooks_no_method mem_driver_def)
  moreover have "get_handler h (format_int (get_id ops ?e')) ?st' =
                   (Respond 200 (JsonOne ?e'), ?st', [EvFirst (get_id ops ?e')])"
    using id p free assms(3) by (simp add: get_handler_def first_or_error_mem map_add_def)
  ultimately show ?thesis by blast
qed

theorem create_then_get_handler_witness:
  "\<exists>e' st'. create_handler (\<lambda>x k. None) (new_handlers (Some (mem_driver test_user_ops))) ()
               (Some (0, ''Jane'')) empty_mem_db =
             (Respond 201 (JsonOne e'), st', [EvHook BeforeCreate, EvCreate, EvHook AfterCreate]) \<and>
           get_handler (new_handlers (Some (mem_driver test_user_ops))) (format_int (fst e')) st' =
             (Respond 200 (JsonOne e'), st', [EvFirst (fst e')])"
proof -
  have ok: "ops_ok test_user_ops" by (simp add: ops_ok_def test_user_ops_def)
  have inv: "mem_inv test_user_ops empty_mem_db" by (simp add: mem_inv_def empty_mem_db_def)
  show ?thesis
    using create_then_get_handler [OF ok inv, of "new_handlers (Some (mem_driver test_user_ops))"
        "(0, ''Jane'')" "\<lambda>x k. None" "()"]
    by (simp add: new_handlers_def test_user_ops_def empty_mem_db_def)
qed

text \<open>C10: \<open>GET\<close> and \<open>DELETE\<close> of a key with no row answer 404 \<open>Not found\<close>,
  leave the store as it was, and run no hook: the delete hooks are never
  dispatched for a missing row.\<close>

theorem missing_row_not_found:
  assumes "h_db h = Some (mem_driver ops)" and "parse_int s = Inr i" and "map_of (rows st) i = None"
  shows "get_handler h s st = (http_error 404 ''Not found'', st, [EvFirst i]) \<and>
         delete_handler ms h ctx s st = (http_error 404 ''Not found'', st, [EvFirst i])"
  using assms by (simp add: get_handler_def delete_handler_def first_or_error_mem)

theorem missing_row_not_found_witness:
  "delete_handler (\<lambda>x k. None) (new_handlers (Some (mem_driver test_user_ops))) () ''7'' empty_mem_db =
     (http_error 404 ''Not found'', empty_mem_db, [EvFirst 7])"
proof -
  have "parse_int ''7'' = Inr 7"
    by (simp add: parse_int_def digits_value_def digit_value_def is_digit_def int64_cutoff_def)
  from conjunct2 [OF missing_row_not_found [of "new_handlers (Some (mem_driver test_user_ops))"
        test_user_ops, OF _ this, of empty_mem_db]]
  show ?thesis by (simp add: new_handlers_def empty_mem_db_def)
qed

text \<open>C11: \<open>PUT\<close> of a key with no row answers 200 with the request's entity and
  changes nothing: \<open>Updates\<close> matching no row is not an error, so the handler never
  produces the 404 the specification asks of update.\<close>

theorem update_missing_row_ok:
  assumes "h_db h = Some (mem_driver ops)" and "parse_int s = Inr i"
    and "map_of (rows st) i = None" and "ms e = (\<lambda>k. None)"
  shows "update_handler ms h ctx s (Some e) st =
           (Respond 200 (JsonOne e), st, [EvHook BeforeUpdate, EvUpdates i, EvHook AfterUpdate])"
  using assms
  by (simp add: update_handler_def call_hooks_no_method mem_driver_def mem_updates_def)

theorem update_missing_row_ok_witness:
  "update_handler (\<lambda>x k. None) (new_handlers (Some (mem_driver test_user_ops))) () ''7''
      (Some (7, ''Ghost'')) empty_mem_db =
     (Respond 200 (JsonOne (7, ''Ghost'')), empty_mem_db, [EvHook BeforeUpdate, EvUpdates 7, EvHook AfterUpdate])"
proof -
  have "parse_int ''7'' = Inr 7"
    by (simp add: parse_int_def digits_value_def digit_value_def is_digit_def int64_cutoff_def)
  from update_missing_row_ok [of "new_handlers (Some (mem_driver test_user_ops))" test_user_ops,
      OF _ this, of empty_mem_db "\<lambda>x k. None" "(7, ''Ghost'')"]
  show ?thesis by (simp add: new_handlers_def empty_mem_db_def)
qed

text \<open>C21: the handlers never check the database handle: with a \<open>nil\<close> handle,
  list, get and delete of a well-formed id, and create once its \<open>BeforeCreate\<close>
  hook has passed, panic instead of reporting a missing storage.\<close>

theorem nil_db_panics:
  assumes "h_db h = None" and "parse_int s = Inr i"
    and "fst (call_before_create ms ctx e (h_db h)) = None"
  shows "fst (list_handler h st) = Panic \<and> fst (get_handler h s st) = Panic \<and>
         fst (delete_handler ms h ctx s st) = Panic \<and> fst (create_handler ms h ctx (Some e) st) = Panic"
proof -
  obtain e1 where "call_before_create ms ctx e (h_db h) = (None, e1)"
    using assms(3) by (cases "call_before_create ms ctx e (h_db h)") auto
  then show ?thesis
    using assms(1,2) by (simp add: list_handler_def get_handler_def delete_handler_def create_handler_def)
qed

theorem nil_db_panics_witness:
  "fst (create_handler (\<lambda>x k. None) (new_handlers None) () (Some (0::int, ''Jane'')) (0::nat)) = Panic"
proof -
  have "parse_int ''1'' = Inr 1"
    by (simp add: parse_int_def digits_value_def digit_value_def is_digit_def int64_cutoff_def)
  from nil_db_panics [of "new_handlers None", OF _ this, of "\<lambda>x k. None" "()" "(0::int, ''Jane'')" "0::nat"]
  show ?thesis by (simp add: new_handlers_def call_hook_defs)
qed

text \<open>C22: \<open>DELETE\<close> of a stored row without hooks answers 204 after the calls
  \<open>First\<close>, \<open>BeforeDelete\<close>, \<open>Delete\<close>, \<open>AfterDelete\<close> in that order, and a
  following \<open>GET\<close> of the same id answers 404.\<close>

theorem delete_then_get_not_found:
  assumes "h_db h = Some (mem_driver ops)" and "parse_int s = Inr i"
    and "map_of (rows st) i = Some e0" and "ms e0 = (\<lambda>k. None)"
  shows "\<exists>st'. delete_handler ms h ctx s st =
             (Respond 204 NoBody, st', [EvFirst i, EvHook BeforeDelete, EvDelete i, EvHook AfterDelete]) \<and>
           get_handler h s st' = (http_error 404 ''Not found'', st', [EvFirst i])"
proof -
  have "map_of (filter (\<lambda>(k, _). k \<noteq> i) xs) i = None" for xs :: "(int \<times> 'a) list"
    by (induction xs) auto
  then show ?thesis
    using assms
    by (simp add: delete_handler_def get_handler_def first_or_error_mem call_hooks_no_method
        mem_delete_def)
qed

theorem delete_then_get_not_found_witness:
  "\<exists>st'. delete_handler (\<lambda>x k. None) (new_handlers (Some (mem_driver test_user_ops))) () ''1''
            \<lparr>rows = [(1, (1, ''Jane''))], next_id = 2\<rparr> =
           (Respond 204 NoBody, st', [EvFirst 1, EvHook BeforeDelete, EvDelete 1, EvHook AfterDelete]) \<and>
         get_handler (new_handlers (Some (mem_driver test_user_ops))) ''1'' st' =
           (http_error 404 ''Not found'', st', [EvFirst 1])"
proof -
  have "parse_int ''1'' = Inr 1"
    by (simp add: parse_int_def digits_value_def digit_value_def is_digit_def int64_cutoff_def)
  from delete_then_get_not_found [of "new_handlers (Some (mem_driver test_user_ops))" test_user_ops,
      OF _ this, of "\<lparr>rows = [(1, (1, ''Jane''))], next_id = 2\<rparr>" "(1, ''Jane'')" "\<lambda>x k. None" "()"]
  show ?thesis by (simp add: new_handlers_def)
qed

text \<open>C13: over a database handle, the status of each handler is the one the
  specification's error mapping gives: \<open>GET\<close> answers 400 for an id
  \<open>ParseInt\<close> rejects, the status of the lookup's error (404 for not found, 500
  otherwise), and 200 with the row; \<open>DELETE\<close> answers like \<open>GET\<close> until the row is
  found and then 204, or 500 when a hook or the deletion fails; \<open>PUT\<close> answers 400
  for a bad id or body and otherwise 200 or 500; \<open>POST\<close> answers 400 for a body
  that does not decode, without a storage call, and otherwise 201 or 500.\<close>

text \<open>The status of each handler over a database handle, branch by branch.\<close>

lemma get_status: "resp_status (fst (get_handler (new_handlers (Some d)) s st)) =
     Some (case parse_int s of
             Inl _ \<Rightarrow> 400
           | Inr i \<Rightarrow> (case drv_first d st i of Inl err \<Rightarrow> error_status err | Inr _ \<Rightarrow> 200))"
proof (cases "parse_int s")
  case (Inr i)
  show ?thesis
  proof (cases "drv_first d st i")
    case (Inl err)
    from first_or_error_Inl_status [OF Inl] obtain resp
      where "first_or_error d st i = Inl resp" "resp_status resp = Some (error_status err)" by blast
    with Inr Inl show ?thesis by (simp add: get_handler_def new_handlers_def)
  next
    case (Inr e)
    with \<open>parse_int s = Inr i\<close> show ?thesis
      by (simp add: get_handler_def new_handlers_def first_or_error_Inr)
  qed
qed (simp add: get_handler_def http_error_def)

lemma delete_status: "resp_status (fst (delete_handler ms (new_handlers (Some d)) ctx s st)) \<in>
     (case parse_int s of
        Inl _ \<Rightarrow> {Some 400}
      | Inr i \<Rightarrow> (case drv_first d st i of Inl err \<Rightarrow> {Some (error_status err)} | Inr _ \<Rightarrow> {Some 204, Some 500}))"
proof (cases "parse_int s")
  case (Inr i)
  show ?thesis
  proof (cases "drv_first d st i")
    case (Inl err)
    from first_or_error_Inl_status [OF Inl] obtain resp
      where "first_or_error d st i = Inl resp" "resp_status resp = Some (error_status err)" by blast
    with Inr Inl show ?thesis by (simp add: delete_handler_def new_handlers_def)
  next
    case (Inr e)
    with \<open>parse_int s = Inr i\<close> show ?thesis
      by (simp add: delete_handler_def new_handlers_def first_or_error_Inr http_error_def
          split: prod.split option.split)
  qed
qed (simp add: delete_handler_def http_error_def)

lemma update_status: "resp_status (fst (update_handler ms (new_handlers (Some d)) ctx s body st)) \<in>
     (if (\<exists>x. parse_int s = Inl x) \<or> body = None then {Some 400} else {Some 200, Some 500})"
  by (cases "parse_int s"; cases body)
     (simp_all add: update_handler_def new_handlers_def http_error_def split: prod.split option.split)

lemma create_no_body: "create_handler ms h ctx None st = (http_error 400 ''Invalid request body'', st, [])"
  by (simp add: create_handler_def)

lemma create_status: "resp_status (fst (create_handler ms (new_handlers (Some d)) ctx (Some e) st)) \<in> {Some 201, Some 500}"
  by (simp add: create_handler_def new_handlers_def http_error_def split: prod.split option.split)
text \<open>C13: over a database handle, the status of each handler is the one the
  specification's error mapping gives: \<open>GET\<close> answers 400 for an id
  \<open>ParseInt\<close> rejects, the status of the lookup's error (404 for not found, 500
  otherwise), and 200 with the row; \<open>DELETE\<close> answers like \<open>GET\<close> until the row is
  found and then 204, or 500 when a hook or the deletion fails; \<open>PUT\<close> answers 400
  for a bad id or body and otherwise 200 or 500; \<open>POST\<close> answers 400 for a body
  that does not decode, without a storage call, and otherwise 201 or 500.\<close>

theorem handlers_status_contract:
  "resp_status (fst (get_handler (new_handlers (Some d)) s st)) =
     Some (case parse_int s of
             Inl _ \<Rightarrow> 400
           | Inr i \<Rightarrow> (case drv_first d st i of Inl err \<Rightarrow> error_status err | Inr _ \<Rightarrow> 200)) \<and>
   resp_status (fst (delete_handler ms (new_handlers (Some d)) ctx s st)) \<in>
     (case parse_int s of
        Inl _ \<Rightarrow> {Some 400}
      | Inr i \<Rightarrow> (case drv_first d st i of Inl err \<Rightarrow> {Some (error_status err)} | Inr _ \<Rightarrow> {Some 204, Some 500})) \<and>
   resp_status (fst (update_handler ms (new_handlers (Some d)) ctx s body st)) \<in>
     (if (\<exists>x. parse_int s = Inl x) \<or> body = None then {Some 400} else {Some 200, Some 500}) \<and>
   create_handler ms (new_handlers (Some d)) ctx None st = (http_error 400 ''Invalid request body'', st, []) \<and>
   resp_status (fst (create_handler ms (new_handlers (Some d)) ctx (Some e) st)) \<in> {Some 201, Some 500}"
  by (intro conjI get_status delete_status update_status create_status create_no_body)

end
