(* ===== verification/Example_App.thy ===== *)
theory Example_App
  imports Complex_Main Registry Handlers
begin

text \<open>
  The sample program of \<^verbatim>\<open>src/example_main.go\<close> (lines 12--40): the entities
  \<open>Product\<close> and \<open>User\<close> of package \<open>main\<close>, as reflect describes them, with their
  \<open>gorm\<close> and \<open>go-blar\<close> tags, and the values and hooks of \<open>Product\<close> (lines
  22--33): \<open>BeforeCreate\<close> rejects a negative price with \<open>gorm.ErrInvalidData\<close>,
  \<open>AfterCreate\<close> only logs.  They are the inputs of the end-to-end properties of the
  root theory.
\<close>

definition product_type :: gtype where
  "product_type =
     TStruct ''main'' ''Product''
       [FieldDecl ''ID'' [] (TBasic ''uint'') [(''gorm'', ''primaryKey''), (''go-blar'', ''pk'')],
        FieldDecl ''Name'' [] (TBasic ''string'') [],
        FieldDecl ''Price'' [] (TBasic ''float64'') [],
        FieldDecl ''Quantity'' [] (TBasic ''int'') [(''go-blar'', ''readonly'')],
        FieldDecl ''Secret'' [] (TBasic ''string'') [(''go-blar'', ''hidden'')]]"

definition user_type :: gtype where
  "user_type =
     TStruct ''main'' ''User''
       [FieldDecl ''ID'' [] (TBasic ''uint'') [(''gorm'', ''primaryKey''), (''go-blar'', ''pk'')],
        FieldDecl ''Name'' [] (TBasic ''string'') [],
        FieldDecl ''Email'' [] (TBasic ''string'') []]"

text \<open>A \<open>Product\<close> value; \<open>float64\<close> as \<^typ>\<open>real\<close> (only its sign is tested) and
  the \<open>uint\<close> key as \<^typ>\<open>int\<close>, the key type of the handlers.\<close>

record product =
  product_id :: int
  product_name :: string
  product_price :: real
  product_quantity :: int
  product_secret :: string

text \<open>The method set of \<open>*Product\<close>: the same for every value of the type.\<close>

definition product_methods :: "('ctx, 'tx, product) method_table" where
  "product_methods p k =
     (case k of
        BeforeCreate \<Rightarrow>
          Some (\<lambda>ctx tx p. (if product_price p < 0 then Some ''unsupported data'' else None, p))
      | AfterCreate \<Rightarrow> Some (\<lambda>ctx tx p. (None, p))
      | _ \<Rightarrow> None)"

text \<open>GORM's view of a \<open>Product\<close> row: the key accessors, and \<open>Updates\<close> with a
  struct argument writing its non-zero fields.\<close>

definition product_ops :: "product entity_ops" where
  "product_ops =
     \<lparr>get_id = product_id, set_id = (\<lambda>i p. p\<lparr>product_id := i\<rparr>),
      merge_nonzero = (\<lambda>old p.
        old\<lparr>product_name := (if product_name p = [] then product_name old else product_name p),
            product_price := (if product_price p = 0 then product_price old else product_price p),
            product_quantity := (if product_quantity p = 0 then product_quantity old else product_quantity p),
            product_secret := (if product_secret p = [] then product_secret old else product_secret p)\<rparr>)\<rparr>"

end
