(* ===== verification/App.thy ===== *)
theory App
  imports Registry Handlers
begin

text \<open>
  The public entry points of package \<open>goblar\<close>: the configuration and its
  functional options (\<^verbatim>\<open>src/unnamed/part_001\<close>, the options file of the
  package), \<open>New\<close>, \<open>Register\<close> and \<open>Start\<close> (\<^verbatim>\<open>src/goblar/app.go\<close>) and \<open>Run\<close>
  (\<^verbatim>\<open>src/goblar/run.go\<close>).  An \<open>Option\<close> is a closure over \<open>*config\<close>; the three
  constructors of options are the constructors of \<open>goblar_option\<close> and the body of
  each closure is \<open>apply_option\<close>.  A model passed to \<open>Register\<close> is its dynamic type
  (\<^const>\<open>None\<close> for \<open>nil\<close>); the metadata cache of package \<open>meta\<close> and the
  database state are threaded through.  \<open>Start\<close> is modelled up to the server it
  builds: \<open>ListenAndServe\<close> is I/O.
\<close>

record ('e, 'db, 'mw) config =
  cfg_db :: "('e, 'db) driver option"
  cfg_addr :: string
  cfg_middleware :: "'mw list"

datatype ('e, 'db, 'mw) goblar_option =
    WithDB "('e, 'db) driver option"
  | WithAddress string
  | WithMiddleware 'mw

fun apply_option :: "('e, 'db, 'mw) goblar_option \<Rightarrow> ('e, 'db, 'mw) config \<Rightarrow> ('e, 'db, 'mw) config" where
  "apply_option (WithDB db) c = c\<lparr>cfg_db := db\<rparr>"
| "apply_option (WithAddress addr) c = c\<lparr>cfg_addr := addr\<rparr>"
| "apply_option (WithMiddleware m) c = c\<lparr>cfg_middleware := cfg_middleware c @ [m]\<rparr>"

definition new_config :: "('e, 'db, 'mw) config" where
  "new_config = \<lparr>cfg_db = None, cfg_addr = '':8080'', cfg_middleware = []\<rparr>"

definition config_apply ::
  "('e, 'db, 'mw) config \<Rightarrow> ('e, 'db, 'mw) goblar_option list \<Rightarrow> ('e, 'db, 'mw) config" where
  "config_apply c opts = fold apply_option opts c"

record ('e, 'db, 'mw, 'h) app =
  app_db :: "('e, 'db) driver option"
  app_router :: "'h option"
  app_cfg :: "('e, 'db, 'mw) config"
  app_registry :: "string \<rightharpoonup> ptr"

definition new_app :: "('e, 'db, 'mw) goblar_option list \<Rightarrow> ('e, 'db, 'mw, 'h) app" where
  "new_app opts =
     (let cfg = config_apply new_config opts in
      \<lparr>app_db = cfg_db cfg, app_router = None, app_cfg = cfg, app_registry = Map.empty\<rparr>)"

datatype reg_result = RegOk | RegError string | RegPanic parse_error

text \<open>\<open>%T\<close> of a model: its dynamic type, \<open><nil>\<close> for \<open>nil\<close>.\<close>

definition type_of_any :: "gtype option \<Rightarrow> string" where
  "type_of_any m = (case m of None \<Rightarrow> ''<nil>'' | Some t \<Rightarrow> type_string t)"

text \<open>The loop of \<open>Register\<close>, lines 42--55: parse (a panic of \<open>meta.Parse\<close>
  propagates), migrate, then store the metadata pointer under the entity's name.
  Nothing is undone when a later model fails.\<close>

fun register_models ::
  "('e, 'db) driver \<Rightarrow> ('e, 'db, 'mw, 'h) app \<Rightarrow> meta_state \<Rightarrow> 'db \<Rightarrow> gtype option list \<Rightarrow>
     reg_result \<times> ('e, 'db, 'mw, 'h) app \<times> meta_state \<times> 'db" where
  "register_models d a st db [] = (RegOk, a, st, db)"
| "register_models d a st db (m # ms) =
     (case parse st m of
        (Inl perr, st1) \<Rightarrow> (RegPanic perr, a, st1, db)
      | (Inr p, st1) \<Rightarrow>
          (case drv_auto_migrate d db m of
             (Some err, db1) \<Rightarrow>
               (RegError (''failed to migrate model '' @ type_of_any m @ '': '' @ error_message err),
                a, st1, db1)
           | (None, db1) \<Rightarrow>
               (case heap st1 p of
                  None \<Rightarrow> (RegPanic PanicNilType, a, st1, db1)
                | Some em \<Rightarrow>
                    register_models d (a\<lparr>app_registry := (app_registry a)(em_name em \<mapsto> p)\<rparr>)
                      st1 db1 ms)))"

definition register ::
  "('e, 'db, 'mw, 'h) app \<Rightarrow> meta_state \<Rightarrow> 'db \<Rightarrow> gtype option list \<Rightarrow>
     reg_result \<times> ('e, 'db, 'mw, 'h) app \<times> meta_state \<times> 'db" where
  "register a st db models =
     (case app_db a of
        None \<Rightarrow> (RegError ''database not configured: use WithDB option'', a, st, db)
      | Some d \<Rightarrow> register_models d a st db models)"

record 'h server =
  srv_addr :: string
  srv_handler :: "'h option"

text \<open>\<open>Run\<close> calls \<open>New()\<close> with no option, so its handle is \<open>nil\<close> and the
  entity type of the (absent) driver is immaterial: \<^typ>\<open>unit\<close> below.\<close>

text \<open>\<open>Start\<close>, lines 61--77: the address default, then a server over \<open>a.router\<close>,
  which nothing ever sets.\<close>

definition start :: "('e, 'db, 'mw, 'h) app \<Rightarrow> ('e, 'db, 'mw, 'h) app \<times> 'h server" where
  "start a =
     (let a' = (if cfg_addr (app_cfg a) = [] then a\<lparr>app_cfg := (app_cfg a)\<lparr>cfg_addr := '':8080''\<rparr>\<rparr> else a)
      in (a', \<lparr>srv_addr = cfg_addr (app_cfg a'), srv_handler = app_router a'\<rparr>))"

datatype 'h run_result = RunError string | RunPanic parse_error | Serving "'h server"

definition run :: "gtype option list \<Rightarrow> meta_state \<Rightarrow> 'db \<Rightarrow> 'h run_result \<times> meta_state \<times> 'db" where
  "run models st db =
     (let a = (new_app [] :: (unit, 'db, unit, 'h) app) in
      case register a st db models of
        (RegOk, a', st', db') \<Rightarrow> (Serving (snd (start a')), st', db')
      | (RegError e, _, st', db') \<Rightarrow> (RunError e, st', db')
      | (RegPanic p, _, st', db') \<Rightarrow> (RunPanic p, st', db'))"

section \<open>Facts\<close>

text \<open>A database whose migrations all succeed.\<close>

lemma migrate_ok:
  assumes "\<forall>db t. fst (drv_auto_migrate d db t) = None"
  obtains db' where "drv_auto_migrate d db t = (None, db')"
  using assms by (metis prod.collapse)

lemma fold_apply_option:
  "cfg_addr (fold apply_option opts c) = last (cfg_addr c # [a. WithAddress a \<leftarrow> opts]) \<and>
   cfg_middleware (fold apply_option opts c) = cfg_middleware c @ [m. WithMiddleware m \<leftarrow> opts] \<and>
   cfg_db (fold apply_option opts c) = last (cfg_db c # [d. WithDB d \<leftarrow> opts])"
proof (induction opts arbitrary: c)
  case Nil
  then show ?case by simp
next
  case (Cons o1 opts)
  then show ?case by (cases o1) simp_all
qed

lemma register_models_router:
  "app_router (fst (snd (register_models d a st db ms))) = app_router a"
  by (induction d a st db ms rule: register_models.induct)
     (simp_all split: prod.splits sum.splits option.splits)

lemma register_router: "app_router (fst (snd (register a st db ms))) = app_router a"
  by (simp add: register_def register_models_router split: option.splits)

section \<open>Properties of the entry points\<close>

text \<open>C8: \<open>Run\<close> never serves: \<open>New()\<close> without \<open>WithDB\<close> has no handle, so
  \<open>Register\<close> fails before looking at the models, and \<open>Run\<close> returns that error for
  every list of models, leaving the metadata cache and the database untouched.\<close>

theorem run_always_fails:
  "run models st db = (RunError ''database not configured: use WithDB option'', st, db)"
  by (simp add: run_def register_def new_app_def config_apply_def new_config_def)

text \<open>\<open>New\<close> applies its options in order over the defaults: the last
  \<open>WithAddress\<close> wins (\<open>:8080\<close> without one), the last \<open>WithDB\<close> gives the handle
  (\<open>nil\<close> without one), the middlewares are kept in the order given, and the app
  starts with an empty registry and no router.\<close>

theorem new_app_options:
  "cfg_addr (app_cfg (new_app opts)) = last ('':8080'' # [a. WithAddress a \<leftarrow> opts]) \<and>
   cfg_middleware (app_cfg (new_app opts)) = [m. WithMiddleware m \<leftarrow> opts] \<and>
   app_db (new_app opts) = last (None # [d. WithDB d \<leftarrow> opts]) \<and>
   app_registry (new_app opts) = Map.empty \<and> app_router (new_app opts) = None"
  using fold_apply_option [of opts new_config]
  by (simp add: new_app_def config_apply_def new_config_def)

text \<open>C20: no route is ever served: whatever the options and the models, the
  server \<open>Start\<close> builds after \<open>Register\<close> has the \<open>nil\<close> router as its handler
  (the entity routes of the specification are never registered), and a non-empty
  address.\<close>

theorem start_serves_no_routes:
  "srv_handler (snd (start (fst (snd (register (new_app opts) st db models))))) = None \<and>
   srv_addr (snd (start (fst (snd (register (new_app opts) st db models))))) \<noteq> []"
  by (simp add: start_def Let_def register_router new_app_def)

text \<open>C19: the app's registry is keyed by the bare type name while the metadata
  cache is keyed by the package-qualified name: registering two struct types of
  the same name from different packages, neither cached yet, over a database whose
  migrations succeed, succeeds; the cache holds both descriptors, and the app keeps
  only the second under the shared name.\<close>

theorem register_name_collision:
  assumes "app_db a = Some d" and "\<forall>db t. fst (drv_auto_migrate d db t) = None"
    and "pa \<noteq> pb"
    and "registry st (pa @ CHR ''.'' # n) = None" and "registry st (pb @ CHR ''.'' # n) = None"
  shows "(case register a st db [Some (TPtr (TStruct pa n fsa)), Some (TPtr (TStruct pb n fsb))] of
            (r, a', st', db') \<Rightarrow>
              r = RegOk \<and> app_registry a' = (app_registry a)(n \<mapsto> Suc (next_ptr st)) \<and>
              registry st' (pa @ CHR ''.'' # n) = Some (next_ptr st) \<and>
              registry st' (pb @ CHR ''.'' # n) = Some (Suc (next_ptr st)) \<and>
              heap st' (next_ptr st) = Some (build_meta (TStruct pa n fsa) fsa))"
proof -
  obtain db1 where m1: "drv_auto_migrate d db (Some (TPtr (TStruct pa n fsa))) = (None, db1)"
    using migrate_ok [OF assms(2)] .
  obtain db2 where m2: "drv_auto_migrate d db1 (Some (TPtr (TStruct pb n fsb))) = (None, db2)"
    using migrate_ok [OF assms(2)] .
  have k: "pa @ CHR ''.'' # n \<noteq> pb @ CHR ''.'' # n" using assms(3) by simp
  from assms(1,4,5) m1 m2 k show ?thesis
    by (simp add: register_def parse_def Let_def fun_upd_twist)
qed

theorem register_name_collision_witness:
  "(case register (new_app [WithDB (Some (mem_driver test_user_ops))]) init_meta_state empty_mem_db
          [Some (TPtr (TStruct ''main'' ''Item'' [])), Some (TPtr (TStruct ''inventory'' ''Item'' []))] of
      (r, a', st', db') \<Rightarrow>
        r = RegOk \<and> app_registry a' = [''Item'' \<mapsto> 1] \<and>
        registry st' ''main.Item'' = Some 0 \<and> registry st' ''inventory.Item'' = Some 1 \<and>
        heap st' 0 = Some (build_meta (TStruct ''main'' ''Item'' []) []))"
proof -
  have "app_db (new_app [WithDB (Some (mem_driver test_user_ops))] :: (int \<times> string, (int \<times> string) mem_db, 'mw, 'h) app) =
          Some (mem_driver test_user_ops)"
    and "\<forall>db t. fst (drv_auto_migrate (mem_driver test_user_ops) db t) = None"
    and "''main'' \<noteq> ''inventory''"
    and "registry init_meta_state (''main'' @ CHR ''.'' # ''Item'') = None"
    and "registry init_meta_state (''inventory'' @ CHR ''.'' # ''Item'') = None"
    by (simp_all add: new_app_def config_apply_def new_config_def mem_driver_def init_meta_state_def)
  from register_name_collision [where fsa = "[]" and fsb = "[]" and db = empty_mem_db, OF this] show ?thesis
    by (simp add: new_app_def config_apply_def new_config_def init_meta_state_def)
qed

end
