(* ===== verification/Router.thy ===== *)
theory Router
  imports Meta_Model
begin

text \<open>
  The router of package \<open>http\<close> (in the file \<^verbatim>\<open>src/internal/hooks/hooks.go\<close>, lines
  66--124): a chi mux with a list of pending middlewares, \<open>AddMiddleware\<close>,
  \<open>ApplyMiddleware\<close> (which calls chi's \<open>Use\<close> from the last middleware to the
  first), \<open>RegisterEntityRoutes\<close> and \<open>toURLPath\<close>.  Of chi, the model keeps what
  these functions rely on: the ordered middleware stack, the list of registered routes,
  and the panic of \<open>Use\<close> once a route is registered (an error value here).
  \<open>toURLPath\<close> computes \<open>byte(r+'a'-'A'+1)\<close>: the rune arithmetic cannot overflow,
  and the conversion to \<open>byte\<close> keeps the low eight bits, so it is addition on
  \<open>8 word\<close>.
\<close>

datatype http_method = GET | POST | PUT | DELETE

datatype handler_kind = HCreate | HList | HGet | HUpdate | HDelete

record route =
  rt_method :: http_method
  rt_pattern :: string
  rt_handler :: handler_kind
  rt_entity :: entity_meta

record 'mw router =
  mux_stack :: "'mw list"     \<comment> \<open>chi's middleware stack, outermost first\<close>
  mux_routes :: "route list"
  middlewares :: "'mw list"   \<comment> \<open>the \<open>middlewares\<close> field of \<open>Router\<close>\<close>

definition new_router :: "'mw router" where
  "new_router = \<lparr>mux_stack = [], mux_routes = [], middlewares = []\<rparr>"

definition add_middleware :: "'mw router \<Rightarrow> 'mw \<Rightarrow> 'mw router" where
  "add_middleware r m = r\<lparr>middlewares := middlewares r @ [m]\<rparr>"

text \<open>chi's \<open>Mux.Use\<close>: appends to the stack, and panics once routes exist.\<close>

definition chi_use :: "'mw router \<Rightarrow> 'mw \<Rightarrow> string + 'mw router" where
  "chi_use r m =
     (if mux_routes r \<noteq> [] then Inl ''chi: all middlewares must be defined before routes on a mux''
      else Inr (r\<lparr>mux_stack := mux_stack r @ [m]\<rparr>))"

text \<open>The loop \<open>for i := len(r.middlewares) - 1; i >= 0; i--\<close>, entered with \<open>i + 1\<close>.\<close>

fun apply_loop :: "'mw router \<Rightarrow> nat \<Rightarrow> string + 'mw router" where
  "apply_loop r 0 = Inr r"
| "apply_loop r (Suc i) =
     (case chi_use r (middlewares r ! i) of Inl e \<Rightarrow> Inl e | Inr r' \<Rightarrow> apply_loop r' i)"

definition apply_middleware :: "'mw router \<Rightarrow> string + 'mw router" where
  "apply_middleware r = apply_loop r (length (middlewares r))"

text \<open>The same loop as Go runs it, on a signed index: \<open>i\<close> starts at
  \<open>len - 1\<close>, the body indexes \<open>r.middlewares[i]\<close> (a panic out of range) and the
  loop stops once \<open>i < 0\<close>.  Nothing in the equation bounds the recursion, so it is a
  \<open>partial_function\<close>: not returning would be \<^const>\<open>None\<close>.\<close>

partial_function (option) apply_loop_go :: "'mw router \<Rightarrow> int \<Rightarrow> (string + 'mw router) option" where
  "apply_loop_go r i =
     (if i < 0 then Some (Inr r)
      else if int (length (middlewares r)) \<le> i then Some (Inl ''runtime error: index out of range'')
      else (case chi_use r (middlewares r ! nat i) of
              Inl e \<Rightarrow> Some (Inl e)
            | Inr r' \<Rightarrow> apply_loop_go r' (i - 1)))"

section \<open>toURLPath\<close>

definition go_byte :: "char \<Rightarrow> 8 word" where
  "go_byte r = word_of_nat (of_char r) + 97 - 65 + 1"

fun url_loop :: "nat \<Rightarrow> string \<Rightarrow> 8 word list" where
  "url_loop i [] = []"
| "url_loop i (r # rs) =
     (if 0 < i \<and> 65 \<le> (of_char r :: nat) \<and> (of_char r :: nat) \<le> 90 then [45] else []) @
     [go_byte r] @ url_loop (Suc i) rs"

definition bytes_to_string :: "8 word list \<Rightarrow> string" where
  "bytes_to_string bs = map (\<lambda>b. char_of (unat b)) bs"

definition to_url_path :: "string \<Rightarrow> string" where
  "to_url_path s = bytes_to_string (url_loop 0 s)"

section \<open>RegisterEntityRoutes\<close>

definition chi_handle :: "'mw router \<Rightarrow> http_method \<Rightarrow> string \<Rightarrow> handler_kind \<Rightarrow> entity_meta \<Rightarrow> 'mw router" where
  "chi_handle r m p h em =
     r\<lparr>mux_routes := mux_routes r @ [\<lparr>rt_method = m, rt_pattern = p, rt_handler = h, rt_entity = em\<rparr>]\<rparr>"

definition register_entity_routes :: "'mw router \<Rightarrow> entity_meta \<Rightarrow> 'mw router" where
  "register_entity_routes r em =
     (let resource_name = to_url_path (em_name em);
          r = chi_handle r POST (''/'' @ resource_name) HCreate em;
          r = chi_handle r GET (''/'' @ resource_name) HList em;
          r = chi_handle r GET (''/'' @ resource_name @ ''/{id}'') HGet em;
          r = chi_handle r PUT (''/'' @ resource_name @ ''/{id}'') HUpdate em
      in chi_handle r DELETE (''/'' @ resource_name @ ''/{id}'') HDelete em)"

section \<open>Facts\<close>

lemma unat_go_byte: "unat (go_byte r) = (of_char r + 33) mod 256"
proof -
  have "(word_of_nat (of_char r + 33) :: 8 word) = word_of_nat (of_char r) + 33"
    by simp
  then have "go_byte r = word_of_nat (of_char r + 33)"
    by (simp add: go_byte_def)
  then show ?thesis
    by (simp only: unat_of_nat) simp
qed

lemma char_of_go_byte: "char_of (unat (go_byte r)) = char_of (of_char r + (33::nat))"
  by (simp add: unat_go_byte)

lemma apply_loop_stack:
  "mux_routes r = [] \<Longrightarrow> i \<le> length (middlewares r) \<Longrightarrow>
     apply_loop r i = Inr (r\<lparr>mux_stack := mux_stack r @ rev (take i (middlewares r))\<rparr>)"
proof (induction r i rule: apply_loop.induct)
  case (1 r)
  then show ?case by simp
next
  case (2 r i)
  let ?r' = "r\<lparr>mux_stack := mux_stack r @ [middlewares r ! i]\<rparr>"
  have "apply_loop ?r' i = Inr (?r'\<lparr>mux_stack := mux_stack ?r' @ rev (take i (middlewares ?r'))\<rparr>)"
    using "2.prems" by (intro "2.IH") (simp_all add: chi_use_def)
  moreover have "take (Suc i) (middlewares r) = take i (middlewares r) @ [middlewares r ! i]"
    using "2.prems" by (simp add: take_Suc_conv_app_nth)
  ultimately show ?case
    using "2.prems" by (simp add: chi_use_def)
qed

lemma url_loop_Cons_0: "url_loop 0 (c # cs) = go_byte c # url_loop 1 cs"
  by simp

lemma to_url_path_Cons_0:
  "to_url_path (c # cs) = char_of (of_char c + (33::nat)) # bytes_to_string (url_loop 1 cs)"
  by (simp add: to_url_path_def bytes_to_string_def char_of_go_byte)

lemma chi_use_middlewares: "chi_use r m = Inr r' \<Longrightarrow> middlewares r' = middlewares r"
  by (auto simp: chi_use_def split: if_splits)

lemma apply_loop_go_nat:
  "n \<le> length (middlewares r) \<Longrightarrow> apply_loop_go r (int n - 1) = Some (apply_loop r n)"
proof (induction n arbitrary: r)
  case 0
  then show ?case by (simp add: apply_loop_go.simps)
next
  case (Suc n)
  have i: "int (Suc n) - 1 = int n" by simp
  show ?case
  proof (cases "chi_use r (middlewares r ! n)")
    case (Inl e)
    with Suc.prems show ?thesis by (simp add: i apply_loop_go.simps)
  next
    case (Inr r')
    then have "middlewares r' = middlewares r" by (rule chi_use_middlewares)
    with Suc.prems have "apply_loop_go r' (int n - 1) = Some (apply_loop r' n)"
      by (intro Suc.IH) simp
    with Inr Suc.prems show ?thesis by (simp add: i apply_loop_go.simps)
  qed
qed

section \<open>Properties of the router\<close>

text \<open>The byte \<open>toURLPath\<close> writes for a rune is the rune plus 33, wrapped to
  eight bits: a byte below 223 moves up by 33, one from 223 on wraps round to the
  low values.\<close>

theorem go_byte_wraps:
  "unat (go_byte r) < 256 \<and>
   ((of_char r :: nat) < 223 \<longrightarrow> unat (go_byte r) = of_char r + 33) \<and>
   (223 \<le> (of_char r :: nat) \<longrightarrow> unat (go_byte r) = of_char r - 223)"
proof -
  let ?x = "of_char r :: nat"
  have u: "unat (go_byte r) = (?x + 33) mod 256" by (rule unat_go_byte)
  have lt: "?x < 256" by simp
  have lo: "?x < 223 \<Longrightarrow> unat (go_byte r) = ?x + 33"
    using u by simp
  have hi: "unat (go_byte r) = ?x - 223" if "223 \<le> ?x"
  proof -
    have "(?x + 33) mod 256 = (?x + 33 - 256) mod 256"
      using that by (simp add: le_mod_geq)
    also have "\<dots> = ?x - 223"
    proof -
      have "?x + 33 - 256 = ?x - 223" and "?x - 223 < 256" using lt that by arith+
      then show ?thesis by simp
    qed
    finally show ?thesis using u by simp
  qed
  have "unat (go_byte r) < 256" using u by simp
  with lo hi show ?thesis by blast
qed

theorem go_byte_wraps_witness:
  "unat (go_byte (CHR ''A'')) = 98 \<and> unat (go_byte (char_of (240::nat))) = 17"
  using go_byte_wraps [of "CHR ''A''"] go_byte_wraps [of "char_of (240::nat)"] by simp

text \<open>C9: \<open>toURLPath\<close> does not lower-case: for every non-empty name the path differs
  from the lower-cased name already in its first character, and an upper-case first
  letter becomes the letter after its lower-case form (\<open>P\<close> gives \<open>q\<close>).\<close>

theorem to_url_path_not_lowercase:
  assumes "s \<noteq> []"
  shows "to_url_path s \<noteq> map ascii_lower s \<and>
         (is_upper (hd s) \<longrightarrow> hd (to_url_path s) = char_of (of_char (ascii_lower (hd s)) + (1::nat)))"
proof -
  obtain c cs where s: "s = c # cs" using assms by (cases s) auto
  have lt: "(of_char c :: nat) < 256" by simp
  have "char_of (of_char c + (33::nat)) \<noteq> ascii_lower c"
  proof
    assume "char_of (of_char c + (33::nat)) = ascii_lower c"
    then have "(of_char (char_of (of_char c + (33::nat))) :: nat) = of_char (ascii_lower c)"
      by simp
    with lt show False
      by (auto simp: of_char_ascii_lower is_upper_def mod_if split: if_splits)
  qed
  moreover have "is_upper c \<Longrightarrow>
      char_of (of_char c + (33::nat)) = char_of (of_char (ascii_lower c) + (1::nat))"
    by (simp add: of_char_ascii_lower add.commute)
  ultimately show ?thesis
    using s by (simp only: to_url_path_Cons_0 list.map list.sel list.inject) blast
qed

theorem to_url_path_not_lowercase_witness:
  "to_url_path ''Product'' \<noteq> ''product'' \<and> hd (to_url_path ''Product'') = CHR ''q''"
  using to_url_path_not_lowercase [of "''Product''"]
  by (simp add: is_upper_def ascii_lower_def) code_simp

text \<open>\<open>RegisterEntityRoutes\<close> adds exactly five routes, in this order: POST and
  GET on \<open>/R\<close>, then GET, PUT and DELETE on \<open>/R/{id}\<close>, where \<open>R\<close> is
  \<open>toURLPath\<close> of the entity's name, each bound to the handler of its operation.\<close>

theorem register_entity_routes_five:
  "map (\<lambda>rt. (rt_method rt, rt_pattern rt, rt_handler rt, rt_entity rt))
       (mux_routes (register_entity_routes r em)) =
   map (\<lambda>rt. (rt_method rt, rt_pattern rt, rt_handler rt, rt_entity rt)) (mux_routes r) @
   [(POST, ''/'' @ to_url_path (em_name em), HCreate, em),
    (GET, ''/'' @ to_url_path (em_name em), HList, em),
    (GET, ''/'' @ to_url_path (em_name em) @ ''/{id}'', HGet, em),
    (PUT, ''/'' @ to_url_path (em_name em) @ ''/{id}'', HUpdate, em),
    (DELETE, ''/'' @ to_url_path (em_name em) @ ''/{id}'', HDelete, em)]"
  by (simp add: register_entity_routes_def chi_handle_def Let_def)

text \<open>C27: \<open>ApplyMiddleware\<close> pushes the middlewares onto chi's stack from the last
  added to the first, so the middleware added last runs outermost; once a route is
  registered, chi refuses it (a panic in Go).\<close>

theorem apply_middleware_order:
  "apply_middleware r =
     (if middlewares r = [] then Inr r
      else if mux_routes r \<noteq> [] then Inl ''chi: all middlewares must be defined before routes on a mux''
      else Inr (r\<lparr>mux_stack := mux_stack r @ rev (middlewares r)\<rparr>))"
proof (cases "middlewares r")
  case Nil
  then show ?thesis by (simp add: apply_middleware_def)
next
  case (Cons m ms)
  show ?thesis
  proof (cases "mux_routes r = []")
    case True
    then show ?thesis
      using apply_loop_stack [of r "length (middlewares r)"] Cons by (simp add: apply_middleware_def)
  next
    case False
    then show ?thesis
      using Cons by (simp add: apply_middleware_def chi_use_def)
  qed
qed

text \<open>C14: the loop of \<open>ApplyMiddleware\<close>, run on Go's signed index from
  \<open>len(r.middlewares) - 1\<close> down, always returns, never indexes out of range, and
  gives the result of the structural loop: it terminates for every router.\<close>

theorem apply_middleware_loop_terminates:
  "apply_loop_go r (int (length (middlewares r)) - 1) = Some (apply_middleware r)"
  using apply_loop_go_nat [of "length (middlewares r)" r] by (simp add: apply_middleware_def)

end
