(* ===== verification/Reflect_Value.thy ===== *)
theory Reflect_Value
  imports Complex_Main Meta_Model
begin

text \<open>
  Values as Go's \<open>reflect\<close> package shows them, for the kinds the sources use: the
  zero (invalid) \<open>reflect.Value\<close>, signed and unsigned integers, floats, strings,
  booleans, pointers (\<^const>\<open>None\<close> for \<open>nil\<close>), slices (\<^const>\<open>None\<close> for a \<open>nil\<close>
  slice) and structs with their fields in declaration order.  On them:
  \<open>reflect.New\<close>, which \<open>makeEntityInstance\<close> and \<open>makeEntitySlice\<close> of
  src/internal/http/handlers.go (lines 199--208) call; \<open>Value.IsZero\<close>, which
  \<open>IsZeroValue\<close> of the util package of src/example_main.go (lines 1188--1191)
  calls and which panics on the invalid value; and the conformance of a value to a
  \<^typ>\<open>gtype\<close>.  A predeclared type is known by its name; a name outside the
  numeric, string and boolean types has no zero value here.
\<close>

datatype gvalue =
    VInvalid
  | VInt int
  | VUint nat
  | VFloat real
  | VString string
  | VBool bool
  | VPtr "gvalue option"
  | VSlice "gvalue list option"
  | VStruct "(string \<times> gvalue) list"

datatype basic_kind = KInt | KUint | KFloat | KString | KBool

definition kind_of_basic :: "string \<Rightarrow> basic_kind option" where
  "kind_of_basic n =
     (if n \<in> set [''int'', ''int8'', ''int16'', ''int32'', ''int64''] then Some KInt
      else if n \<in> set [''uint'', ''uint8'', ''uint16'', ''uint32'', ''uint64'', ''uintptr''] then Some KUint
      else if n \<in> set [''float32'', ''float64''] then Some KFloat
      else if n = ''string'' then Some KString
      else if n = ''bool'' then Some KBool
      else None)"

fun kind_zero :: "basic_kind \<Rightarrow> gvalue" where
  "kind_zero KInt = VInt 0"
| "kind_zero KUint = VUint 0"
| "kind_zero KFloat = VFloat 0"
| "kind_zero KString = VString []"
| "kind_zero KBool = VBool False"

fun value_kind :: "gvalue \<Rightarrow> basic_kind option" where
  "value_kind (VInt _) = Some KInt"
| "value_kind (VUint _) = Some KUint"
| "value_kind (VFloat _) = Some KFloat"
| "value_kind (VString _) = Some KString"
| "value_kind (VBool _) = Some KBool"
| "value_kind _ = None"

text \<open>The zero value of a type, the value \<open>reflect.New\<close> points to.\<close>

fun zero_of :: "gtype \<Rightarrow> gvalue" and zero_fields :: "field_decl list \<Rightarrow> (string \<times> gvalue) list" where
  "zero_of (TBasic n) = (case kind_of_basic n of Some k \<Rightarrow> kind_zero k | None \<Rightarrow> VInvalid)"
| "zero_of (TPtr t) = VPtr None"
| "zero_of (TSlice t) = VSlice None"
| "zero_of (TStruct pkg n fs) = VStruct (zero_fields fs)"
| "zero_fields [] = []"
| "zero_fields (FieldDecl n p t g # fs) = (n, zero_of t) # zero_fields fs"

definition reflect_new :: "gtype \<Rightarrow> gvalue" where
  "reflect_new t = VPtr (Some (zero_of t))"

text \<open>\<open>makeEntityInstance\<close> and \<open>makeEntitySlice\<close>, handlers.go lines 199--208.\<close>

definition make_entity_instance :: "entity_meta \<Rightarrow> gvalue" where
  "make_entity_instance em = reflect_new (em_type em)"

definition make_entity_slice :: "entity_meta \<Rightarrow> gvalue" where
  "make_entity_slice em = reflect_new (TSlice (em_type em))"

text \<open>\<open>Value.IsZero\<close>; \<^const>\<open>None\<close> is its panic on the invalid value.  A struct is
  zero when every field is.\<close>

fun is_zero :: "gvalue \<Rightarrow> bool option" and is_zero_fields :: "(string \<times> gvalue) list \<Rightarrow> bool option" where
  "is_zero VInvalid = None"
| "is_zero (VInt i) = Some (i = 0)"
| "is_zero (VUint i) = Some (i = 0)"
| "is_zero (VFloat r) = Some (r = 0)"
| "is_zero (VString s) = Some (s = [])"
| "is_zero (VBool b) = Some (\<not> b)"
| "is_zero (VPtr p) = Some (p = None)"
| "is_zero (VSlice s) = Some (s = None)"
| "is_zero (VStruct fs) = is_zero_fields fs"
| "is_zero_fields [] = Some True"
| "is_zero_fields ((n, v) # fs) =
     (case is_zero v of None \<Rightarrow> None | Some b \<Rightarrow> map_option (\<lambda>c. b \<and> c) (is_zero_fields fs))"

text \<open>\<open>IsZeroValue\<close>, example_main.go lines 1188--1191.\<close>

definition is_zero_value :: "gvalue \<Rightarrow> bool option" where
  "is_zero_value v = is_zero v"

text \<open>Conformance of a value to a type, and the types whose predeclared components
  all have a known kind.\<close>

fun has_type :: "gtype \<Rightarrow> gvalue \<Rightarrow> bool" and has_fields :: "field_decl list \<Rightarrow> (string \<times> gvalue) list \<Rightarrow> bool" where
  "has_type (TBasic n) v = (kind_of_basic n \<noteq> None \<and> value_kind v = kind_of_basic n)"
| "has_type (TPtr t) (VPtr None) = True"
| "has_type (TPtr t) (VPtr (Some v)) = has_type t v"
| "has_type (TSlice t) (VSlice None) = True"
| "has_type (TSlice t) (VSlice (Some vs)) = list_all (has_type t) vs"
| "has_type (TStruct pkg n fs) (VStruct vs) = has_fields fs vs"
| "has_type _ _ = False"
| "has_fields [] [] = True"
| "has_fields (FieldDecl n p t g # fs) ((m, v) # vs) = (m = n \<and> has_type t v \<and> has_fields fs vs)"
| "has_fields _ _ = False"

fun known_type :: "gtype \<Rightarrow> bool" and known_fields :: "field_decl list \<Rightarrow> bool" where
  "known_type (TBasic n) = (kind_of_basic n \<noteq> None)"
| "known_type (TPtr t) = True"
| "known_type (TSlice t) = True"
| "known_type (TStruct pkg n fs) = known_fields fs"
| "known_fields [] = True"
| "known_fields (FieldDecl n p t g # fs) = (known_type t \<and> known_fields fs)"

section \<open>Facts\<close>

lemma kind_zero_props [simp]: "value_kind (kind_zero k) = Some k" "is_zero (kind_zero k) = Some True"
  by (cases k; simp)+

lemma zero_of_typed:
  "known_type t \<Longrightarrow> has_type t (zero_of t) \<and> is_zero (zero_of t) = Some True"
  "known_fields fs \<Longrightarrow> has_fields fs (zero_fields fs) \<and> is_zero_fields (zero_fields fs) = Some True"
  by (induct t and fs rule: zero_of_zero_fields.induct) (auto split: option.splits)


end
