(* ===== verification/Example_Test.thy ===== *)
theory Example_Test
  imports Reflect_Value
begin

text \<open>
  The parts of \<^verbatim>\<open>src/example_main.go\<close> beyond \<open>main\<close>: the \<open>Product\<close> of the
  appended test package with its \<open>CalculateTotals\<close> and \<open>AfterFind\<close> (lines
  105--132), and the util package's \<open>DeepFieldByName\<close> (lines 1160--1186).
  \<open>float64\<close> is \<^typ>\<open>real\<close>: the sums are exact here, which is what the tests
  compare against for their small decimal values.  The timestamps are left out
  of the records.
\<close>

section \<open>Product totals\<close>

record product_item =
  pi_id :: int
  pi_product_id :: int
  pi_name :: string
  pi_price_per_unit :: real
  pi_quantity :: int
  pi_total_price :: real

record tag =
  tag_id :: int
  tag_label :: string
  tag_color :: "string option"   \<comment> \<open>\<open>*string\<close>, \<open>nil\<close> as \<^const>\<open>None\<close>\<close>

record test_product =
  tp_id :: int
  tp_name :: string
  tp_description :: string
  tp_user_id :: int
  tp_items :: "product_item list"
  tp_tags :: "tag list"
  tp_total_price :: real
  tp_total_item :: int

text \<open>\<open>CalculateTotals\<close>, lines 125--132: reset both totals, then add up the items.\<close>

definition calculate_totals :: "test_product \<Rightarrow> test_product" where
  "calculate_totals p =
     fold (\<lambda>item p. p\<lparr>tp_total_price := tp_total_price p + pi_total_price item,
                       tp_total_item := tp_total_item p + pi_quantity item\<rparr>)
       (tp_items p) (p\<lparr>tp_total_price := 0, tp_total_item := 0\<rparr>)"

text \<open>\<open>AfterFind\<close>, lines 119--122: GORM's hook after a load.\<close>

definition after_find :: "test_product \<Rightarrow> string option \<times> test_product" where
  "after_find p = (None, calculate_totals p)"

section \<open>DeepFieldByName\<close>

text \<open>\<open>if v.Kind() == reflect.Ptr { v = v.Elem() }\<close>; \<open>Elem\<close> of a nil pointer is
  the zero value.\<close>

fun elem_if_ptr :: "gvalue \<Rightarrow> gvalue" where
  "elem_if_ptr (VPtr None) = VInvalid"
| "elem_if_ptr (VPtr (Some v)) = v"
| "elem_if_ptr v = v"

text \<open>The loop over the path segments, lines 1168--1183.\<close>

fun deep_loop :: "string list \<Rightarrow> gvalue \<Rightarrow> gvalue" where
  "deep_loop [] v = v"
| "deep_loop (part # parts) v =
     (case v of
        VStruct fs \<Rightarrow>
          (case map_of fs part of
             None \<Rightarrow> VInvalid
           | Some field \<Rightarrow> deep_loop parts (elem_if_ptr field))
      | _ \<Rightarrow> VInvalid)"

definition deep_field_by_name :: "gvalue \<Rightarrow> string \<Rightarrow> gvalue" where
  "deep_field_by_name v field_path = deep_loop (go_split CHR ''.'' field_path) (elem_if_ptr v)"

section \<open>Facts\<close>

lemma fold_totals:
  "tp_total_price (fold (\<lambda>item p. p\<lparr>tp_total_price := tp_total_price p + pi_total_price item,
                       tp_total_item := tp_total_item p + pi_quantity item\<rparr>) items p) =
     tp_total_price p + sum_list (map pi_total_price items) \<and>
   tp_total_item (fold (\<lambda>item p. p\<lparr>tp_total_price := tp_total_price p + pi_total_price item,
                       tp_total_item := tp_total_item p + pi_quantity item\<rparr>) items p) =
     tp_total_item p + sum_list (map pi_quantity items) \<and>
   (fold (\<lambda>item p. p\<lparr>tp_total_price := tp_total_price p + pi_total_price item,
                       tp_total_item := tp_total_item p + pi_quantity item\<rparr>) items p)
     \<lparr>tp_total_price := 0, tp_total_item := 0\<rparr> = p\<lparr>tp_total_price := 0, tp_total_item := 0\<rparr>"
  by (induction items arbitrary: p) (simp_all add: algebra_simps)

section \<open>Properties\<close>

text \<open>C33: \<open>CalculateTotals\<close> sets the totals to the sums over the items, whatever
  they held before, and changes nothing else: calling it again changes nothing.\<close>

theorem calculate_totals_sums:
  "tp_total_price (calculate_totals p) = sum_list (map pi_total_price (tp_items p)) \<and>
   tp_total_item (calculate_totals p) = sum_list (map pi_quantity (tp_items p)) \<and>
   (calculate_totals p)\<lparr>tp_total_price := 0, tp_total_item := 0\<rparr> =
     p\<lparr>tp_total_price := 0, tp_total_item := 0\<rparr> \<and>
   calculate_totals (calculate_totals p) = calculate_totals p"
proof -
  let ?f = "\<lambda>item p. p\<lparr>tp_total_price := tp_total_price p + pi_total_price item,
                       tp_total_item := tp_total_item p + pi_quantity item\<rparr>"
  let ?p0 = "p\<lparr>tp_total_price := 0, tp_total_item := 0\<rparr>"
  have f: "tp_total_price (fold ?f (tp_items p) ?p0) = sum_list (map pi_total_price (tp_items p))"
    "tp_total_item (fold ?f (tp_items p) ?p0) = sum_list (map pi_quantity (tp_items p))"
    "(fold ?f (tp_items p) ?p0)\<lparr>tp_total_price := 0, tp_total_item := 0\<rparr> = ?p0"
    using fold_totals [of "tp_items p" ?p0] by simp_all
  have items: "tp_items (fold ?f (tp_items p) ?p0) = tp_items p"
    using arg_cong [OF f(3), of tp_items] by simp
  have "calculate_totals (calculate_totals p) = calculate_totals p"
    unfolding calculate_totals_def using f(3) items by simp
  then show ?thesis using f by (simp add: calculate_totals_def)
qed

text \<open>C34: \<open>DeepFieldByName\<close> resolves a two-segment path \<open>a.b\<close> through a
  pointer: it dereferences the argument, takes field \<open>a\<close> of the struct,
  dereferences it, takes field \<open>b\<close> of that struct, and dereferences the result.\<close>

theorem deep_field_by_name_nested:
  assumes "CHR ''.'' \<notin> set a" and "CHR ''.'' \<notin> set b"
    and "elem_if_ptr v = VStruct fs" and "map_of fs a = Some fa"
    and "elem_if_ptr fa = VStruct gs" and "map_of gs b = Some y"
  shows "deep_field_by_name v (a @ CHR ''.'' # b) = elem_if_ptr y"
  using assms by (simp add: deep_field_by_name_def go_split_append_sep go_split_no_sep_single)

theorem deep_field_by_name_nested_witness:
  "deep_field_by_name
     (VPtr (Some (VStruct [(''User'', VPtr (Some (VStruct [(''Name'', VString ''Jane'')])))]))) ''User.Name'' =
   VString ''Jane''"
proof -
  have "CHR ''.'' \<notin> set ''User''" "CHR ''.'' \<notin> set ''Name''"
    "elem_if_ptr (VPtr (Some (VStruct [(''User'', VPtr (Some (VStruct [(''Name'', VString ''Jane'')])))]))) =
       VStruct [(''User'', VPtr (Some (VStruct [(''Name'', VString ''Jane'')])))]"
    "map_of [(''User'', VPtr (Some (VStruct [(''Name'', VString ''Jane'')])))] ''User'' =
       Some (VPtr (Some (VStruct [(''Name'', VString ''Jane'')])))"
    "elem_if_ptr (VPtr (Some (VStruct [(''Name'', VString ''Jane'')]))) = VStruct [(''Name'', VString ''Jane'')]"
    "map_of [(''Name'', VString ''Jane'')] ''Name'' = Some (VString ''Jane'')"
    by simp_all
  from deep_field_by_name_nested [OF this] show ?thesis by simp
qed

text \<open>C35: \<open>IsZeroValue\<close> does not guard \<open>DeepFieldByName\<close>'s failure: when the
  first segment of the path names no field of the struct, \<open>DeepFieldByName\<close>
  returns the zero \<open>reflect.Value\<close>, and \<open>IsZeroValue\<close> of it panics instead of
  answering.\<close>

theorem is_zero_value_deep_field_missing:
  assumes "elem_if_ptr v = VStruct fs" and "map_of fs (hd (go_split CHR ''.'' p)) = None"
  shows "deep_field_by_name v p = VInvalid \<and> is_zero_value (deep_field_by_name v p) = None"
proof -
  obtain a rest where "go_split CHR ''.'' p = a # rest"
    by (cases "go_split CHR ''.'' p") auto
  with assms show ?thesis by (simp add: deep_field_by_name_def is_zero_value_def)
qed

theorem is_zero_value_deep_field_missing_witness:
  "is_zero_value (deep_field_by_name (VPtr (Some (VStruct [(''ID'', VUint 0), (''Name'', VString [])])))
      ''Email'') = None"
proof -
  have "elem_if_ptr (VPtr (Some (VStruct [(''ID'', VUint 0), (''Name'', VString [])]))) =
          VStruct [(''ID'', VUint 0), (''Name'', VString [])]"
    and "map_of [(''ID'', VUint 0), (''Name'', VString [])] (hd (go_split CHR ''.'' ''Email'')) = None"
    by (simp_all add: go_split_def)
  from conjunct2 [OF is_zero_value_deep_field_missing [OF this]] show ?thesis .
qed

end
