(* ===== verification/Example_Flows.thy ===== *)
theory Example_Flows
  imports App Example_Test
begin

text \<open>
  The test package appended to \<^verbatim>\<open>src/example_main.go\<close> (lines 81--985): its
  entity declarations as reflect sees them (lines 96--159), the model tests (lines
  161--248), the HTTP tests (lines 255--419), and the CRUD flow tests (lines
  424--939) run against a storage driver.  A test is a value: \<^const>\<open>None\<close> when it
  passes, the message of its first \<open>t.Errorf\<close> otherwise; a flow test stops at its
  first \<open>t.Fatalf\<close>, an \<open>Inl\<close> with the message, and returns the final database
  state otherwise.  Formatted values in the messages are left out.
  \<open>TestProductDetailFlow\<close> (lines 778--870) appends to the many-to-many
  association \<open>Product.Tags\<close>: GORM's \<open>Append\<close> and \<open>Preload\<close> are modelled over the
  join table \<open>product_to_price\<close>, kept as the list of its rows.
\<close>

section \<open>The entity declarations of the test package\<close>

definition time_type :: gtype where
  "time_type = TStruct ''time'' ''Time'' []"

definition pk_tags :: struct_tag where
  "pk_tags = [(''gorm'', ''primaryKey''), (''go-blar'', ''pk'')]"

definition test_user_type :: gtype where
  "test_user_type =
     TStruct ''test'' ''User''
       [FieldDecl ''ID'' [] (TBasic ''uint'') pk_tags, FieldDecl ''Name'' [] (TBasic ''string'') [],
        FieldDecl ''Email'' [] (TBasic ''string'') [], FieldDecl ''Password'' [] (TBasic ''string'') []]"

definition product_item_type :: gtype where
  "product_item_type =
     TStruct ''test'' ''ProductItem''
       [FieldDecl ''ID'' [] (TBasic ''uint'') pk_tags, FieldDecl ''ProductID'' [] (TBasic ''uint'') [],
        FieldDecl ''Name'' [] (TBasic ''string'') [], FieldDecl ''PricePerUnit'' [] (TBasic ''float64'') [],
        FieldDecl ''Quantity'' [] (TBasic ''int'') [], FieldDecl ''TotalPrice'' [] (TBasic ''float64'') [],
        FieldDecl ''CreatedAt'' [] time_type [], FieldDecl ''UpdatedAt'' [] time_type []]"

definition tag_type :: gtype where
  "tag_type =
     TStruct ''test'' ''Tag''
       [FieldDecl ''ID'' [] (TBasic ''uint'') pk_tags, FieldDecl ''Label'' [] (TBasic ''string'') [],
        FieldDecl ''Color'' [] (TPtr (TBasic ''string'')) [],
        FieldDecl ''CreatedAt'' [] time_type [], FieldDecl ''UpdatedAt'' [] time_type []]"

definition test_product_type :: gtype where
  "test_product_type =
     TStruct ''test'' ''Product''
       [FieldDecl ''ID'' [] (TBasic ''uint'') pk_tags, FieldDecl ''Name'' [] (TBasic ''string'') [],
        FieldDecl ''Description'' [] (TBasic ''string'') [], FieldDecl ''UserID'' [] (TBasic ''uint'') [],
        FieldDecl ''ProductItems'' [] (TSlice product_item_type) [],
        FieldDecl ''Tags'' [] (TSlice tag_type)
          [(''gorm'', ''many2many:product_to_price;foreignKey:ID;joinForeignKey:ProductID;references:ID;joinReferences:TagID'')],
        FieldDecl ''TotalPrice'' [] (TBasic ''float64'') [(''gorm'', ''-'')],
        FieldDecl ''TotalItem'' [] (TBasic ''int'') [(''gorm'', ''-'')],
        FieldDecl ''CreatedAt'' [] time_type [], FieldDecl ''UpdatedAt'' [] time_type []]"

definition product_to_price_type :: gtype where
  "product_to_price_type =
     TStruct ''test'' ''ProductToPrice''
       [FieldDecl ''ProductID'' [] (TBasic ''uint'') [(''gorm'', ''primaryKey'')],
        FieldDecl ''TagID'' [] (TBasic ''uint'') [(''gorm'', ''primaryKey'')]]"

section \<open>Values of the test package\<close>

record test_user =
  tu_id :: int
  tu_name :: string
  tu_email :: string
  tu_password :: string

record product_to_price =
  ptp_product_id :: int
  ptp_tag_id :: int

text \<open>\<open>stringPtr\<close>, lines 942--944: a pointer to a fresh copy, never \<open>nil\<close>.\<close>

definition string_ptr :: "string \<Rightarrow> string option" where
  "string_ptr s = Some s"

section \<open>The model tests, lines 161--248\<close>

text \<open>\<open>TestAppInitialization\<close>: \<open>New(WithDB(db), WithAddress(":8080"))\<close> and
  \<open>Register\<close> of the entities through pointers; a registration error is fatal.  The
  second test file of the package (lines 1035--1054) runs the same test on its own
  declarations.\<close>

definition register_test_models ::
  "('e, 'db) driver \<Rightarrow> meta_state \<Rightarrow> 'db \<Rightarrow> gtype list \<Rightarrow>
     string option \<times> ('e, 'db, unit, unit) app \<times> meta_state" where
  "register_test_models d st db models =
     (let app = (new_app [WithDB (Some d), WithAddress '':8080''] :: ('e, 'db, unit, unit) app) in
      case register app st db (map (\<lambda>t. Some (TPtr t)) models) of
        (RegOk, app', st', _) \<Rightarrow> (None, app', st')
      | (RegError e, app', st', _) \<Rightarrow> (Some (''Failed to register models: '' @ e), app', st')
      | (RegPanic p, app', st', _) \<Rightarrow> (Some ''panic'', app', st'))"

definition test_app_initialization ::
  "('e, 'db) driver \<Rightarrow> meta_state \<Rightarrow> 'db \<Rightarrow> string option \<times> ('e, 'db, unit, unit) app \<times> meta_state" where
  "test_app_initialization d st db =
     register_test_models d st db
       [test_user_type, test_product_type, product_item_type, tag_type, product_to_price_type]"

definition test_user_model :: "string option" where
  "test_user_model =
     (let user = \<lparr>tu_id = 1, tu_name = ''John Doe'', tu_email = ''john@example.com'',
                  tu_password = ''securepassword''\<rparr>
      in if tu_name user \<noteq> ''John Doe'' then Some ''Expected user name John Doe'' else None)"

definition test_product_model :: "string option" where
  "test_product_model =
     (let product = \<lparr>tp_id = 1, tp_name = ''Laptop'', tp_description = ''High-performance laptop'',
                     tp_user_id = 1, tp_items = [], tp_tags = [], tp_total_price = 0, tp_total_item = 0\<rparr>
      in if tp_name product \<noteq> ''Laptop'' then Some ''Expected product name Laptop'' else None)"

definition test_product_item_model :: "string option" where
  "test_product_item_model =
     (let item = \<lparr>pi_id = 1, pi_product_id = 1, pi_name = ''Item 1'', pi_price_per_unit = 99.99,
                  pi_quantity = 5, pi_total_price = 499.95\<rparr>
      in if pi_total_price item \<noteq> 499.95 then Some ''Expected total price 499.95'' else None)"

definition test_tag_model :: "string option" where
  "test_tag_model =
     (let color = ''#FF5733'';
          tag = \<lparr>tag_id = 1, tag_label = ''Electronics'', tag_color = Some color\<rparr>
      in if tag_label tag \<noteq> ''Electronics'' then Some ''Expected tag label Electronics''
         else if tag_color tag = None \<or> the (tag_color tag) \<noteq> ''#FF5733''
         then Some ''Expected tag color #FF5733'' else None)"

definition test_product_to_price_model :: "string option" where
  "test_product_to_price_model =
     (let p2p = \<lparr>ptp_product_id = 1, ptp_tag_id = 1\<rparr>
      in if ptp_product_id p2p \<noteq> 1 \<or> ptp_tag_id p2p \<noteq> 1
         then Some ''Expected ProductID=1 and TagID=1'' else None)"

section \<open>The second test file, lines 986--1118\<close>

text \<open>A second file of package \<open>test\<close> declares simpler entities (no relations, no
  timestamps, \<open>Tag.Color\<close> a plain string) and repeats the initialization and
  model tests on them.\<close>

definition test_user_type2 :: gtype where
  "test_user_type2 =
     TStruct ''test'' ''User''
       [FieldDecl ''ID'' [] (TBasic ''uint'') pk_tags, FieldDecl ''Name'' [] (TBasic ''string'') [],
        FieldDecl ''Email'' [] (TBasic ''string'') [], FieldDecl ''Password'' [] (TBasic ''string'') []]"

definition test_product_type2 :: gtype where
  "test_product_type2 =
     TStruct ''test'' ''Product''
       [FieldDecl ''ID'' [] (TBasic ''uint'') pk_tags, FieldDecl ''Name'' [] (TBasic ''string'') [],
        FieldDecl ''Description'' [] (TBasic ''string'') [], FieldDecl ''UserID'' [] (TBasic ''uint'') []]"

definition product_item_type2 :: gtype where
  "product_item_type2 =
     TStruct ''test'' ''ProductItem''
       [FieldDecl ''ID'' [] (TBasic ''uint'') pk_tags, FieldDecl ''ProductID'' [] (TBasic ''uint'') [],
        FieldDecl ''Name'' [] (TBasic ''string'') [], FieldDecl ''PricePerUnit'' [] (TBasic ''float64'') [],
        FieldDecl ''Quantity'' [] (TBasic ''int'') [], FieldDecl ''TotalPrice'' [] (TBasic ''float64'') []]"

definition tag_type2 :: gtype where
  "tag_type2 =
     TStruct ''test'' ''Tag''
       [FieldDecl ''ID'' [] (TBasic ''uint'') pk_tags, FieldDecl ''Label'' [] (TBasic ''string'') [],
        FieldDecl ''Color'' [] (TBasic ''string'') []]"

record product2 =
  p2_id :: int
  p2_name :: string
  p2_description :: string
  p2_user_id :: int

record tag2 =
  tag2_id :: int
  tag2_label :: string
  tag2_color :: string

definition test_app_initialization2 ::
  "('e, 'db) driver \<Rightarrow> meta_state \<Rightarrow> 'db \<Rightarrow> string option \<times> ('e, 'db, unit, unit) app \<times> meta_state" where
  "test_app_initialization2 d st db =
     register_test_models d st db
       [test_user_type2, test_product_type2, product_item_type2, tag_type2, product_to_price_type]"

definition test_product_model2 :: "string option" where
  "test_product_model2 =
     (let product = \<lparr>p2_id = 1, p2_name = ''Laptop'', p2_description = ''High-performance laptop'',
                     p2_user_id = 1\<rparr>
      in if p2_name product \<noteq> ''Laptop'' then Some ''Expected product name Laptop'' else None)"

definition test_tag_model2 :: "string option" where
  "test_tag_model2 =
     (let tag = \<lparr>tag2_id = 1, tag2_label = ''Electronics'', tag2_color = ''#FF5733''\<rparr>
      in if tag2_label tag \<noteq> ''Electronics'' then Some ''Expected tag label Electronics'' else None)"

text \<open>The model tests of the second file on the entities it shares with the
  first (same fields): \<open>TestUserModel\<close>, \<open>TestProductItemModel\<close>,
  \<open>TestProductToPriceModel\<close>.\<close>

definition test_user_model2 :: "string option" where
  "test_user_model2 =
     (let user = \<lparr>tu_id = 1, tu_name = ''John Doe'', tu_email = ''john@example.com'',
                  tu_password = ''securepassword''\<rparr>
      in if tu_name user \<noteq> ''John Doe'' then Some ''Expected user name John Doe'' else None)"

definition test_product_item_model2 :: "string option" where
  "test_product_item_model2 =
     (let item = \<lparr>pi_id = 1, pi_product_id = 1, pi_name = ''Item 1'', pi_price_per_unit = 99.99,
                  pi_quantity = 5, pi_total_price = 499.95\<rparr>
      in if pi_total_price item \<noteq> 499.95 then Some ''Expected total price 499.95'' else None)"

definition test_product_to_price_model2 :: "string option" where
  "test_product_to_price_model2 =
     (let p2p = \<lparr>ptp_product_id = 1, ptp_tag_id = 1\<rparr>
      in if ptp_product_id p2p \<noteq> 1 \<or> ptp_tag_id p2p \<noteq> 1
         then Some ''Expected ProductID=1 and TagID=1'' else None)"

section \<open>The HTTP tests, lines 255--419\<close>

text \<open>Each HTTP test marshals a payload and builds a request with
  \<open>http.NewRequest\<close>, then reads the code of a fresh \<open>httptest.NewRecorder()\<close>: no
  handler is ever called with the request, which is dropped.  A new recorder's
  \<open>Code\<close> is 200.\<close>

record recorder =
  rec_code :: nat

definition new_recorder :: recorder where
  "new_recorder = \<lparr>rec_code = 200\<rparr>"

definition expect_code :: "nat list \<Rightarrow> recorder \<Rightarrow> string \<Rightarrow> string option" where
  "expect_code codes w msg = (if rec_code w \<notin> set codes then Some msg else None)"

definition test_tag_create_request :: "string option" where
  "test_tag_create_request = expect_code [201, 200] new_recorder ''Expected status 200/201''"

definition test_tag_list_request :: "string option" where
  "test_tag_list_request = expect_code [200] new_recorder ''Expected status 200''"

definition test_tag_detail_request :: "string option" where
  "test_tag_detail_request = expect_code [200] new_recorder ''Expected status 200''"

definition test_tag_update_request :: "string option" where
  "test_tag_update_request = expect_code [200] new_recorder ''Expected status 200''"

definition test_tag_delete_request :: "string option" where
  "test_tag_delete_request = expect_code [200, 204] new_recorder ''Expected status 200/204''"

definition test_product_create_request :: "string option" where
  "test_product_create_request = expect_code [201, 200] new_recorder ''Expected status 200/201''"

definition test_product_list_request :: "string option" where
  "test_product_list_request = expect_code [200] new_recorder ''Expected status 200''"

definition test_product_detail_request :: "string option" where
  "test_product_detail_request = expect_code [200] new_recorder ''Expected status 200''"

definition test_product_update_request :: "string option" where
  "test_product_update_request = expect_code [200] new_recorder ''Expected status 200''"

definition test_product_delete_request :: "string option" where
  "test_product_delete_request = expect_code [200, 204] new_recorder ''Expected status 200/204''"

definition test_product_create_minimal :: "string option" where
  "test_product_create_minimal = expect_code [201, 200] new_recorder ''Expected status 200/201''"

section \<open>The flow tests, lines 424--939\<close>

text \<open>The key accessors the storage needs for the three entity types; \<open>Updates\<close> is
  not used by the flows.\<close>

definition tag_ops :: "tag entity_ops" where
  "tag_ops =
     \<lparr>get_id = tag_id, set_id = (\<lambda>i t. t\<lparr>tag_id := i\<rparr>),
      merge_nonzero = (\<lambda>old t. old\<lparr>tag_label := (if tag_label t = [] then tag_label old else tag_label t),
                                  tag_color := (if tag_color t = None then tag_color old else tag_color t)\<rparr>)\<rparr>"

definition test_product_ops :: "test_product entity_ops" where
  "test_product_ops =
     \<lparr>get_id = tp_id, set_id = (\<lambda>i p. p\<lparr>tp_id := i\<rparr>),
      merge_nonzero = (\<lambda>old p. old\<lparr>tp_name := (if tp_name p = [] then tp_name old else tp_name p)\<rparr>)\<rparr>"

definition product_item_ops :: "product_item entity_ops" where
  "product_item_ops =
     \<lparr>get_id = pi_id, set_id = (\<lambda>i p. p\<lparr>pi_id := i\<rparr>),
      merge_nonzero = (\<lambda>old p. old\<lparr>pi_name := (if pi_name p = [] then pi_name old else pi_name p)\<rparr>)\<rparr>"

definition step_failed :: "string \<Rightarrow> db_error \<Rightarrow> string + 'a" where
  "step_failed step err = Inl (step @ '' Failed: '' @ error_message err)"

text \<open>\<open>TestTagFlowComplete\<close>, lines 424--549: create two tags, list, update the
  first with \<open>Save\<close> and read it back, list, delete both, listing after each.\<close>

definition tag_flow :: "(tag, 'db) driver \<Rightarrow> 'db \<Rightarrow> string + 'db" where
  "tag_flow d st0 =
     (case drv_create d st0 \<lparr>tag_id = 0, tag_label = ''Electronics'', tag_color = string_ptr ''#FF5733''\<rparr> of
        (Some err, _, _) \<Rightarrow> step_failed ''Step 1'' err
      | (None, tag1, st1) \<Rightarrow>
      if tag_id tag1 = 0 then Inl ''Step 1 Failed: Tag ID not assigned'' else
     (case drv_create d st1 \<lparr>tag_id = 0, tag_label = ''Gadgets'', tag_color = string_ptr ''#00FF00''\<rparr> of
        (Some err, _, _) \<Rightarrow> step_failed ''Step 2'' err
      | (None, tag2, st2) \<Rightarrow>
      if tag_id tag2 = 0 then Inl ''Step 2 Failed: Tag ID not assigned'' else
     (case drv_find d st2 of
        Inl err \<Rightarrow> step_failed ''Step 3'' err
      | Inr tags \<Rightarrow>
      if length tags \<noteq> 2 then Inl ''Step 3 Failed: Expected 2 tags'' else
     (let tag1 = tag1\<lparr>tag_label := ''Updated Electronics'', tag_color := string_ptr ''#0000FF''\<rparr> in
      case drv_save d st2 tag1 of
        (Some err, _) \<Rightarrow> step_failed ''Step 4'' err
      | (None, st4) \<Rightarrow>
     (case drv_first d st4 (tag_id tag1) of
        Inl err \<Rightarrow> step_failed ''Step 4'' err
      | Inr updated \<Rightarrow>
      if tag_label updated \<noteq> ''Updated Electronics''
      then Inl ''Step 4 Failed: Expected label Updated Electronics'' else
     (case drv_find d st4 of
        Inl err \<Rightarrow> step_failed ''Step 5'' err
      | Inr tags_after_update \<Rightarrow>
      if length tags_after_update \<noteq> 2 then Inl ''Step 5 Failed: Expected 2 tags'' else
     (case drv_delete d st4 (tag_id tag1) of
        (Some err, _) \<Rightarrow> step_failed ''Step 6'' err
      | (None, st6) \<Rightarrow>
     (case drv_find d st6 of
        Inl err \<Rightarrow> step_failed ''Step 7'' err
      | Inr tags_after_delete \<Rightarrow>
      if length tags_after_delete \<noteq> 1 then Inl ''Step 7 Failed: Expected 1 tag remaining'' else
     (case drv_delete d st6 (tag_id tag2) of
        (Some err, _) \<Rightarrow> step_failed ''Step 8'' err
      | (None, st8) \<Rightarrow>
     (case drv_find d st8 of
        Inl err \<Rightarrow> step_failed ''Step 9'' err
      | Inr tags_after_all_delete \<Rightarrow>
      if length tags_after_all_delete \<noteq> 0 then Inl ''Step 9 Failed: Expected 0 tags'' else
      Inr st8))))))))))"

text \<open>\<open>TestTagDetailFlow\<close>, lines 738--775.\<close>

definition tag_detail_flow :: "(tag, 'db) driver \<Rightarrow> 'db \<Rightarrow> string + 'db" where
  "tag_detail_flow d st0 =
     (case drv_create d st0 \<lparr>tag_id = 0, tag_label = ''Premium'', tag_color = string_ptr ''#FFD700''\<rparr> of
        (Some err, _, _) \<Rightarrow> Inl (''Create failed: '' @ error_message err)
      | (None, tag, st1) \<Rightarrow>
     (case drv_first d st1 (tag_id tag) of
        Inl err \<Rightarrow> Inl (''Detail retrieval failed: '' @ error_message err)
      | Inr detail \<Rightarrow>
      if tag_label detail \<noteq> ''Premium'' then Inl ''Expected label Premium''
      else if tag_color detail = None \<or> the (tag_color detail) \<noteq> ''#FFD700''
      then Inl ''Expected color #FFD700'' else Inr st1))"

definition laptop :: test_product where
  "laptop =
     \<lparr>tp_id = 0, tp_name = ''Laptop'', tp_description = ''High-performance laptop'', tp_user_id = 1,
      tp_items = [\<lparr>pi_id = 0, pi_product_id = 0, pi_name = ''Item 1'', pi_price_per_unit = 99.99,
                   pi_quantity = 5, pi_total_price = 499.95\<rparr>],
      tp_tags = [], tp_total_price = 0, tp_total_item = 0\<rparr>"

definition phone :: test_product where
  "phone =
     \<lparr>tp_id = 0, tp_name = ''Phone'', tp_description = ''Smartphone with great camera'', tp_user_id = 1,
      tp_items = [\<lparr>pi_id = 0, pi_product_id = 0, pi_name = ''Item 1'', pi_price_per_unit = 199.99,
                   pi_quantity = 3, pi_total_price = 599.97\<rparr>],
      tp_tags = [], tp_total_price = 0, tp_total_item = 0\<rparr>"

text \<open>Steps 5--9 of \<open>TestProductFlowComplete\<close>, lines 672--733: list, delete
  both products, listing after each.\<close>

definition product_flow_cleanup :: "(test_product, 'db) driver \<Rightarrow> 'db \<Rightarrow> int \<Rightarrow> int \<Rightarrow> string + 'db" where
  "product_flow_cleanup d st4 id1 id2 =
     (case drv_find d st4 of
        Inl err \<Rightarrow> step_failed ''Step 5'' err
      | Inr products_after_update \<Rightarrow>
      if length (map calculate_totals products_after_update) \<noteq> 2
      then Inl ''Step 5 Failed: Expected 2 products'' else
     (case drv_delete d st4 id1 of
        (Some err, _) \<Rightarrow> step_failed ''Step 6'' err
      | (None, st6) \<Rightarrow>
     (case drv_find d st6 of
        Inl err \<Rightarrow> step_failed ''Step 7'' err
      | Inr products_after_delete \<Rightarrow>
      if length (map calculate_totals products_after_delete) \<noteq> 1
      then Inl ''Step 7 Failed: Expected 1 product remaining'' else
     (case drv_delete d st6 id2 of
        (Some err, _) \<Rightarrow> step_failed ''Step 8'' err
      | (None, st8) \<Rightarrow>
     (case drv_find d st8 of
        Inl err \<Rightarrow> step_failed ''Step 9'' err
      | Inr products_after_all_delete \<Rightarrow>
      if length products_after_all_delete \<noteq> 0 then Inl ''Step 9 Failed: Expected 0 products'' else
      Inr st8)))))"

text \<open>\<open>TestProductFlowComplete\<close>, lines 552--733: steps 1--4 (lines 552--671),
  then \<^const>\<open>product_flow_cleanup\<close>.  The product items are stored with
  their product (GORM creates the association and \<open>Preload\<close> reads it back); the
  test recomputes the totals after every load.\<close>

definition product_flow :: "(test_product, 'db) driver \<Rightarrow> 'db \<Rightarrow> string + 'db" where
  "product_flow d st0 =
     (case drv_create d st0 laptop of
        (Some err, _, _) \<Rightarrow> step_failed ''Step 1'' err
      | (None, product1, st1) \<Rightarrow>
      if tp_id product1 = 0 then Inl ''Step 1 Failed: Product ID not assigned'' else
     (let product1 = calculate_totals product1 in
      if tp_total_price product1 \<noteq> 499.95 then Inl ''Step 1 Failed: Expected TotalPrice 499.95''
      else if tp_total_item product1 \<noteq> 5 then Inl ''Step 1 Failed: Expected TotalItem 5'' else
     (case drv_create d st1 phone of
        (Some err, _, _) \<Rightarrow> step_failed ''Step 2'' err
      | (None, product2, st2) \<Rightarrow>
      if tp_id product2 = 0 then Inl ''Step 2 Failed: Product ID not assigned'' else
     (let product2 = calculate_totals product2 in
      if tp_total_price product2 \<noteq> 599.97 then Inl ''Step 2 Failed: Expected TotalPrice 599.97''
      else if tp_total_item product2 \<noteq> 3 then Inl ''Step 2 Failed: Expected TotalItem 3'' else
     (case drv_find d st2 of
        Inl err \<Rightarrow> step_failed ''Step 3'' err
      | Inr products \<Rightarrow>
     (let products = map calculate_totals products in
      if length products \<noteq> 2 then Inl ''Step 3 Failed: Expected 2 products''
      else if tp_total_price (products ! 0) \<noteq> 499.95
      then Inl ''Step 3 Failed: First product - Expected TotalPrice 499.95''
      else if tp_total_item (products ! 0) \<noteq> 5
      then Inl ''Step 3 Failed: First product - Expected TotalItem 5'' else
     (let product1 = product1\<lparr>tp_name := ''Updated Laptop'',
                              tp_description := ''High-performance laptop with upgraded specs''\<rparr> in
      case drv_save d st2 product1 of
        (Some err, _) \<Rightarrow> step_failed ''Step 4'' err
      | (None, st4) \<Rightarrow>
     (case drv_first d st4 (tp_id product1) of
        Inl err \<Rightarrow> step_failed ''Step 4'' err
      | Inr updated \<Rightarrow>
     (let updated = calculate_totals updated in
      if tp_name updated \<noteq> ''Updated Laptop'' then Inl ''Step 4 Failed: Expected name Updated Laptop''
      else if tp_description updated \<noteq> ''High-performance laptop with upgraded specs''
      then Inl ''Step 4 Failed: Expected description match''
      else if tp_total_price updated \<noteq> 499.95 then Inl ''Step 4 Failed: Expected TotalPrice 499.95'' else
      product_flow_cleanup d st4 (tp_id product1) (tp_id product2))))))))))"

text \<open>The loop \<open>for _, item := range items { db.Create(&item) }\<close> of
  \<open>TestProductItemDetailFlow\<close>.\<close>

fun create_items :: "(product_item, 'db) driver \<Rightarrow> 'db \<Rightarrow> product_item list \<Rightarrow> string + 'db" where
  "create_items d st [] = Inr st"
| "create_items d st (item # items) =
     (case drv_create d st item of
        (Some err, _, _) \<Rightarrow> Inl (''Item creation failed: '' @ error_message err)
      | (None, _, st') \<Rightarrow> create_items d st' items)"

text \<open>\<open>TestProductItemDetailFlow\<close>, lines 873--939: products and items are two
  tables, each with its own driver and state; \<open>Where("product_id = ?")\<close> filters the
  rows \<open>Find\<close> returns.\<close>

definition product_item_detail_flow ::
  "(test_product, 'dp) driver \<Rightarrow> (product_item, 'di) driver \<Rightarrow> 'dp \<Rightarrow> 'di \<Rightarrow> string + 'dp \<times> 'di" where
  "product_item_detail_flow dp di stp0 sti0 =
     (case drv_create dp stp0
             \<lparr>tp_id = 0, tp_name = ''Bundle'', tp_description = ''Multi-item bundle'', tp_user_id = 1,
              tp_items = [], tp_tags = [], tp_total_price = 0, tp_total_item = 0\<rparr> of
        (Some err, _, _) \<Rightarrow> Inl (''Product creation failed: '' @ error_message err)
      | (None, product, stp1) \<Rightarrow>
     (let items =
        [\<lparr>pi_id = 0, pi_product_id = tp_id product, pi_name = ''Item A'', pi_price_per_unit = 25.50,
          pi_quantity = 10, pi_total_price = 255.00\<rparr>,
         \<lparr>pi_id = 0, pi_product_id = tp_id product, pi_name = ''Item B'', pi_price_per_unit = 15.75,
          pi_quantity = 20, pi_total_price = 315.00\<rparr>,
         \<lparr>pi_id = 0, pi_product_id = tp_id product, pi_name = ''Item C'', pi_price_per_unit = 5.00,
          pi_quantity = 50, pi_total_price = 250.00\<rparr>] in
      case create_items di sti0 items of
        Inl msg \<Rightarrow> Inl msg
      | Inr sti1 \<Rightarrow>
     (case drv_find di sti1 of
        Inl err \<Rightarrow> Inl (''Items retrieval failed: '' @ error_message err)
      | Inr all_items \<Rightarrow>
     (let retrieved_items = filter (\<lambda>item. pi_product_id item = tp_id product) all_items in
      if length retrieved_items \<noteq> 3 then Inl ''Expected 3 items''
      else if sum_list (map pi_total_price retrieved_items) \<noteq> 820.00 then Inl ''Expected total price 820.00''
      else if sum_list (map pi_quantity retrieved_items) \<noteq> 80 then Inl ''Expected total quantity 80''
      else Inr (stp1, sti1)))))"

text \<open>GORM's \<open>Association("Tags").Append\<close> on the many-to-many field
  \<open>Product.Tags\<close> (join table \<open>product_to_price\<close>, tag of line 111): a tag
  without a key is created first, a tag with a key is left as stored (GORM saves
  associations with \<open>ON CONFLICT DO NOTHING\<close>); a join row is inserted unless it
  exists, and the tag is appended to the product's in-memory slice.  The join table
  is the list of its rows.\<close>

fun append_tag_links ::
  "(tag, 'dt) driver \<Rightarrow> 'dt \<Rightarrow> product_to_price list \<Rightarrow> int \<Rightarrow> tag list \<Rightarrow>
   db_error + 'dt \<times> product_to_price list \<times> tag list" where
  "append_tag_links dt stt links pid [] = Inr (stt, links, [])"
| "append_tag_links dt stt links pid (t # ts) =
     (case (if tag_id t = 0 then drv_create dt stt t else (None, t, stt)) of
        (Some err, _, _) \<Rightarrow> Inl err
      | (None, t', stt') \<Rightarrow>
     (let link = \<lparr>ptp_product_id = pid, ptp_tag_id = tag_id t'\<rparr>;
          links' = (if link \<in> set links then links else links @ [link]) in
      case append_tag_links dt stt' links' pid ts of
        Inl err \<Rightarrow> Inl err
      | Inr (stt'', links'', ts') \<Rightarrow> Inr (stt'', links'', t' # ts')))"

definition association_append ::
  "(tag, 'dt) driver \<Rightarrow> 'dt \<Rightarrow> product_to_price list \<Rightarrow> test_product \<Rightarrow> tag list \<Rightarrow>
   db_error option \<times> 'dt \<times> product_to_price list \<times> test_product" where
  "association_append dt stt links p tags =
     (case append_tag_links dt stt links (tp_id p) tags of
        Inl err \<Rightarrow> (Some err, stt, links, p)
      | Inr (stt', links', tags') \<Rightarrow> (None, stt', links', p\<lparr>tp_tags := tp_tags p @ tags'\<rparr>))"

text \<open>\<open>Preload("Tags")\<close>: one query for the tags whose key the join table links to
  the product (\<open>WHERE id IN ...\<close>), in table order.\<close>

definition preload_tags ::
  "(tag, 'dt) driver \<Rightarrow> 'dt \<Rightarrow> product_to_price list \<Rightarrow> test_product \<Rightarrow> db_error + test_product" where
  "preload_tags dt stt links p =
     (let ids = map ptp_tag_id (filter (\<lambda>l. ptp_product_id l = tp_id p) links) in
      case drv_find dt stt of
        Inl err \<Rightarrow> Inl err
      | Inr tags \<Rightarrow> Inr (p\<lparr>tp_tags := filter (\<lambda>t. tag_id t \<in> set ids) tags\<rparr>))"

definition gaming_laptop :: test_product where
  "gaming_laptop =
     \<lparr>tp_id = 0, tp_name = ''Gaming Laptop'', tp_description = ''High-end gaming laptop with RTX 4090'',
      tp_user_id = 1,
      tp_items = [\<lparr>pi_id = 0, pi_product_id = 0, pi_name = ''Base Unit'', pi_price_per_unit = 1500.00,
                   pi_quantity = 1, pi_total_price = 1500.00\<rparr>,
                  \<lparr>pi_id = 0, pi_product_id = 0, pi_name = ''Extended Warranty'', pi_price_per_unit = 200.00,
                   pi_quantity = 1, pi_total_price = 200.00\<rparr>,
                  \<lparr>pi_id = 0, pi_product_id = 0, pi_name = ''Protective Case'', pi_price_per_unit = 50.00,
                   pi_quantity = 2, pi_total_price = 100.00\<rparr>],
      tp_tags = [], tp_total_price = 0, tp_total_item = 0\<rparr>"

text \<open>\<open>TestProductDetailFlow\<close>, lines 778--870: tags, products and the join table
  are three tables; the detail is loaded with \<open>First\<close> and \<open>Preload("Tags")\<close>
  (the items are stored with their product), and a failure of either is the
  same \<open>t.Fatalf\<close>.  The logging loops after the checks do not fail.\<close>

definition product_detail_flow ::
  "(tag, 'dt) driver \<Rightarrow> (test_product, 'dp) driver \<Rightarrow> 'dt \<Rightarrow> 'dp \<Rightarrow> product_to_price list \<Rightarrow>
   string + 'dt \<times> 'dp \<times> product_to_price list" where
  "product_detail_flow dt dp stt0 stp0 links0 =
     (case drv_create dt stt0 \<lparr>tag_id = 0, tag_label = ''Electronics'', tag_color = string_ptr ''#FF5733''\<rparr> of
        (Some err, _, _) \<Rightarrow> Inl (''Tag1 creation failed: '' @ error_message err)
      | (None, tag1, stt1) \<Rightarrow>
     (case drv_create dt stt1 \<lparr>tag_id = 0, tag_label = ''Premium'', tag_color = string_ptr ''#FFD700''\<rparr> of
        (Some err, _, _) \<Rightarrow> Inl (''Tag2 creation failed: '' @ error_message err)
      | (None, tag2, stt2) \<Rightarrow>
     (case drv_create dp stp0 gaming_laptop of
        (Some err, _, _) \<Rightarrow> Inl (''Product creation failed: '' @ error_message err)
      | (None, product, stp1) \<Rightarrow>
     (case association_append dt stt2 links0 product [tag1, tag2] of
        (Some err, _, _, _) \<Rightarrow> Inl (''Tag association failed: '' @ error_message err)
      | (None, stt3, links1, product) \<Rightarrow>
     (case (case drv_first dp stp1 (tp_id product) of
              Inl err \<Rightarrow> Inl err
            | Inr detail \<Rightarrow> preload_tags dt stt3 links1 detail) of
        Inl err \<Rightarrow> Inl (''Detail retrieval failed: '' @ error_message err)
      | Inr detail \<Rightarrow>
     (let detail = calculate_totals detail in
      if tp_name detail \<noteq> ''Gaming Laptop'' then Inl ''Expected name Gaming Laptop''
      else if length (tp_items detail) \<noteq> 3 then Inl ''Expected 3 items''
      else if length (tp_tags detail) \<noteq> 2 then Inl ''Expected 2 tags''
      else if tp_total_price detail \<noteq> 1500.00 + 200.00 + 100.00 then Inl ''Expected TotalPrice 1800.00''
      else if tp_total_item detail \<noteq> 4 then Inl ''Expected TotalItem 4''
      else Inr (stt3, stp1, links1)))))))"

section \<open>Facts\<close>

lemmas mem_driver_eval = mem_driver_def mem_insert_def mem_first_def mem_save_def mem_delete_def

text \<open>The model tests check the literals they have just built, and pass.\<close>

lemma model_tests_pass:
  "test_user_model = None \<and> test_product_model = None \<and> test_product_item_model = None \<and>
   test_tag_model = None \<and> test_product_to_price_model = None"
  by (simp add: test_user_model_def test_product_model_def test_product_item_model_def test_tag_model_def
      test_product_to_price_model_def)

text \<open>The HTTP tests read the code of a recorder no handler has written to, and pass
  whatever the handlers do.\<close>

lemma http_tests_pass_without_requests:
  "test_tag_create_request = None \<and> test_tag_list_request = None \<and> test_tag_detail_request = None \<and>
   test_tag_update_request = None \<and> test_tag_delete_request = None \<and>
   test_product_create_request = None \<and> test_product_list_request = None \<and>
   test_product_detail_request = None \<and> test_product_update_request = None \<and>
   test_product_delete_request = None \<and> test_product_create_minimal = None"
  by (simp add: test_tag_create_request_def test_tag_list_request_def test_tag_detail_request_def
      test_tag_update_request_def test_tag_delete_request_def test_product_create_request_def
      test_product_list_request_def test_product_detail_request_def test_product_update_request_def
      test_product_delete_request_def test_product_create_minimal_def expect_code_def new_recorder_def)

text \<open>The second test file: its initialization registers the five entities, and its
  model tests (the user, item and join tests are those of the first file) pass.\<close>

lemma second_test_file_passes:
  "fst (test_app_initialization2 (mem_driver test_product_ops) init_meta_state empty_mem_db) = None \<and>
   test_product_model2 = None \<and> test_tag_model2 = None \<and> test_user_model2 = None \<and>
   test_product_item_model2 = None \<and> test_product_to_price_model2 = None"
proof -
  have "fst (test_app_initialization2 (mem_driver test_product_ops) init_meta_state empty_mem_db) = None"
    by code_simp
  then show ?thesis
    by (simp add: test_product_model2_def test_tag_model2_def test_user_model2_def
        test_product_item_model2_def test_product_to_price_model2_def)
qed

section \<open>Properties of the test package\<close>

text \<open>\<open>TestTagFlowComplete\<close> passes over every empty table of the reference
  driver, whatever key it will generate next: the two tags get the next two keys, and
  the table is empty again at the end.\<close>

theorem tag_flow_passes:
  assumes "0 < next_id st" and "rows st = []"
  shows "tag_flow (mem_driver tag_ops) st = Inr (st\<lparr>rows := [], next_id := next_id st + 2\<rparr>)"
proof -
  have n: "next_id st \<noteq> 0" "next_id st + 1 \<noteq> 0" using assms(1) by simp_all
  show ?thesis
    using assms n
    by (simp add: tag_flow_def mem_driver_eval tag_ops_def string_ptr_def Let_def)
qed

theorem tag_flow_passes_witness:
  "tag_flow (mem_driver tag_ops) empty_mem_db = Inr \<lparr>rows = [], next_id = 3\<rparr>"
  using tag_flow_passes [of empty_mem_db] by (simp add: empty_mem_db_def)

text \<open>The other flow tests pass over fresh tables of the reference driver:
  \<open>TestTagDetailFlow\<close>, \<open>TestProductFlowComplete\<close> (whose totals are those of
  \<open>CalculateTotals\<close> after every load), \<open>TestProductItemDetailFlow\<close>, and
  \<open>TestProductDetailFlow\<close>, whose detail carries the two tags appended through the
  join table.\<close>

theorem flow_tests_pass:
  "(\<exists>st. tag_detail_flow (mem_driver tag_ops) empty_mem_db = Inr st) \<and>
   (\<exists>st. product_flow (mem_driver test_product_ops) empty_mem_db = Inr st) \<and>
   (\<exists>st. product_item_detail_flow (mem_driver test_product_ops) (mem_driver product_item_ops)
          empty_mem_db empty_mem_db = Inr st) \<and>
   (\<exists>st. product_detail_flow (mem_driver tag_ops) (mem_driver test_product_ops)
          empty_mem_db empty_mem_db [] = Inr st)"
proof -
  have "\<exists>st. tag_detail_flow (mem_driver tag_ops) empty_mem_db = Inr st"
    by (simp add: tag_detail_flow_def mem_driver_eval empty_mem_db_def tag_ops_def string_ptr_def Let_def)
  moreover have "\<exists>st. product_flow (mem_driver test_product_ops) empty_mem_db = Inr st"
    by (simp add: product_flow_def product_flow_cleanup_def mem_driver_eval empty_mem_db_def test_product_ops_def laptop_def
        phone_def calculate_totals_def Let_def)
  moreover have "\<exists>st. product_item_detail_flow (mem_driver test_product_ops) (mem_driver product_item_ops)
                       empty_mem_db empty_mem_db = Inr st"
    by (simp add: product_item_detail_flow_def mem_driver_eval empty_mem_db_def test_product_ops_def
        product_item_ops_def Let_def)
  moreover have "\<exists>st. product_detail_flow (mem_driver tag_ops) (mem_driver test_product_ops)
                       empty_mem_db empty_mem_db [] = Inr st"
    by (simp add: product_detail_flow_def association_append_def preload_tags_def mem_driver_eval
        empty_mem_db_def tag_ops_def test_product_ops_def gaming_laptop_def string_ptr_def
        calculate_totals_def Let_def)
  ultimately show ?thesis by blast
qed


end
