(* ===== verification/Test_Harness.thy ===== *)
theory Test_Harness
  imports Registry
begin

text \<open>
  What the Go test files of the repository share: the outcome of a test
  function (it passes, fails with the message of its \<open>t.Fatal\<close>/\<open>t.Fatalf\<close>, or
  panics), \<open>go test\<close> running a file's tests in source order over the global
  metadata registry, and the fixture \<open>ClearRegistry(); meta, err := Parse(&T{})\<close>
  that most of them open with.
\<close>

datatype test_outcome = Pass | Fail string | Panicked

fun run_tests ::
  "(meta_state \<Rightarrow> test_outcome \<times> meta_state) list \<Rightarrow> meta_state \<Rightarrow> test_outcome list \<times> meta_state" where
  "run_tests [] ms = ([], ms)"
| "run_tests (t # ts) ms =
     (let (out, ms1) = t ms; (outs, ms2) = run_tests ts ms1 in (out # outs, ms2))"

text \<open>\<open>ClearRegistry()\<close> then \<open>Parse(&T{})\<close>: a panic of \<open>Parse\<close> ends the test.
  \<open>Parse\<close> reports no \<open>ParseError\<close> in the model, only panics, and the pointer it
  returns is allocated, so the \<^const>\<open>None\<close> branch of the heap lookup (a nil
  dereference) is never taken.\<close>

definition clear_and_parse ::
  "meta_state \<Rightarrow> gtype \<Rightarrow> (test_outcome + ptr \<times> entity_meta) \<times> meta_state" where
  "clear_and_parse ms t =
     (case parse (clear_registry ms) (Some (TPtr t)) of
        (Inl _, ms') \<Rightarrow> (Inl Panicked, ms')
      | (Inr p, ms') \<Rightarrow>
          (case heap ms' p of
             None \<Rightarrow> (Inl Panicked, ms')
           | Some em \<Rightarrow> (Inr (p, em), ms')))"

section \<open>Facts\<close>

text \<open>After \<open>ClearRegistry\<close>, whatever the registry held, a struct type is parsed
  afresh: its descriptor is built from its fields and stored at the next address.\<close>

lemma clear_and_parse_struct:
  "clear_and_parse ms (TStruct pkg n fs) =
     (Inr (next_ptr ms, build_meta (TStruct pkg n fs) fs),
      ms\<lparr>registry := [pkg @ CHR ''.'' # n \<mapsto> next_ptr ms],
         heap := (heap ms)(next_ptr ms \<mapsto> build_meta (TStruct pkg n fs) fs),
         next_ptr := Suc (next_ptr ms)\<rparr>)"
  by (simp add: clear_and_parse_def parse_def clear_registry_def Let_def)

lemma run_tests_length [simp]: "length (fst (run_tests ts ms)) = length ts"
  by (induction ts arbitrary: ms) (auto simp: split_def Let_def)

text \<open>A file passes when each of its tests passes from every registry state.\<close>

lemma run_tests_all_pass:
  "(\<And>t ms. t \<in> set ts \<Longrightarrow> fst (t ms) = Pass) \<Longrightarrow> fst (run_tests ts ms) = replicate (length ts) Pass"
  by (induction ts arbitrary: ms) (auto simp: split_def Let_def)

end
