(* ===== verification/Repository_Test.thy ===== *)
theory Repository_Test
  imports Test_Harness Repository Strconv
begin

text \<open>
  The tests of \<^verbatim>\<open>src/internal/repo/repository_test.go\<close> over the repository of
  Repository.thy and the registry of Registry.thy.  Each test opens a fresh
  database (\<open>setupTestDB\<close>), clears the global registry, parses \<open>TestUser\<close> and
  builds a repository; the database is a driver state, the registry the
  \<^typ>\<open>meta_state\<close> the tests share, in source order (Test_Harness.thy).
\<close>

type_synonym 'db user_driver = "(int \<times> string, 'db) driver"
type_synonym 'db user_repository = "(int \<times> string, 'db) repository"

text \<open>\<open>type TestUser struct { ID uint; Name string }\<close>, lines 12--15.\<close>

definition repo_test_user_type :: gtype where
  "repo_test_user_type =
     TStruct ''repo'' ''TestUser'' [FieldDecl ''ID'' [] (TBasic ''uint'') [], FieldDecl ''Name'' [] (TBasic ''string'') []]"

text \<open>\<open>setupTestDB\<close>, lines 17--28: \<open>AutoMigrate(&TestUser{})\<close> on the fresh
  database (opening it is I/O and not modelled).\<close>

definition setup_test_db :: "'db user_driver \<Rightarrow> 'db \<Rightarrow> string + 'db" where
  "setup_test_db d st =
     (case drv_auto_migrate d st (Some (TPtr repo_test_user_type)) of
        (Some err, _) \<Rightarrow> Inl (''failed to migrate test schema: '' @ error_message err)
      | (None, st') \<Rightarrow> Inr st')"

text \<open>The fixture every test repeats: \<open>meta.ClearRegistry()\<close>,
  \<open>meta.Parse(&TestUser{})\<close> and \<open>New[TestUser](db, entityMeta)\<close>.\<close>

definition repo_fixture ::
  "'db user_driver option \<Rightarrow> meta_state \<Rightarrow> (test_outcome + 'db user_repository \<times> entity_meta) \<times> meta_state" where
  "repo_fixture db ms =
     (case clear_and_parse ms repo_test_user_type of
        (Inl out, ms') \<Rightarrow> (Inl out, ms')
      | (Inr (_, em), ms') \<Rightarrow> (Inr (new_repository db em, em), ms'))"

definition run_repo_test ::
  "'db user_driver \<Rightarrow> 'db \<Rightarrow> ('db user_repository \<Rightarrow> entity_meta \<Rightarrow> 'db \<Rightarrow> test_outcome) \<Rightarrow>
   meta_state \<Rightarrow> test_outcome \<times> meta_state" where
  "run_repo_test d st0 body ms =
     (case setup_test_db d st0 of
        Inl msg \<Rightarrow> (Fail msg, ms)
      | Inr st \<Rightarrow>
          (case repo_fixture (Some d) ms of
             (Inl out, ms') \<Rightarrow> (out, ms')
           | (Inr (r, em), ms') \<Rightarrow> (body r em st, ms')))"

text \<open>\<open>if err := repo.Create(ctx, u); err != nil { t.Fatal(err) }\<close> over a list of
  users, as in \<open>TestGetAll\<close> (lines 131--135) and \<open>TestCount\<close> (lines 237--242).\<close>

fun create_users :: "'db user_repository \<Rightarrow> 'db \<Rightarrow> (int \<times> string) list \<Rightarrow> string + 'db" where
  "create_users r st [] = Inr st"
| "create_users r st (u # us) =
     (case repo_create r st u of
        (Some err, _, _) \<Rightarrow> Inl (error_message err)
      | (None, _, st') \<Rightarrow> create_users r st' us)"

section \<open>The tests\<close>

text \<open>\<open>TestNewRepository\<close>, lines 30--52 (\<open>New\<close> returns a pointer to a fresh
  struct, so the \<open>repo == nil\<close> check cannot fail).\<close>

definition test_new_repository :: "'db user_driver \<Rightarrow> 'db \<Rightarrow> meta_state \<Rightarrow> test_outcome \<times> meta_state" where
  "test_new_repository d st0 =
     run_repo_test d st0 (\<lambda>r em st.
       if repo_db r \<noteq> Some d then Fail ''expected db to be set''
       else if repo_meta r \<noteq> em then Fail ''expected meta to be set''
       else Pass)"

text \<open>\<open>TestCreate\<close>, lines 54--76.\<close>

definition test_create :: "'db user_driver \<Rightarrow> 'db \<Rightarrow> meta_state \<Rightarrow> test_outcome \<times> meta_state" where
  "test_create d st0 =
     run_repo_test d st0 (\<lambda>r em st.
       case repo_create r st (0, ''John'') of
         (Some err, _, _) \<Rightarrow> Fail (''expected no error, got '' @ error_message err)
       | (None, user, _) \<Rightarrow> if fst user = 0 then Fail ''expected ID to be assigned'' else Pass)"

text \<open>\<open>TestGetByID\<close>, lines 78--110 (\<open>GetByID\<close> returns a non-nil entity whenever
  it returns no error, so the \<open>retrieved == nil\<close> check cannot fail).\<close>

definition test_get_by_id :: "'db user_driver \<Rightarrow> 'db \<Rightarrow> meta_state \<Rightarrow> test_outcome \<times> meta_state" where
  "test_get_by_id d st0 =
     run_repo_test d st0 (\<lambda>r em st.
       case repo_create r st (0, ''Jane'') of
         (Some err, _, _) \<Rightarrow> Fail (error_message err)
       | (None, user, st1) \<Rightarrow>
           (case repo_get_by_id r st1 (fst user) of
              Inl err \<Rightarrow> Fail (''expected no error, got '' @ error_message err)
            | Inr retrieved \<Rightarrow>
                if snd retrieved \<noteq> ''Jane'' then Fail (''expected name Jane, got '' @ snd retrieved)
                else Pass))"

text \<open>\<open>TestGetAll\<close>, lines 112--147.\<close>

definition test_get_all :: "'db user_driver \<Rightarrow> 'db \<Rightarrow> meta_state \<Rightarrow> test_outcome \<times> meta_state" where
  "test_get_all d st0 =
     run_repo_test d st0 (\<lambda>r em st.
       case create_users r st [(0, ''Alice''), (0, ''Bob''), (0, ''Charlie'')] of
         Inl msg \<Rightarrow> Fail msg
       | Inr st1 \<Rightarrow>
           (case repo_get_all r st1 of
              Inl err \<Rightarrow> Fail (''expected no error, got '' @ error_message err)
            | Inr all \<Rightarrow>
                if length all \<noteq> 3 then Fail (''expected 3 users, got '' @ format_int (int (length all)))
                else Pass))"

text \<open>\<open>TestUpdate\<close>, lines 149--184.\<close>

definition test_update :: "'db user_driver \<Rightarrow> 'db \<Rightarrow> meta_state \<Rightarrow> test_outcome \<times> meta_state" where
  "test_update d st0 =
     run_repo_test d st0 (\<lambda>r em st.
       case repo_create r st (0, ''Original'') of
         (Some err, _, _) \<Rightarrow> Fail (error_message err)
       | (None, user, st1) \<Rightarrow>
           (let user = (fst user, ''Updated'') in
            case repo_update r st1 user of
              (Some err, _) \<Rightarrow> Fail (''expected no error, got '' @ error_message err)
            | (None, st2) \<Rightarrow>
                (case repo_get_by_id r st2 (fst user) of
                   Inl err \<Rightarrow> Fail (error_message err)
                 | Inr retrieved \<Rightarrow>
                     if snd retrieved \<noteq> ''Updated'' then Fail (''expected name Updated, got '' @ snd retrieved)
                     else Pass)))"

text \<open>\<open>TestDelete\<close>, lines 186--222 (an error from \<open>GetByID\<close> comes with a nil
  entity, so the last check cannot fail).\<close>

definition test_delete :: "'db user_driver \<Rightarrow> 'db \<Rightarrow> meta_state \<Rightarrow> test_outcome \<times> meta_state" where
  "test_delete d st0 =
     run_repo_test d st0 (\<lambda>r em st.
       case repo_create r st (0, ''ToDelete'') of
         (Some err, _, _) \<Rightarrow> Fail (error_message err)
       | (None, user, st1) \<Rightarrow>
           (let user_id = fst user in
            case repo_delete r st1 user_id of
              (Some err, _) \<Rightarrow> Fail (''expected no error, got '' @ error_message err)
            | (None, st2) \<Rightarrow>
                (case repo_get_by_id r st2 user_id of
                   Inl _ \<Rightarrow> Pass
                 | Inr _ \<Rightarrow> Fail ''expected user to be deleted'')))"

text \<open>\<open>TestCount\<close>, lines 224--254.\<close>

definition test_count :: "'db user_driver \<Rightarrow> 'db \<Rightarrow> meta_state \<Rightarrow> test_outcome \<times> meta_state" where
  "test_count d st0 =
     run_repo_test d st0 (\<lambda>r em st.
       case create_users r st (replicate 5 (0, ''User'')) of
         Inl msg \<Rightarrow> Fail msg
       | Inr st1 \<Rightarrow>
           (case repo_count r st1 of
              (_, Some err) \<Rightarrow> Fail (''expected no error, got '' @ error_message err)
            | (count, None) \<Rightarrow>
                if count \<noteq> 5 then Fail (''expected count 5, got '' @ format_int count) else Pass))"

text \<open>\<open>TestCreateWithoutDB\<close>, lines 256--273: no database is opened and the
  repository gets \<open>nil\<close>.\<close>

definition test_create_without_db :: "'db \<Rightarrow> meta_state \<Rightarrow> test_outcome \<times> meta_state" where
  "test_create_without_db st ms =
     (case repo_fixture (None :: 'db user_driver option) ms of
        (Inl out, ms') \<Rightarrow> (out, ms')
      | (Inr (r, em), ms') \<Rightarrow>
          (case repo_create r st (0, ''John'') of
             (None, _, _) \<Rightarrow> (Fail ''expected error when creating without database'', ms')
           | (Some _, _, _) \<Rightarrow> (Pass, ms')))"

text \<open>The file's tests in source order.\<close>

definition repository_test_suite :: "'db user_driver \<Rightarrow> 'db \<Rightarrow> meta_state \<Rightarrow> test_outcome list \<times> meta_state" where
  "repository_test_suite d st =
     run_tests [test_new_repository d st, test_create d st, test_get_by_id d st, test_get_all d st,
                test_update d st, test_delete d st, test_count d st, test_create_without_db st]"

section \<open>Facts\<close>

text \<open>\<open>Parse\<close> of \<open>TestUser\<close> gives the descriptor \<^const>\<open>test_user_meta\<close>: two
  untagged fields, table \<open>test_users\<close>, no primary-key reference.\<close>

lemma build_meta_test_user:
  "build_meta repo_test_user_type
     [FieldDecl ''ID'' [] (TBasic ''uint'') [], FieldDecl ''Name'' [] (TBasic ''string'') []] = test_user_meta"
  by code_simp

text \<open>After \<open>ClearRegistry\<close>, whatever the registry held, the fixture parses
  \<open>TestUser\<close> afresh and builds its repository over that descriptor.\<close>

lemma repo_fixture_fresh:
  "repo_fixture db ms =
     (Inr (new_repository db test_user_meta, test_user_meta), snd (clear_and_parse ms repo_test_user_type))"
  using clear_and_parse_struct [of ms "''repo''" "''TestUser''"] build_meta_test_user
  by (simp add: repo_fixture_def repo_test_user_type_def)

lemmas repository_test_defs =
  test_new_repository_def test_create_def test_get_by_id_def test_get_all_def test_update_def
  test_delete_def test_count_def test_create_without_db_def run_repo_test_def setup_test_db_def

lemmas repository_eval =
  repo_create_def repo_get_by_id_def repo_get_all_def repo_update_def repo_delete_def repo_count_def
  new_repository_def

text \<open>The eight tests of repository_test.go pass, in source order, over the
  reference driver on any empty table and from any registry state.\<close>

theorem repository_tests_pass:
  assumes "rows st = []" and "0 < next_id st"
  shows "fst (repository_test_suite (mem_driver test_user_ops) st ms) = replicate 8 Pass"
  using assms
  by (simp add: repository_test_suite_def repository_test_defs repo_fixture_fresh repository_eval
      mem_driver_def mem_insert_def mem_first_def mem_save_def mem_delete_def test_user_ops_def
      Let_def split_def eval_nat_numeral)

theorem repository_tests_pass_witness:
  "fst (repository_test_suite (mem_driver test_user_ops) empty_mem_db init_meta_state) = replicate 8 Pass"
  using repository_tests_pass [of "empty_mem_db :: (int \<times> string) mem_db"] by (simp add: empty_mem_db_def)

end
