(* ===== verification/Parse_Test.thy ===== *)
theory Parse_Test
  imports Test_Harness
begin

text \<open>
  The tests of \<^verbatim>\<open>src/internal/meta/parse_test.go\<close> over the registry of
  Registry.thy.  The types the tests declare inside their functions are types of
  package \<open>meta\<close>: three of them are called \<open>Product\<close> and two \<open>Entity\<close>, so they
  share a registry key (\<open>t.String()\<close>), and each test clears the registry before it
  parses.  A \<open>t.Errorf\<close> marks the test failed and lets it go on.
\<close>

section \<open>The types the tests declare\<close>

definition pk_gorm_tags :: struct_tag where
  "pk_gorm_tags = [(''gorm'', ''primaryKey''), (''go-blar'', ''pk'')]"

definition basic_product_type :: gtype where
  "basic_product_type =
     TStruct ''meta'' ''Product''
       [FieldDecl ''ID'' [] (TBasic ''uint'') pk_gorm_tags, FieldDecl ''Name'' [] (TBasic ''string'') [],
        FieldDecl ''Price'' [] (TBasic ''float64'') []]"

definition pk_entity_type :: gtype where
  "pk_entity_type =
     TStruct ''meta'' ''Entity''
       [FieldDecl ''ID'' [] (TBasic ''uint'') pk_gorm_tags, FieldDecl ''Name'' [] (TBasic ''string'') []]"

definition plain_product_type :: gtype where
  "plain_product_type =
     TStruct ''meta'' ''Product'' [FieldDecl ''ID'' [] (TBasic ''uint'') [], FieldDecl ''Name'' [] (TBasic ''string'') []]"

definition caching_user_type :: gtype where
  "caching_user_type =
     TStruct ''meta'' ''User'' [FieldDecl ''ID'' [] (TBasic ''uint'') [], FieldDecl ''Name'' [] (TBasic ''string'') []]"

definition article_type :: gtype where
  "article_type =
     TStruct ''meta'' ''Article'' [FieldDecl ''ID'' [] (TBasic ''uint'') [], FieldDecl ''Title'' [] (TBasic ''string'') []]"

definition tagged_product_type :: gtype where
  "tagged_product_type =
     TStruct ''meta'' ''Product''
       [FieldDecl ''ID'' [] (TBasic ''uint'') [(''go-blar'', ''pk'')], FieldDecl ''Name'' [] (TBasic ''string'') [],
        FieldDecl ''Secret'' [] (TBasic ''string'') [(''go-blar'', ''hidden'')],
        FieldDecl ''ReadOnly'' [] (TBasic ''string'') [(''go-blar'', ''readonly'')],
        FieldDecl ''Items'' [] (TSlice (TBasic ''string'')) [(''go-blar'', ''list'')]]"

definition age_entity_type :: gtype where
  "age_entity_type =
     TStruct ''meta'' ''Entity''
       [FieldDecl ''ID'' [] (TBasic ''uint'') [], FieldDecl ''Name'' [] (TBasic ''string'') [],
        FieldDecl ''Age'' [] (TBasic ''int'') []]"

section \<open>The tests\<close>

text \<open>The opening every parsing test shares: \<open>ClearRegistry()\<close>, \<open>Parse(&T{})\<close>,
  and the checks on the descriptor.  \<open>Parse\<close> never returns a nil descriptor
  without an error, so the \<open>meta == nil\<close> check of \<open>TestParseBasicStruct\<close> cannot
  fail.\<close>

definition parse_test ::
  "gtype \<Rightarrow> (entity_meta \<Rightarrow> test_outcome) \<Rightarrow> meta_state \<Rightarrow> test_outcome \<times> meta_state" where
  "parse_test t body ms =
     (case clear_and_parse ms t of
        (Inl out, ms') \<Rightarrow> (out, ms')
      | (Inr (_, em), ms') \<Rightarrow> (body em, ms'))"

text \<open>\<open>f := meta.GetFieldByName(n); if f == nil || !flag(f) { t.Fatal(msg) }\<close>.\<close>

definition check_field ::
  "entity_meta \<Rightarrow> string \<Rightarrow> (field_meta \<Rightarrow> bool) \<Rightarrow> string \<Rightarrow> test_outcome \<Rightarrow> test_outcome" where
  "check_field em n flag msg k =
     (case get_field_by_name em n of None \<Rightarrow> Fail msg | Some f \<Rightarrow> if flag f then k else Fail msg)"

text \<open>\<open>TestParseBasicStruct\<close>, lines 9--38.\<close>

definition test_parse_basic_struct :: "meta_state \<Rightarrow> test_outcome \<times> meta_state" where
  "test_parse_basic_struct =
     parse_test basic_product_type (\<lambda>em.
       if em_name em \<noteq> ''Product'' then Fail (''expected name Product, got '' @ em_name em)
       else if em_type em \<noteq> basic_product_type then Fail ''expected correct type''
       else if em_fields em = [] then Fail ''expected fields to be parsed''
       else Pass)"

text \<open>\<open>TestParseWithPrimaryKey\<close>, lines 40--60.\<close>

definition test_parse_with_primary_key :: "meta_state \<Rightarrow> test_outcome \<times> meta_state" where
  "test_parse_with_primary_key =
     parse_test pk_entity_type (\<lambda>em.
       case em_pk_field em of
         None \<Rightarrow> Fail ''expected primary key field to be detected''
       | Some f \<Rightarrow> if fm_name f \<noteq> ''ID'' then Fail (''expected PK to be ID, got '' @ fm_name f) else Pass)"

text \<open>\<open>TestParseWithPointerType\<close>, lines 62--79.\<close>

definition test_parse_with_pointer_type :: "meta_state \<Rightarrow> test_outcome \<times> meta_state" where
  "test_parse_with_pointer_type =
     parse_test plain_product_type (\<lambda>em.
       case em_type em of TPtr _ \<Rightarrow> Fail ''expected dereferenced type'' | _ \<Rightarrow> Pass)"

text \<open>\<open>TestCaching\<close>, lines 81--103: two parses after one clear; \<open>t.Fatal(err)\<close>
  is never reached because \<open>Parse\<close> panics instead of failing.\<close>

definition test_caching :: "meta_state \<Rightarrow> test_outcome \<times> meta_state" where
  "test_caching ms =
     (case parse (clear_registry ms) (Some (TPtr caching_user_type)) of
        (Inl _, ms1) \<Rightarrow> (Panicked, ms1)
      | (Inr meta1, ms1) \<Rightarrow>
          (case parse ms1 (Some (TPtr caching_user_type)) of
             (Inl _, ms2) \<Rightarrow> (Panicked, ms2)
           | (Inr meta2, ms2) \<Rightarrow>
               (if meta1 \<noteq> meta2 then Fail ''expected cached metadata to be the same instance'' else Pass,
                ms2)))"

text \<open>\<open>TestParseTableName\<close>, lines 105--122.\<close>

definition test_parse_table_name :: "meta_state \<Rightarrow> test_outcome \<times> meta_state" where
  "test_parse_table_name =
     parse_test article_type (\<lambda>em. if em_table_name em = [] then Fail ''expected table name to be set'' else Pass)"

text \<open>\<open>TestToSnakeCase\<close>, lines 124--141: the table of cases; every mismatch is
  reported with \<open>t.Errorf\<close> and the loop goes on.\<close>

definition snake_case_cases :: "(string \<times> string) list" where
  "snake_case_cases =
     [(''UserName'', ''user_name''), (''ID'', ''id''), (''Product'', ''product''), (''HTTPServer'', ''http_server'')]"

definition test_to_snake_case :: "meta_state \<Rightarrow> test_outcome \<times> meta_state" where
  "test_to_snake_case ms =
     (let errors =
        map (\<lambda>(input, expected). ''toSnakeCase('' @ input @ '') = '' @ to_snake_case input @ '', expected '' @ expected)
          (filter (\<lambda>(input, expected). to_snake_case input \<noteq> expected) snake_case_cases)
      in (if errors = [] then Pass else Fail (concat errors), ms))"

text \<open>\<open>TestParseFieldTags\<close>, lines 143--179.\<close>

definition test_parse_field_tags :: "meta_state \<Rightarrow> test_outcome \<times> meta_state" where
  "test_parse_field_tags =
     parse_test tagged_product_type (\<lambda>em.
       check_field em ''ID'' fm_is_pk ''expected ID to be marked as PK''
       (check_field em ''Secret'' fm_hidden ''expected Secret to be marked as hidden''
       (check_field em ''ReadOnly'' fm_read_only ''expected ReadOnly to be marked as readonly''
       (check_field em ''Items'' fm_list ''expected Items to be marked as list'' Pass))))"

text \<open>\<open>TestGetFieldByName\<close>, lines 181--208.\<close>

definition test_get_field_by_name :: "meta_state \<Rightarrow> test_outcome \<times> meta_state" where
  "test_get_field_by_name =
     parse_test age_entity_type (\<lambda>em.
       case get_field_by_name em ''Name'' of
         None \<Rightarrow> Fail ''expected to find Name field''
       | Some f \<Rightarrow>
           if fm_name f \<noteq> ''Name'' then Fail (''expected field name Name, got '' @ fm_name f)
           else (case get_field_by_name em ''NonExistent'' of
                   Some _ \<Rightarrow> Fail ''expected nil for non-existent field''
                 | None \<Rightarrow> Pass))"

definition parse_test_suite :: "meta_state \<Rightarrow> test_outcome list \<times> meta_state" where
  "parse_test_suite =
     run_tests [test_parse_basic_struct, test_parse_with_primary_key, test_parse_with_pointer_type,
                test_caching, test_parse_table_name, test_to_snake_case, test_parse_field_tags,
                test_get_field_by_name]"

section \<open>Facts\<close>

lemma parse_test_struct:
  "fst (parse_test (TStruct pkg n fs) body ms) = body (build_meta (TStruct pkg n fs) fs)"
  by (simp add: parse_test_def clear_and_parse_struct)

lemmas parse_test_types =
  basic_product_type_def pk_entity_type_def plain_product_type_def article_type_def
  tagged_product_type_def age_entity_type_def

lemma snake_case_cases_hold:
  "filter (\<lambda>(input, expected). to_snake_case input \<noteq> expected) snake_case_cases = []"
  by code_simp

text \<open>Each test passes from every registry state: the clear at its start makes it
  independent of the tests before it.\<close>

lemma parse_tests_each_pass:
  "fst (test_parse_basic_struct ms) = Pass" "fst (test_parse_with_primary_key ms) = Pass"
  "fst (test_parse_with_pointer_type ms) = Pass" "fst (test_caching ms) = Pass"
  "fst (test_parse_table_name ms) = Pass" "fst (test_to_snake_case ms) = Pass"
  "fst (test_parse_field_tags ms) = Pass" "fst (test_get_field_by_name ms) = Pass"
proof -
  show "fst (test_caching ms) = Pass"
    by (simp add: test_caching_def parse_def clear_registry_def caching_user_type_def Let_def)
  show "fst (test_to_snake_case ms) = Pass"
    by (simp add: test_to_snake_case_def snake_case_cases_hold)
  show "fst (test_parse_basic_struct ms) = Pass"
    unfolding test_parse_basic_struct_def parse_test_types parse_test_struct by code_simp
  show "fst (test_parse_with_primary_key ms) = Pass"
    unfolding test_parse_with_primary_key_def parse_test_types parse_test_struct by code_simp
  show "fst (test_parse_with_pointer_type ms) = Pass"
    unfolding test_parse_with_pointer_type_def parse_test_types parse_test_struct by code_simp
  show "fst (test_parse_table_name ms) = Pass"
    unfolding test_parse_table_name_def parse_test_types parse_test_struct by code_simp
  show "fst (test_parse_field_tags ms) = Pass"
    unfolding test_parse_field_tags_def parse_test_types parse_test_struct by code_simp
  show "fst (test_get_field_by_name ms) = Pass"
    unfolding test_get_field_by_name_def parse_test_types parse_test_struct by code_simp
qed

lemma parse_tests_pass: "fst (parse_test_suite ms) = replicate 8 Pass"
proof -
  have "fst (parse_test_suite ms) =
          replicate (length [test_parse_basic_struct, test_parse_with_primary_key, test_parse_with_pointer_type,
                             test_caching, test_parse_table_name, test_to_snake_case, test_parse_field_tags,
                             test_get_field_by_name]) Pass"
    unfolding parse_test_suite_def by (rule run_tests_all_pass) (auto simp: parse_tests_each_pass)
  then show ?thesis by (simp add: eval_nat_numeral)
qed

text \<open>The clear is what keeps the tests apart: \<open>TestParseBasicStruct\<close> and
  \<open>TestParseFieldTags\<close> both declare \<open>meta.Product\<close>, and without the clear the
  second parse returns the first test's descriptor, which has no \<open>Secret\<close> field, so
  \<open>TestParseFieldTags\<close> would fail.\<close>

lemma parse_field_tags_needs_clear:
  "parse (snd (test_parse_basic_struct ms)) (Some (TPtr tagged_product_type)) =
     (Inr (next_ptr ms), snd (test_parse_basic_struct ms)) \<and>
   heap (snd (test_parse_basic_struct ms)) (next_ptr ms) =
     Some (build_meta basic_product_type
             [FieldDecl ''ID'' [] (TBasic ''uint'') pk_gorm_tags, FieldDecl ''Name'' [] (TBasic ''string'') [],
              FieldDecl ''Price'' [] (TBasic ''float64'') []]) \<and>
   get_field_by_name
     (build_meta basic_product_type
        [FieldDecl ''ID'' [] (TBasic ''uint'') pk_gorm_tags, FieldDecl ''Name'' [] (TBasic ''string'') [],
         FieldDecl ''Price'' [] (TBasic ''float64'') []]) ''Secret'' = None"
proof -
  have st: "snd (test_parse_basic_struct ms) = snd (clear_and_parse ms basic_product_type)"
    by (simp add: test_parse_basic_struct_def parse_test_def split: prod.split sum.split)
  have "get_field_by_name
          (build_meta basic_product_type
             [FieldDecl ''ID'' [] (TBasic ''uint'') pk_gorm_tags, FieldDecl ''Name'' [] (TBasic ''string'') [],
              FieldDecl ''Price'' [] (TBasic ''float64'') []]) ''Secret'' = None"
    unfolding basic_product_type_def by code_simp
  then show ?thesis
    by (simp add: st basic_product_type_def tagged_product_type_def clear_and_parse_struct parse_def)
qed

end
