(* ===== verification/App_Test.thy ===== *)
theory App_Test
  imports App Test_Harness
begin

text \<open>
  The tests of package \<open>goblar\<close>: \<^verbatim>\<open>src/goblar/app_test.go\<close> (\<open>New\<close>, the options
  and \<open>Register\<close>) and \<^verbatim>\<open>src/goblar/options_test.go\<close> (the options on a
  \<open>config\<close>), over App.thy.  The database \<open>gorm.Open\<close> returns is a driver \<open>d\<close>
  with its state \<open>st\<close>; a middleware is a \<open>func(http.Handler) http.Handler\<close>.  The
  tests share the registry of package \<open>meta\<close> and never clear it.
\<close>

type_synonym ('e, 'db, 'h) test_app = "('e, 'db, 'h \<Rightarrow> 'h, 'h) app"

text \<open>The types the tests register: \<open>TestEntity\<close> (lines 11--14) and the local
  \<open>User\<close> and \<open>Product\<close> of \<open>TestRegisterMultiple\<close> (lines 108--117).\<close>

definition test_entity_type :: gtype where
  "test_entity_type =
     TStruct ''goblar'' ''TestEntity'' [FieldDecl ''ID'' [] (TBasic ''uint'') [], FieldDecl ''Name'' [] (TBasic ''string'') []]"

definition local_user_type :: gtype where
  "local_user_type =
     TStruct ''goblar'' ''User'' [FieldDecl ''ID'' [] (TBasic ''uint'') [], FieldDecl ''Name'' [] (TBasic ''string'') []]"

definition local_product_type :: gtype where
  "local_product_type =
     TStruct ''goblar'' ''Product''
       [FieldDecl ''ID'' [] (TBasic ''uint'') [], FieldDecl ''Title'' [] (TBasic ''string'') [],
        FieldDecl ''Price'' [] (TBasic ''float64'') []]"

section \<open>app_test.go\<close>

text \<open>\<open>TestNew\<close>, lines 16--29 (\<open>New\<close> returns a fresh app with a made map, so
  the two nil checks before the last cannot fail).\<close>

definition test_new :: "meta_state \<Rightarrow> test_outcome \<times> meta_state" where
  "test_new ms =
     (let a = (new_app [] :: (unit, unit, unit) test_app) in
      (if app_db a \<noteq> None then Fail ''expected db to be nil without WithDB option'' else Pass, ms))"

text \<open>\<open>TestNewWithDB\<close>, lines 31--45.\<close>

definition test_new_with_db :: "('e, 'db) driver \<Rightarrow> meta_state \<Rightarrow> test_outcome \<times> meta_state" where
  "test_new_with_db d ms =
     (let a = (new_app [WithDB (Some d)] :: ('e, 'db, unit) test_app) in
      (if app_db a \<noteq> Some d then Fail ''expected db to be set'' else Pass, ms))"

text \<open>\<open>TestNewWithAddress\<close>, lines 47--52.\<close>

definition test_new_with_address :: "meta_state \<Rightarrow> test_outcome \<times> meta_state" where
  "test_new_with_address ms =
     (let a = (new_app [WithAddress '':3000''] :: (unit, unit, unit) test_app) in
      (if cfg_addr (app_cfg a) \<noteq> '':3000''
       then Fail (''expected address :3000, got '' @ cfg_addr (app_cfg a)) else Pass, ms))"

text \<open>\<open>TestNewWithMultipleOptions\<close>, lines 54--72.\<close>

definition test_new_with_multiple_options :: "('e, 'db) driver \<Rightarrow> meta_state \<Rightarrow> test_outcome \<times> meta_state" where
  "test_new_with_multiple_options d ms =
     (let a = (new_app [WithDB (Some d), WithAddress '':9000''] :: ('e, 'db, unit) test_app) in
      (if app_db a \<noteq> Some d then Fail ''expected db to be set''
       else if cfg_addr (app_cfg a) \<noteq> '':9000'' then Fail ''expected address to be :9000'' else Pass, ms))"

text \<open>\<open>TestRegisterWithoutDB\<close>, lines 74--81: only \<open>err == nil\<close> fails the test; a
  panic of \<open>Register\<close> ends it.\<close>

definition test_register_without_db :: "'db \<Rightarrow> meta_state \<Rightarrow> test_outcome \<times> meta_state" where
  "test_register_without_db st ms =
     (case register (new_app [] :: (unit, 'db, unit) test_app) ms st [Some (TPtr test_entity_type)] of
        (RegOk, _, ms', _) \<Rightarrow> (Fail ''expected error when registering without database'', ms')
      | (RegError _, _, ms', _) \<Rightarrow> (Pass, ms')
      | (RegPanic _, _, ms', _) \<Rightarrow> (Panicked, ms'))"

text \<open>\<open>TestRegisterValid\<close>, lines 83--100; \<open>len(app.registry)\<close> is the number
  of names the app registry maps.\<close>

definition test_register_valid :: "('e, 'db) driver \<Rightarrow> 'db \<Rightarrow> meta_state \<Rightarrow> test_outcome \<times> meta_state" where
  "test_register_valid d st ms =
     (case register (new_app [WithDB (Some d)] :: ('e, 'db, unit) test_app) ms st [Some (TPtr test_entity_type)] of
        (RegError e, _, ms', _) \<Rightarrow> (Fail (''expected no error, got '' @ e), ms')
      | (RegPanic _, _, ms', _) \<Rightarrow> (Panicked, ms')
      | (RegOk, a, ms', _) \<Rightarrow>
          (if card (dom (app_registry a)) = 0 then Fail ''expected entity in registry'' else Pass, ms'))"

text \<open>\<open>TestRegisterMultiple\<close>, lines 102--129.\<close>

definition test_register_multiple :: "('e, 'db) driver \<Rightarrow> 'db \<Rightarrow> meta_state \<Rightarrow> test_outcome \<times> meta_state" where
  "test_register_multiple d st ms =
     (case register (new_app [WithDB (Some d)] :: ('e, 'db, unit) test_app) ms st
             [Some (TPtr local_user_type), Some (TPtr local_product_type)] of
        (RegError e, _, ms', _) \<Rightarrow> (Fail (''expected no error, got '' @ e), ms')
      | (RegPanic _, _, ms', _) \<Rightarrow> (Panicked, ms')
      | (RegOk, a, ms', _) \<Rightarrow>
          (if card (dom (app_registry a)) \<noteq> 2
           then Fail (''expected 2 entities in registry, got '' @ format_int (int (card (dom (app_registry a)))))
           else Pass, ms'))"

section \<open>options_test.go\<close>

text \<open>\<open>TestWithDB\<close>, lines 11--24: the option applied to \<open>newConfig()\<close>.\<close>

definition test_with_db :: "('e, 'db) driver \<Rightarrow> meta_state \<Rightarrow> test_outcome \<times> meta_state" where
  "test_with_db d ms =
     (let cfg = apply_option (WithDB (Some d)) (new_config :: ('e, 'db, unit) config) in
      (if cfg_db cfg \<noteq> Some d then Fail ''expected db to be set'' else Pass, ms))"

text \<open>\<open>TestWithAddress\<close>, lines 26--34.\<close>

definition test_with_address :: "meta_state \<Rightarrow> test_outcome \<times> meta_state" where
  "test_with_address ms =
     (let cfg = apply_option (WithAddress '':5000'') (new_config :: (unit, unit, unit) config) in
      (if cfg_addr cfg \<noteq> '':5000'' then Fail (''expected address :5000, got '' @ cfg_addr cfg) else Pass, ms))"

text \<open>\<open>TestWithMiddleware\<close>, lines 36--48: two identity middlewares.\<close>

definition test_with_middleware :: "meta_state \<Rightarrow> test_outcome \<times> meta_state" where
  "test_with_middleware ms =
     (let middleware1 = (\<lambda>h. h) :: unit \<Rightarrow> unit; middleware2 = (\<lambda>h. h) :: unit \<Rightarrow> unit;
          cfg = apply_option (WithMiddleware middleware2)
                  (apply_option (WithMiddleware middleware1) (new_config :: (unit, unit, unit \<Rightarrow> unit) config))
      in (if length (cfg_middleware cfg) \<noteq> 2
          then Fail (''expected 2 middlewares, got '' @ format_int (int (length (cfg_middleware cfg))))
          else Pass, ms))"

text \<open>\<open>TestConfig_Apply\<close>, lines 50--69.\<close>

definition test_config_apply :: "('e, 'db) driver \<Rightarrow> meta_state \<Rightarrow> test_outcome \<times> meta_state" where
  "test_config_apply d ms =
     (let cfg = config_apply (new_config :: ('e, 'db, unit) config) [WithDB (Some d), WithAddress '':7000''] in
      (if cfg_db cfg \<noteq> Some d then Fail ''expected db to be set''
       else if cfg_addr cfg \<noteq> '':7000'' then Fail (''expected address :7000, got '' @ cfg_addr cfg)
       else Pass, ms))"

text \<open>\<open>TestNewConfig_Defaults\<close>, lines 71--85.\<close>

definition test_new_config_defaults :: "meta_state \<Rightarrow> test_outcome \<times> meta_state" where
  "test_new_config_defaults ms =
     (let cfg = (new_config :: (unit, unit, unit) config) in
      (if cfg_addr cfg \<noteq> '':8080'' then Fail (''expected default address :8080, got '' @ cfg_addr cfg)
       else if cfg_db cfg \<noteq> None then Fail ''expected db to be nil by default''
       else if length (cfg_middleware cfg) \<noteq> 0 then Fail ''expected no middleware by default''
       else Pass, ms))"

text \<open>The package's tests in \<open>go test\<close>'s order: app_test.go, then
  options_test.go, each in source order.\<close>

definition goblar_test_suite :: "('e, 'db) driver \<Rightarrow> 'db \<Rightarrow> meta_state \<Rightarrow> test_outcome list \<times> meta_state" where
  "goblar_test_suite d st =
     run_tests [test_new, test_new_with_db d, test_new_with_address, test_new_with_multiple_options d,
                test_register_without_db st, test_register_valid d st, test_register_multiple d st,
                test_with_db d, test_with_address, test_with_middleware, test_config_apply d,
                test_new_config_defaults]"

section \<open>Facts\<close>

text \<open>The tests that do not parse leave the registry as they found it, and pass.\<close>

lemma app_tests_keep_registry:
  "test_new ms = (Pass, ms)" "test_new_with_db d ms = (Pass, ms)" "test_new_with_address ms = (Pass, ms)"
  "test_new_with_multiple_options d ms = (Pass, ms)" "test_register_without_db st ms = (Pass, ms)"
  "test_with_db d ms = (Pass, ms)" "test_with_address ms = (Pass, ms)" "test_with_middleware ms = (Pass, ms)"
  "test_config_apply d ms = (Pass, ms)" "test_new_config_defaults ms = (Pass, ms)"
  by (simp_all add: test_new_def test_new_with_db_def test_new_with_address_def
      test_new_with_multiple_options_def test_register_without_db_def test_with_db_def test_with_address_def
      test_with_middleware_def test_config_apply_def test_new_config_defaults_def new_app_def
      config_apply_def new_config_def register_def)

text \<open>\<open>Register\<close> over a database whose migrations succeed passes both
  registering tests when the registry has not seen their types.\<close>

lemma test_register_valid_pass:
  assumes "\<forall>db t. fst (drv_auto_migrate d db t) = None" and "registry ms ''goblar.TestEntity'' = None"
  shows "fst (test_register_valid d st ms) = Pass \<and>
         registry (snd (test_register_valid d st ms)) = (registry ms)(''goblar.TestEntity'' \<mapsto> next_ptr ms)"
proof -
  obtain st1 where "drv_auto_migrate d st (Some (TPtr test_entity_type)) = (None, st1)"
    using migrate_ok [OF assms(1)] .
  with assms(2) show ?thesis
    by (simp add: test_register_valid_def register_def new_app_def config_apply_def new_config_def
        parse_def test_entity_type_def Let_def)
qed

lemma test_register_multiple_pass:
  assumes "\<forall>db t. fst (drv_auto_migrate d db t) = None"
    and "registry ms ''goblar.User'' = None" and "registry ms ''goblar.Product'' = None"
  shows "fst (test_register_multiple d st ms) = Pass"
proof -
  obtain st1 where m1: "drv_auto_migrate d st (Some (TPtr local_user_type)) = (None, st1)"
    using migrate_ok [OF assms(1)] .
  obtain st2 where m2: "drv_auto_migrate d st1 (Some (TPtr local_product_type)) = (None, st2)"
    using migrate_ok [OF assms(1)] .
  from assms(2,3) m1 m2 show ?thesis
    by (simp add: test_register_multiple_def register_def new_app_def config_apply_def new_config_def
        parse_def local_user_type_def local_product_type_def Let_def)
qed

text \<open>The package's tests pass in one run of its test binary, which starts with an
  empty registry.\<close>

lemma goblar_tests_pass:
  assumes "\<forall>db t. fst (drv_auto_migrate d db t) = None"
  shows "fst (goblar_test_suite d st init_meta_state) = replicate 12 Pass"
proof -
  have v: "fst (test_register_valid d st init_meta_state) = Pass \<and>
           registry (snd (test_register_valid d st init_meta_state)) = [''goblar.TestEntity'' \<mapsto> 0]"
    using test_register_valid_pass [OF assms, of init_meta_state st] by (simp add: init_meta_state_def)
  then have "fst (test_register_multiple d st (snd (test_register_valid d st init_meta_state))) = Pass"
    by (intro test_register_multiple_pass [OF assms]) simp_all
  with v show ?thesis
    by (simp add: goblar_test_suite_def app_tests_keep_registry split_def eval_nat_numeral)
qed
end
