(* ===== verification/Concurrent_Parse.thy ===== *)
theory Concurrent_Parse
  imports Registry
begin

text \<open>
  \<open>Parse\<close> (src/internal/meta/parse.go, lines 13--66) reads the global map at line
  21 and writes it at line 63, with no lock in between.  Here a call of \<open>Parse\<close> on
  a non-nil model is a goroutine that takes three kinds of step: the lookup of
  line 21 (a hit returns; a miss allocates and builds the descriptor of lines
  26--60, which only the goroutine sees), and the store of line 63.  Goroutines
  interleave their steps over one \<^typ>\<open>meta_state\<close>; run alone, a goroutine computes
  exactly \<^const>\<open>parse\<close>.  A panic ends a goroutine.
\<close>

datatype parse_thread =
    PStart gtype               \<comment> \<open>about to look up the key, line 21\<close>
  | PWrite string ptr          \<comment> \<open>descriptor built, about to store it, line 63\<close>
  | PDone ptr                  \<comment> \<open>returned the pointer\<close>
  | PPanic parse_error

fun parse_step :: "meta_state \<Rightarrow> parse_thread \<Rightarrow> (meta_state \<times> parse_thread) option" where
  "parse_step st (PStart t0) =
     (let t = deref t0; key = type_string t in
      case registry st key of
        Some p \<Rightarrow> Some (st, PDone p)
      | None \<Rightarrow>
          (case t of
             TStruct pkg n fs \<Rightarrow>
               (let p = next_ptr st in
                Some (st\<lparr>heap := (heap st)(p \<mapsto> build_meta t fs), next_ptr := Suc p\<rparr>, PWrite key p))
           | _ \<Rightarrow> Some (st, PPanic (PanicNonStruct key))))"
| "parse_step st (PWrite key p) = Some (st\<lparr>registry := (registry st)(key \<mapsto> p)\<rparr>, PDone p)"
| "parse_step st (PDone p) = None"
| "parse_step st (PPanic e) = None"

text \<open>One step of the program: some goroutine that can move does.\<close>

inductive conc_step :: "meta_state \<times> parse_thread list \<Rightarrow> meta_state \<times> parse_thread list \<Rightarrow> bool" where
  "i < length ts \<Longrightarrow> parse_step st (ts ! i) = Some (st', t') \<Longrightarrow> conc_step (st, ts) (st', ts[i := t'])"

inductive_cases conc_stepE: "conc_step (st, ts) (st', ts')"

text \<open>A goroutine run alone to its end.\<close>

fun parse_alone :: "meta_state \<Rightarrow> gtype \<Rightarrow> (parse_error + ptr) \<times> meta_state" where
  "parse_alone st t =
     (case parse_step st (PStart t) of
        Some (st1, PDone p) \<Rightarrow> (Inr p, st1)
      | Some (st1, PWrite key p) \<Rightarrow>
          (case parse_step st1 (PWrite key p) of Some (st2, _) \<Rightarrow> (Inr p, st2) | None \<Rightarrow> (Inr p, st1))
      | Some (st1, PPanic e) \<Rightarrow> (Inl e, st1)
      | _ \<Rightarrow> (Inl PanicNilType, st))"



section \<open>Facts\<close>

text \<open>Run alone, a goroutine computes \<^const>\<open>parse\<close>: the split into steps refines
  the sequential model.\<close>

lemma parse_alone_eq_parse: "parse_alone st t = parse st (Some t)"
  by (cases "registry st (type_string (deref t))"; cases "deref t")
     (simp_all add: parse_def Let_def)





text \<open>A step of goroutine \<open>i\<close>, stated for a given successor list.\<close>

lemma conc_step_at:
  "i < length ts \<Longrightarrow> parse_step st (ts ! i) = Some (st', t') \<Longrightarrow> ts' = ts[i := t'] \<Longrightarrow>
   conc_step (st, ts) (st', ts')"
  by (simp add: conc_step.intros)

text \<open>A sequential \<open>Parse\<close> that returns is a run of the goroutine alone to its
  return, as big steps of a language become runs of its small steps.\<close>

lemma parse_to_conc_steps:
  assumes "parse st (Some t) = (Inr p, st')"
  shows "conc_step\<^sup>*\<^sup>* (st, [PStart t]) (st', [PDone p])"
proof (cases "registry st (type_string (deref t))")
  case (Some q)
  with assms have "conc_step (st, [PStart t]) (st', [PDone p])"
    by (intro conc_step_at [where i = 0]) (auto simp: parse_def Let_def)
  then show ?thesis by blast
next
  case None
  with assms obtain pkg n fs where t: "deref t = TStruct pkg n fs"
    by (cases "deref t") (auto simp: parse_def Let_def)
  let ?st1 = "st\<lparr>heap := (heap st)(next_ptr st \<mapsto> build_meta (deref t) fs), next_ptr := Suc (next_ptr st)\<rparr>"
  have "conc_step (st, [PStart t]) (?st1, [PWrite (type_string (deref t)) (next_ptr st)])"
    using None t by (intro conc_step_at [where i = 0]) (simp_all add: Let_def)
  moreover have "conc_step (?st1, [PWrite (type_string (deref t)) (next_ptr st)]) (st', [PDone p])"
    using assms None t by (intro conc_step_at [where i = 0]) (auto simp: parse_def Let_def)
  ultimately show ?thesis by (meson rtranclp.rtrancl_refl rtranclp.rtrancl_into_rtrancl)
qed

text \<open>A configuration where every goroutine has returned or panicked is final.\<close>

lemma returned_final:
  assumes "\<forall>t \<in> set ts. (\<exists>p. t = PDone p) \<or> (\<exists>e. t = PPanic e)"
  shows "\<not> conc_step (st, ts) c"
proof
  assume "conc_step (st, ts) c"
  then obtain i st' t' where "i < length ts" "parse_step st (ts ! i) = Some (st', t')"
    by (cases c) (auto elim: conc_stepE)
  with assms show False by (metis nth_mem parse_step.simps(3,4) option.distinct(1))
qed






text \<open>C17: two goroutines that parse the same uncached struct type can interleave so that
  both miss the cache, both allocate a descriptor, and they return different
  descriptors, of which only the second stays cached; run one after the other,
  they return the same one.\<close>

theorem concurrent_parse_race:
  assumes "registry st (type_string t) = None" and "t = TStruct pkg n fs"
  shows "(\<exists>st'. conc_step\<^sup>*\<^sup>* (st, [PStart t, PStart t]) (st', [PDone (next_ptr st), PDone (Suc (next_ptr st))]) \<and>
               registry st' (type_string t) = Some (Suc (next_ptr st)) \<and>
               heap st' (next_ptr st) = Some (build_meta t fs) \<and> heap st' (Suc (next_ptr st)) = Some (build_meta t fs)) \<and>
         (\<exists>st'. conc_step\<^sup>*\<^sup>* (st, [PStart t, PStart t]) (st', [PDone (next_ptr st), PDone (next_ptr st)]) \<and>
               registry st' (type_string t) = Some (next_ptr st))"
proof -
  let ?k = "type_string t" and ?p = "next_ptr st" and ?m = "build_meta t fs"
  let ?st1 = "st\<lparr>heap := (heap st)(?p \<mapsto> ?m), next_ptr := Suc ?p\<rparr>"
  let ?st2 = "?st1\<lparr>heap := (heap ?st1)(Suc ?p \<mapsto> ?m), next_ptr := Suc (Suc ?p)\<rparr>"
  let ?st3 = "?st2\<lparr>registry := (registry ?st2)(?k \<mapsto> ?p)\<rparr>"
  let ?st4 = "?st3\<lparr>registry := (registry ?st3)(?k \<mapsto> Suc ?p)\<rparr>"
  have miss: "parse_step st (PStart t) = Some (?st1, PWrite ?k ?p)"
    using assms by (simp add: Let_def)
  have s1: "conc_step (st, [PStart t, PStart t]) (?st1, [PWrite ?k ?p, PStart t])"
    by (rule conc_step_at [where i = 0]) (simp_all add: miss del: parse_step.simps)
  have s2: "conc_step (?st1, [PWrite ?k ?p, PStart t]) (?st2, [PWrite ?k ?p, PWrite ?k (Suc ?p)])"
    by (rule conc_step_at [where i = 1]) (use assms in \<open>simp_all add: Let_def\<close>)
  have s3: "conc_step (?st2, [PWrite ?k ?p, PWrite ?k (Suc ?p)]) (?st3, [PDone ?p, PWrite ?k (Suc ?p)])"
    by (rule conc_step_at [where i = 0]) simp_all
  have s4: "conc_step (?st3, [PDone ?p, PWrite ?k (Suc ?p)]) (?st4, [PDone ?p, PDone (Suc ?p)])"
    by (rule conc_step_at [where i = 1]) simp_all
  from s1 s2 s3 s4 have "conc_step\<^sup>*\<^sup>* (st, [PStart t, PStart t]) (?st4, [PDone ?p, PDone (Suc ?p)])"
    by (meson rtranclp.rtrancl_refl rtranclp.rtrancl_into_rtrancl)
  then have race: "\<exists>st'. conc_step\<^sup>*\<^sup>* (st, [PStart t, PStart t]) (st', [PDone ?p, PDone (Suc ?p)]) \<and>
              registry st' ?k = Some (Suc ?p) \<and> heap st' ?p = Some ?m \<and> heap st' (Suc ?p) = Some ?m"
    by auto
  let ?st5 = "?st1\<lparr>registry := (registry ?st1)(?k \<mapsto> ?p)\<rparr>"
  have r1: "conc_step (?st1, [PWrite ?k ?p, PStart t]) (?st5, [PDone ?p, PStart t])"
    by (rule conc_step_at [where i = 0]) simp_all
  have r2: "conc_step (?st5, [PDone ?p, PStart t]) (?st5, [PDone ?p, PDone ?p])"
    by (rule conc_step_at [where i = 1]) (use assms in \<open>simp_all add: Let_def\<close>)
  from s1 r1 r2 have "conc_step\<^sup>*\<^sup>* (st, [PStart t, PStart t]) (?st5, [PDone ?p, PDone ?p])"
    by (meson rtranclp.rtrancl_refl rtranclp.rtrancl_into_rtrancl)
  then have "\<exists>st'. conc_step\<^sup>*\<^sup>* (st, [PStart t, PStart t]) (st', [PDone ?p, PDone ?p]) \<and>
              registry st' ?k = Some ?p"
    by auto
  with race show ?thesis by blast
qed

theorem concurrent_parse_race_witness:
  "\<exists>st'. conc_step\<^sup>*\<^sup>* (init_meta_state, [PStart (TStruct ''main'' ''User'' []), PStart (TStruct ''main'' ''User'' [])])
           (st', [PDone 0, PDone 1]) \<and> registry st' ''main.User'' = Some 1"
proof -
  have "registry init_meta_state (type_string (TStruct ''main'' ''User'' [])) = None"
    by (simp add: init_meta_state_def)
  from conjunct1 [OF concurrent_parse_race [OF this refl]] show ?thesis
    by (auto simp: init_meta_state_def)
qed

end
