(* ===== verification/Spec2Isabelle.thy ===== *)
theory Spec2Isabelle
  imports Example_App App Router Reflect_Value Example_Test Example_Flows Repository_Test Parse_Test
    App_Test Concurrent_Parse
begin

text \<open>
  \<^bold>\<open>A verification development for go-blar.\<close>
  go-blar turns Go struct declarations into table mappings, a generic CRUD layer,
  lifecycle hooks and REST routes.  The metadata parser and registry of
  \<^verbatim>\<open>src/internal/meta/parse.go\<close> is the core every other part consumes: the
  app (\<^verbatim>\<open>src/goblar\<close>) parses each registered model into a cached descriptor,
  the router (second half of \<^verbatim>\<open>src/internal/hooks/hooks.go\<close>) derives a path
  from the descriptor's name and binds the five handlers of
  \<^verbatim>\<open>src/internal/http/handlers.go\<close>, and each handler runs a before-hook
  (\<^verbatim>\<open>src/internal/hooks/hooks.go\<close>), a storage call on the GORM handle and an
  after-hook.  The generic repository (\<^verbatim>\<open>src/unnamed/part_003\<close>) offers the same
  storage calls behind a nil check.  Each part is a group of plain HOL definitions,
  one theory per component, with the properties that make it correct or that show
  where it is not.

  \<^bold>\<open>Theories and what they model.\<close>
  \<^item> \<open>Prelude\<close>: the Go library functions the sources call, as executable HOL
    functions: \<open>strings.Split\<close> with a one-character separator (\<open>go_split\<close>, with
    its inverse \<open>go_join\<close>), \<open>TrimSpace\<close>, \<open>HasPrefix\<close>, \<open>TrimPrefix\<close>,
    \<open>Contains\<close> (proved equal to \<open>sublist\<close>), \<open>StructTag.Get\<close> over the list of
    key/value pairs of a tag, and the ASCII classes the naming code tests.
  \<^item> \<open>Naming\<close>: \<open>toSnakeCase\<close> (parse.go 153--180); \<open>snake_loop\<close> follows the
    rune loop index for index, \<open>snake_walk\<close> is a structural reference proved equal.
  \<^item> \<open>Meta_Model\<close>: the structs of package \<open>meta\<close> (part_002) as records, their
    lookups, and reflect's view of a type.
  \<^item> \<open>Tags\<close>: \<open>parseField\<close> and \<open>parseGormTag\<close> (parse.go 68--151), one arm of
    the fragment switch per case, in source order.
  \<^item> \<open>Registry\<close>: \<open>Parse\<close> and \<open>ClearRegistry\<close> (parse.go 8--66, 182--185).  The
    global map becomes the record \<open>meta_state\<close> (registry from type string to
    pointer, heap from pointers to descriptors, next free address); a panic is an
    error value; \<open>meta_reachable\<close> is the inductive set of states reachable by any
    sequence of calls, with the invariant \<open>meta_inv\<close> proved by rule induction.
  \<^item> \<open>Concurrent_Parse\<close>: \<open>Parse\<close> as a goroutine of three kinds of step (the
    lookup of line 21, the build of lines 26--60, the store of line 63) and
    \<open>conc_step\<close>, the inductive interleaving of goroutines over one registry.
  \<^item> \<open>Hooks\<close>: the six interfaces of src/goblar/hooks.go as \<open>hook_kind\<close>, an
    entity's method set as a method table, the six \<open>Call*\<close> dispatchers, and the
    test entities and tests of part_004.
  \<^item> \<open>Router\<close>: \<open>New\<close>, \<open>AddMiddleware\<close>, \<open>ApplyMiddleware\<close> over chi's \<open>Use\<close>
    (its loop both as Go runs it on a signed index and as a structural reference),
    \<open>toURLPath\<close> on \<open>8 word\<close> bytes (Go's \<open>byte(r+'a'-'A'+1)\<close> wraps), and
    \<open>RegisterEntityRoutes\<close> over chi's route table.
  \<^item> \<open>Repository\<close>: GORM as an interface, the record \<open>driver\<close> of the calls the
    sources make over an abstract database state; the generic repository; and
    \<open>mem_driver\<close>, an in-memory driver with the storage contract of the
    specification, over which the round trips are proved.  \<open>ComputeAggregates\<close> is
    the stub it is.
  \<^item> \<open>Strconv\<close>: \<open>strconv.ParseInt(s, 10, 64)\<close> as the handlers call it, and
    \<open>FormatInt\<close> as the tests use it to write ids (the standard library,
    modelled so that the handlers' 400 branch and the id round trip are exact).
  \<^item> \<open>Handlers\<close>: the five handlers as functions from the decoded request (body
    as an option, the \<open>{id}\<close> string) and the database state to the response, the new
    state and the trace of hook dispatches and storage calls, so that the order of
    the calls is part of what is proved.  A method call on a \<open>nil\<close> handle is
    \<open>Panic\<close>.
  \<^item> \<open>App\<close>: the config and its functional options (part_001), \<open>New\<close>,
    \<open>Register\<close> threading the metadata cache and the database, \<open>Start\<close> up to the
    server it builds, and \<open>Run\<close>.
  \<^item> \<open>Example_App\<close> and this theory: the entities of src/example_main.go, the hooks
    of \<open>Product\<close>, and \<open>main\<close> as \<open>example_main\<close>.
  \<^item> \<open>Example_Test\<close>: the test package's \<open>Product\<close> with \<open>CalculateTotals\<close> and
    \<open>AfterFind\<close>, and the util package's \<open>DeepFieldByName\<close> over a model of
    \<open>reflect.Value\<close> and \<open>IsZeroValue\<close> (both appended to src/example_main.go).
  \<^item> \<open>Reflect_Value\<close>: the model of \<open>reflect.Value\<close> (\<open>gvalue\<close>: the invalid
    Value, basic kinds, pointers and slices with their nil, structs as named field
    lists), the zero value of a type, reflect's \<open>IsZero\<close> (a panic on the invalid
    Value is \<^const>\<open>None\<close>), and \<open>makeEntityInstance\<close>/\<open>makeEntitySlice\<close> of
    handlers.go 199--208 as \<open>reflect.New\<close> of the descriptor's type.
  \<^item> \<open>Example_Flows\<close>: the rest of that test package: its entity declarations, model
    tests, HTTP tests and CRUD flow tests, the flows as sequences of driver calls
    that stop at the first \<open>t.Fatalf\<close> (\<open>TestProductDetailFlow\<close> with GORM's
    many-to-many \<open>Append\<close> and \<open>Preload\<close> over the join table), and the
    package's second test file.
  \<^item> \<open>Test_Harness\<close>, \<open>Repository_Test\<close>, \<open>Parse_Test\<close>, \<open>App_Test\<close>: the unit
    tests of src/internal/repo/repository_test.go, src/internal/meta/parse_test.go,
    src/goblar/app_test.go and src/goblar/options_test.go, each test function a
    function from the database and the shared registry to an outcome (pass, the
    \<open>t.Fatal\<close> message, or a panic), a file's tests run in source order as
    \<open>go test\<close> runs them.

  \<^bold>\<open>What is proved.\<close>
  Registry: the cache returns the same instance (C1), stays consistent in every
  reachable state (C2), makes progress (every struct parse from a reachable state
  succeeds and caches its descriptor, C12), and \<open>ClearRegistry\<close> makes the next
  parse allocate afresh without touching the old instance (C3); a descriptor lists
  the exported fields in order (C28) and names its table by the first \<open>table:\<close>
  fragment of a \<open>gorm\<close> field or the pluralised snake case (C29).  Concurrent
  \<open>Parse\<close>: every interleaving from a consistent registry keeps the registry and
  the goroutines pointing to allocated descriptors (C18).  Tags: the flags follow the
  fragments exactly (C5, C31).  Naming: \<open>toSnakeCase\<close> only inserts underscores and
  lower-cases (C32).  Repository: without a handle every call fails with
  \<open>ErrInvalidDB\<close> (C23); over the contract, create/get, update/get and delete/get
  round-trip (C24--C26).  Handlers: over a handle, each handler's status is the
  one the specification's error mapping gives, branch by branch (C13); a failing
  before-hook aborts before storage (C6); create then get returns the stored
  entity, with the calls in order (C7); missing rows give 404 on get and delete
  (C10), delete then get gives 404 (C22).  Router: middleware is pushed in reverse
  order (C27), and the signed loop of \<open>ApplyMiddleware\<close>, a \<open>partial_function\<close>,
  terminates with the structural loop's result (C14).  Sample and test code:
  \<open>CalculateTotals\<close> sets the totals to the sums over the items and is idempotent
  (C33); \<open>DeepFieldByName\<close> resolves a nested path through pointers (C34).
  Lemmas that are not listed as properties show that the flow tests and the unit
  tests of the repository pass on the model (\<open>tag_flow_passes\<close>,
  \<open>flow_tests_pass\<close>, \<open>parse_tests_pass\<close>, \<open>repository_tests_pass\<close>,
  \<open>goblar_tests_pass\<close>), that a goroutine of the concurrent model run alone
  computes \<open>Parse\<close> and every returning \<open>Parse\<close> is such a run
  (\<open>parse_alone_eq_parse\<close>, \<open>parse_to_conc_steps\<close>), that the sample program's
  \<open>Product\<close> hook rejects a negative price before storage
  (\<open>product_negative_price_rejected\<close>), that \<open>makeEntityInstance\<close> allocates a
  well-typed zero value (\<open>zero_of_typed\<close>), that the hook tests of hooks_test.go
  pass (\<open>hooks_tests_pass\<close>) and the dispatchers are no-ops for entities without
  hooks (\<open>dispatch_without_hooks\<close>), and that the parse tests depend on their
  \<open>ClearRegistry\<close>: two of them declare a local \<open>meta.Product\<close>, and without the
  clear the second would get the first's descriptor
  (\<open>parse_field_tags_needs_clear\<close>).

  \<^bold>\<open>Where the code departs from the specification or its own intent\<close> (each one is
  a theorem): the last primary-key field wins (C4); \<open>Parse\<close> panics where a
  \<open>ParseError\<close> is specified (C15); the cache key is \<open>t.String()\<close> (C16); the
  registry is read and written without a lock, so two concurrent parses of one type
  can both miss and return different descriptors (C17); the app registry is keyed
  by the bare name, so same-named types of two packages collide (C19); aggregates
  are dropped (C30); \<open>toURLPath\<close> shifts by 33 instead of lower-casing (C9);
  \<open>Run\<close> can never serve (C8); \<open>Start\<close> never registers a route (C20); update of
  a missing row answers 200, not 404 (C11); the handlers bypass the repository and
  panic on a \<open>nil\<close> handle (C21); the HTTP tests of the test package never send
  their requests and pass whatever the handlers do
  (\<open>http_tests_pass_without_requests\<close>); \<open>IsZeroValue\<close> panics on the invalid
  value \<open>DeepFieldByName\<close> returns for a path that does not resolve (C35).

  \<^bold>\<open>Modelling choices.\<close>
  Runes are \<^typ>\<open>char\<close>s; \<open>ToLower\<close>/\<open>TrimSpace\<close> act on ASCII only (every
  comparison of the source is on an ASCII range).  A struct tag is its list of
  key/value pairs; \<open>FieldByName\<close> sees declared fields only.  \<open>*FieldMeta\<close>
  pointers are the values they point to; \<open>*EntityMeta\<close> pointers are addresses of
  the explicit heap, because the claims on the cache are about instance identity.
  JSON decoding is abstract: the decoded entity, or \<^const>\<open>None\<close> on failure; hooks
  may change the entity but their writes through the transaction handle are not
  modelled.  Prices and totals are exact \<^typ>\<open>real\<close>s and quantities unbounded
  \<^typ>\<open>int\<close>s (only signs and sums are claimed, not float rounding).
  \<open>ParseInt\<close> reports a syntax error where Go reports a range error for an
  overflowing digit run followed by a non-digit; the handlers answer 400 to both.
  The concurrent model treats each registry map access as one atomic step.  No fuel is
  needed: every loop of the modelled code is structural or has a measure
  (\<open>snake_loop\<close>: \<open>length rs - i\<close>; \<open>apply_loop\<close> counts down), except the signed
  loop \<open>apply_loop_go\<close>, a \<open>partial_function (option)\<close> whose termination is a
  theorem (C14).  In the test package, has-many items are stored with their product row (GORM
  creates them with the product and \<open>Preload\<close> reads them back), the many-to-many
  tags go through the join table, kept as the list of its rows, and each table is
  its own driver state.

  \<^bold>\<open>Not modelled.\<close> GORM's SQL generation and migrations, chi's matching and the
  HTTP server loop, and JSON encoding are external; they appear only as the
  interfaces above.  The JSON logging helper \<open>toJSON\<close> of the test package only
  formats log output and is not modelled; opening a database (\<open>gorm.Open\<close>) is I/O,
  so the tests take the database as a parameter; src/unnamed/part_000 and
  src/README.md are documentation.
\<close>

section \<open>The sample program\<close>

text \<open>\<open>main\<close> of src/example_main.go (lines 42--65), given the opened database:
  \<open>New(WithDB(db), WithAddress(":8080"))\<close>, \<open>Register(&Product{}, &User{})\<close>,
  \<open>Start()\<close>; \<open>log.Fatal\<close> of an error ends the program with that error.\<close>

definition example_main ::
  "('e, 'db) driver \<Rightarrow> meta_state \<Rightarrow> 'db \<Rightarrow> 'h run_result \<times> meta_state \<times> 'db" where
  "example_main d st db =
     (let a = (new_app [WithDB (Some d), WithAddress '':8080''] :: ('e, 'db, unit, 'h) app) in
      case register a st db [Some (TPtr product_type), Some (TPtr user_type)] of
        (RegOk, a', st', db') \<Rightarrow> (Serving (snd (start a')), st', db')
      | (RegError e, _, st', db') \<Rightarrow> (RunError e, st', db')
      | (RegPanic p, _, st', db') \<Rightarrow> (RunPanic p, st', db'))"

section \<open>End-to-end properties\<close>

text \<open>Registering the sample entities \<open>Product\<close> and \<open>User\<close> (as \<open>main\<close> of
  example_main.go does, through pointers) on an empty registry yields two
  descriptors with tables \<open>products\<close> and \<open>users\<close>, each with its primary key
  \<open>ID\<close>.\<close>

theorem register_example_models:
  "fst (parse init_meta_state (Some (TPtr product_type))) = Inr 0 \<and>
   fst (parse (snd (parse init_meta_state (Some (TPtr product_type)))) (Some (TPtr user_type))) = Inr 1 \<and>
   map_option em_table_name
     (heap (snd (parse (snd (parse init_meta_state (Some (TPtr product_type)))) (Some (TPtr user_type)))) 0)
     = Some ''products'' \<and>
   map_option em_table_name
     (heap (snd (parse (snd (parse init_meta_state (Some (TPtr product_type)))) (Some (TPtr user_type)))) 1)
     = Some ''users'' \<and>
   map_option (map_option fm_name \<circ> em_pk_field)
     (heap (snd (parse (snd (parse init_meta_state (Some (TPtr product_type)))) (Some (TPtr user_type)))) 0)
     = Some (Some ''ID'') \<and>
   map_option (map_option fm_name \<circ> em_pk_field)
     (heap (snd (parse (snd (parse init_meta_state (Some (TPtr product_type)))) (Some (TPtr user_type)))) 1)
     = Some (Some ''ID'')"
  by code_simp

text \<open>\<open>Product\<close>'s \<open>BeforeCreate\<close> hook guards the store: \<open>POST\<close> of a
  product with a negative price answers 500 with the hook's error and stores
  nothing.\<close>

theorem product_negative_price_rejected:
  "create_handler product_methods (new_handlers (Some (mem_driver product_ops))) ()
     (Some \<lparr>product_id = 0, product_name = ''Widget'', product_price = -1, product_quantity = 5,
            product_secret = ''s3cret''\<rparr>) empty_mem_db =
   (http_error 500 ''unsupported data'', empty_mem_db, [EvHook BeforeCreate])"
  by (simp add: create_handler_def product_methods_def call_hook_defs call_hook_def new_handlers_def)

end
